theory Spec2Isabelle
  imports Complex_Main "HOL-Library.Word" "HOL-Library.Multiset" "HOL-Library.Code_Target_Nat"
begin

chapter \<open>The model\<close>

section \<open>Programs with state and errors\<close>

text \<open>
  A Go method that mutates its receiver and may return an error or panic is a function
  from the state to a result and the state it leaves: \<open>Inl\<close> is the error (or panic),
  \<open>Inr\<close> the value returned. The state is returned in both cases, since what was
  mutated before the error stays mutated.
\<close>

type_synonym ('e, 's, 'a) prog = "'s \<Rightarrow> ('e + 'a) \<times> 's"

definition ret :: "'a \<Rightarrow> ('e, 's, 'a) prog" where
  "ret v = (\<lambda>s. (Inr v, s))"

definition throw :: "'e \<Rightarrow> ('e, 's, 'a) prog" where
  "throw e = (\<lambda>s. (Inl e, s))"

definition bnd :: "('e, 's, 'a) prog \<Rightarrow> ('a \<Rightarrow> ('e, 's, 'b) prog) \<Rightarrow> ('e, 's, 'b) prog" where
  "bnd m f = (\<lambda>s. case m s of (Inl e, s1) \<Rightarrow> (Inl e, s1) | (Inr v, s1) \<Rightarrow> f v s1)"

definition thn :: "('e, 's, unit) prog \<Rightarrow> ('e, 's, 'b) prog \<Rightarrow> ('e, 's, 'b) prog" where
  "thn m n = bnd m (\<lambda>_. n)"

definition gets :: "('s \<Rightarrow> 'a) \<Rightarrow> ('e, 's, 'a) prog" where
  "gets f = (\<lambda>s. (Inr (f s), s))"

definition modify :: "('s \<Rightarrow> 's) \<Rightarrow> ('e, 's, unit) prog" where
  "modify f = (\<lambda>s. (Inr (), f s))"

definition liftE :: "'e + 'a \<Rightarrow> ('e, 's, 'a) prog" where
  "liftE r = (\<lambda>s. (r, s))"

definition whenE :: "bool \<Rightarrow> ('e, 's, unit) prog \<Rightarrow> ('e, 's, unit) prog" where
  "whenE b m = (if b then m else ret ())"

text \<open>\<^verbatim>\<open>for _, v := range vs { body }\<close>, left at the first error.\<close>

fun forEach :: "'v list \<Rightarrow> ('v \<Rightarrow> ('e, 's, unit) prog) \<Rightarrow> ('e, 's, unit) prog" where
  "forEach [] body = ret ()"
| "forEach (v # vs) body = bnd (body v) (\<lambda>_. forEach vs body)"

text \<open>A loop that builds a list and stops at the first error.\<close>

fun mapE :: "('a \<Rightarrow> 'e + 'b) \<Rightarrow> 'a list \<Rightarrow> 'e + 'b list" where
  "mapE f [] = Inr []"
| "mapE f (v # vs) =
     (case f v of
        Inl e \<Rightarrow> Inl e
      | Inr w \<Rightarrow> (case mapE f vs of Inl e \<Rightarrow> Inl e | Inr ws \<Rightarrow> Inr (w # ws)))"

text \<open>A loop over events that carries local variables along and stops at the first error.\<close>

fun foldE :: "('v \<Rightarrow> 'c \<Rightarrow> ('e, 's, 'c) prog) \<Rightarrow> 'v list \<Rightarrow> 'c \<Rightarrow> ('e, 's, 'c) prog" where
  "foldE body [] acc = ret acc"
| "foldE body (v # vs) acc = bnd (body v acc) (foldE body vs)"

text \<open>
  What stays true of a state: \<open>pres P m\<close> says that the program \<open>m\<close>, started in a
  state where \<open>P\<close> holds, leaves a state where \<open>P\<close> holds, whether it returns a value or
  an error.
\<close>

definition pres :: "('s \<Rightarrow> bool) \<Rightarrow> ('e, 's, 'a) prog \<Rightarrow> bool" where
  "pres P m = (\<forall>s. P s \<longrightarrow> P (snd (m s)))"

section \<open>Transaction selector: \<^verbatim>\<open>getL2Profitable\<close>\<close>

text \<open>
  The pool transaction, reduced to the fields the selection reads. \<^verbatim>\<open>Nonce\<close> is
  \<^verbatim>\<open>common.Nonce\<close> (an unsigned 64-bit integer, compared unsigned);
  \<^verbatim>\<open>AbsoluteFee\<close> is a \<^verbatim>\<open>float64\<close>, modelled by the real number it denotes
  (finite values only: a NaN has no place in the order \<^verbatim>\<open>Less\<close> sorts by).
\<close>

record PoolL2Tx =
  TxID :: nat
  Nonce :: "64 word"
  AbsoluteFee :: real

text \<open>\<^verbatim>\<open>txs.Less\<close>: \<^verbatim>\<open>t[i].AbsoluteFee > t[j].AbsoluteFee\<close>.\<close>

definition Less :: "PoolL2Tx \<Rightarrow> PoolL2Tx \<Rightarrow> bool" where
  "Less a b = (AbsoluteFee a > AbsoluteFee b)"

text \<open>
  \<^verbatim>\<open>sort.Sort\<close> belongs to the Go library, not to the repository: it returns a
  permutation of its input that is ordered by \<^verbatim>\<open>Less\<close>, and says nothing about the
  order of elements that \<^verbatim>\<open>Less\<close> does not separate. \<open>getL2Profitable\<close> takes it as
  the parameter \<open>srt\<close>; \<open>sort_contract\<close> is what the library promises.
\<close>

definition sort_contract :: "(PoolL2Tx list \<Rightarrow> PoolL2Tx list) \<Rightarrow> bool" where
  "sort_contract srt =
     (\<forall>xs. mset (srt xs) = mset xs \<and> sorted_wrt (\<lambda>a b. \<not> Less b a) (srt xs))"

text \<open>One sort that meets the contract: insertion by descending fee.\<close>

definition sortSort :: "PoolL2Tx list \<Rightarrow> PoolL2Tx list" where
  "sortSort xs = sort_key (\<lambda>t. - AbsoluteFee t) xs"

text \<open>
  \<^verbatim>\<open>sort.SliceStable\<close> with \<^verbatim>\<open>txs[i].Nonce < txs[j].Nonce\<close> is the stable sort by
  nonce, which is \<open>sort_key Nonce\<close>. \<^verbatim>\<open>max\<close> is a \<^verbatim>\<open>uint32\<close>; \<^verbatim>\<open>int(max)\<close> is its
  value.
\<close>

definition getL2Profitable ::
  "(PoolL2Tx list \<Rightarrow> PoolL2Tx list) \<Rightarrow> PoolL2Tx list \<Rightarrow> 32 word \<Rightarrow> PoolL2Tx list" where
  "getL2Profitable srt txs mx =
     (let txs1 = srt txs in
      if length txs1 < unat mx then txs1
      else sort_key Nonce (take (unat mx) txs1))"

definition tx_hi :: PoolL2Tx where
  "tx_hi = \<lparr>TxID = 0, Nonce = 1, AbsoluteFee = 2\<rparr>"

definition tx_lo :: PoolL2Tx where
  "tx_lo = \<lparr>TxID = 1, Nonce = 0, AbsoluteFee = 1\<rparr>"

section \<open>Synchronizer, first draft: \<^verbatim>\<open>Status\<close>\<close>

text \<open>
  \<^verbatim>\<open>Status\<close> reads the last saved block and batch from the history database and
  the current block from the chain client, and fills a \<^verbatim>\<open>common.SyncStatus\<close>. The
  three collaborators are not part of the function; they are given by what they return
  (\<^verbatim>\<open>GetLastBatchNum\<close> as the pair Go returns, since the function keeps the value
  when the error is \<^verbatim>\<open>sql.ErrNoRows\<close>). A pointer is an \<open>option\<close>: \<open>None\<close> is
  \<^verbatim>\<open>nil\<close>, and a field assignment through \<^verbatim>\<open>nil\<close> is the run-time panic.
\<close>

datatype status_error =
  PanicNilPointerDereference
| ErrNoRowsStatus
| ErrStatusOther nat

record Block0 =
  EthBlockNum :: "64 word"
  Hash0 :: "256 word"

record SyncStatus =
  CurrentBlock :: "64 word"
  CurrentBatch :: "32 word"
  Synchronized :: bool

record StatusEnv =
  GetLastBlock0 :: "status_error + Block0"
  GetLastBatchNum0 :: "32 word \<times> status_error option"
  EthCurrentBlock0 :: "status_error + 64 word"

text \<open>\<^verbatim>\<open>p.f = v\<close> for a pointer \<^verbatim>\<open>p\<close> to a record.\<close>

definition assign_through ::
  "'r option \<Rightarrow> ('r \<Rightarrow> 'r) \<Rightarrow> status_error + 'r option" where
  "assign_through p upd =
     (case p of None \<Rightarrow> Inl PanicNilPointerDereference | Some r \<Rightarrow> Inr (Some (upd r)))"

text \<open>\<^verbatim>\<open>p.f\<close> read through a pointer.\<close>

definition read_through :: "'r option \<Rightarrow> ('r \<Rightarrow> 'v) \<Rightarrow> status_error + 'v" where
  "read_through p f =
     (case p of None \<Rightarrow> Inl PanicNilPointerDereference | Some r \<Rightarrow> Inr (f r))"

definition Status :: "StatusEnv \<Rightarrow> status_error + SyncStatus option" where
  "Status env =
     (let status = (None :: SyncStatus option) in
      case GetLastBlock0 env of
        Inl err \<Rightarrow> Inl err
      | Inr lastSavedBlock \<Rightarrow>
     (case assign_through status (\<lambda>r. r\<lparr>CurrentBlock := EthBlockNum lastSavedBlock\<rparr>) of
        Inl p \<Rightarrow> Inl p
      | Inr status1 \<Rightarrow>
     (case GetLastBatchNum0 env of (lastSavedBatch, err) \<Rightarrow>
      if err \<noteq> None \<and> err \<noteq> Some ErrNoRowsStatus then Inl (the err)
      else
     (case assign_through status1 (\<lambda>r. r\<lparr>CurrentBatch := lastSavedBatch\<rparr>) of
        Inl p \<Rightarrow> Inl p
      | Inr status2 \<Rightarrow>
     (case EthCurrentBlock0 env of
        Inl err \<Rightarrow> Inl err
      | Inr latestBlockNum \<Rightarrow>
     (case read_through status2 CurrentBlock of
        Inl p \<Rightarrow> Inl p
      | Inr cur \<Rightarrow>
     (case assign_through status2 (\<lambda>r. r\<lparr>Synchronized := (cur = latestBlockNum)\<rparr>) of
        Inl p \<Rightarrow> Inl p
      | Inr status3 \<Rightarrow> Inr status3)))))))"

definition status_env_ok :: StatusEnv where
  "status_env_ok =
     \<lparr>GetLastBlock0 = Inr \<lparr>EthBlockNum = 7, Hash0 = 1\<rparr>,
      GetLastBatchNum0 = (3, None),
      EthCurrentBlock0 = Inr 7\<rparr>"

section \<open>Test-set generator (package \<^verbatim>\<open>transakcio\<close>): queues and account indices\<close>

datatype TxType =
  TxTypeExit
| TxTypeTransfer
| TxTypeDeposit
| TxTypeCreateAccountDeposit
| TxTypeCreateAccountDepositTransfer
| TxTypeDepositTransfer
| TxTypeForceTransfer
| TxTypeForceExit
| TxTypeTransferToEthAddr
| TxTypeTransferToBJJ
| txTypeCreateAccountDepositCoordinator
| typeNewBatch
| typeNewBatchL1
| typeNewBlock
| typeRegisterToken

datatype til_error =
  PanicNilPointer
| PanicIndexOutOfRange
| ErrTokenNotRegistered
| ErrAccountNotCreatedYet
| ErrCreateSameAccountTwice
| ErrTransferToNonExistingAccount
| ErrTokenIDNotSequential
| ErrUnexpectedType
| ErrNewTx nat

text \<open>
  Modelled from the spec: \<^verbatim>\<open>common.UserThreshold\<close>, a constant of a package that is
  not among the sources. The spec: user accounts start at 256.
\<close>

definition UserThreshold :: int where
  "UserThreshold = 256"

record Account =
  Idx :: int
  AccNonce :: "64 word"

record User =
  BJJ :: nat
  Addr :: "160 word"
  Accounts :: "32 word \<rightharpoonup> Account"

record common_L1Tx =
  L1FromIdx :: int
  L1ToIdx :: int
  L1FromEthAddr :: "160 word"
  L1FromBJJ :: "nat option"
  L1TokenID :: "32 word"
  L1LoadAmount :: "int option"
  L1Amount :: "int option"
  L1Type :: "TxType option"

record common_L2Tx =
  L2FromIdx :: int
  L2ToIdx :: int
  L2Amount :: "int option"
  L2Fee :: "8 word"
  L2Nonce :: "64 word"
  L2Type :: "TxType option"
  L2BatchNum :: int

record L1Tx =
  lineNum1 :: int
  fromIdxName1 :: string
  toIdxName1 :: string
  L1Tx :: common_L1Tx

record L2Tx =
  lineNum2 :: int
  fromIdxName2 :: string
  toIdxName2 :: string
  tokenID2 :: "32 word"
  L2Tx :: common_L2Tx

record til_Token =
  tilTokenID :: "32 word"
  tilEthBlockNum :: int

record til_BatchData =
  tilL1Batch :: bool
  L1CoordinatorTxs :: "common_L1Tx list"
  testL1CoordinatorTxs :: "L1Tx list"
  L2Txs :: "common_L2Tx list"
  testL2Txs :: "L2Tx list"

record til_BlockData =
  L1UserTxs :: "common_L1Tx list"
  Batches :: "til_BatchData list"
  RegisteredTokens :: "til_Token list"

record instruction =
  lineNum :: int
  inst_typ :: TxType
  inst_from :: string
  inst_to :: string
  tokenID :: "32 word"
  loadAmount :: "64 word"
  amount :: "64 word"
  fee :: "8 word"

text \<open>
  The test context. \<^verbatim>\<open>l1CreatedAccounts\<close> maps a key to a pointer to an account that
  \<^verbatim>\<open>Users\<close> also points to: the model keeps, for the key, the user name and token
  under which \<open>Users\<close> holds that account. \<open>blocks\<close> is the local variable of
  \<^verbatim>\<open>GenerateBlocks\<close>. The fields \<^verbatim>\<open>Instructions\<close> and \<^verbatim>\<open>accountsNames\<close>, which
  only keep the parsed set, are left out. \<^verbatim>\<open>idx\<close>, \<^verbatim>\<open>toForgeNum\<close> and
  \<^verbatim>\<open>openToForge\<close> are Go \<^verbatim>\<open>int\<close>s (64 bits); they start at 256, 0 and 1 and grow by
  one per created account or queue, so they stay far from the bound and are integers
  here.
\<close>

record TestContext =
  Users :: "string \<rightharpoonup> User"
  lastRegisteredTokenID :: "32 word"
  l1CreatedAccounts :: "string \<rightharpoonup> string \<times> 32 word"
  rollupConstMaxL1UserTx :: int
  idx :: int
  currBlock :: til_BlockData
  currBatch :: til_BatchData
  currBatchNum :: int
  queues :: "L1Tx list list"
  toForgeNum :: int
  openToForge :: int
  blocks :: "til_BlockData list"

text \<open>
  What the generator takes from packages that are not among the sources: the key of
  \<^verbatim>\<open>l1CreatedAccounts\<close>, the two constructors of L2 transactions (they may fail), and
  the keys \<^verbatim>\<open>generateKeys\<close> derives from an account's position in the list of names.
\<close>

record til_env =
  idxTokenIDToString :: "string \<Rightarrow> 32 word \<Rightarrow> string"
  NewPoolL2Tx :: "common_L2Tx \<Rightarrow> til_error + common_L2Tx"
  NewL2Tx :: "common_L2Tx \<Rightarrow> til_error + common_L2Tx"
  keyBJJ :: "nat \<Rightarrow> nat"
  keyAddr :: "nat \<Rightarrow> 160 word"

definition emptyBatchData :: til_BatchData where
  "emptyBatchData =
     \<lparr>tilL1Batch = False, L1CoordinatorTxs = [], testL1CoordinatorTxs = [], L2Txs = [],
      testL2Txs = []\<rparr>"

definition emptyBlockData :: til_BlockData where
  "emptyBlockData = \<lparr>L1UserTxs = [], Batches = [], RegisteredTokens = []\<rparr>"

definition emptyL1Tx :: common_L1Tx where
  "emptyL1Tx =
     \<lparr>L1FromIdx = 0, L1ToIdx = 0, L1FromEthAddr = 0, L1FromBJJ = None, L1TokenID = 0,
      L1LoadAmount = None, L1Amount = None, L1Type = None\<rparr>"

definition emptyL2Tx :: common_L2Tx where
  "emptyL2Tx =
     \<lparr>L2FromIdx = 0, L2ToIdx = 0, L2Amount = None, L2Fee = 0, L2Nonce = 0, L2Type = None,
      L2BatchNum = 0\<rparr>"

definition NewTestContext :: "int \<Rightarrow> TestContext" where
  "NewTestContext rollupConstMaxL1UserTx0 =
     \<lparr>Users = Map.empty,
      lastRegisteredTokenID = 0,
      l1CreatedAccounts = Map.empty,
      rollupConstMaxL1UserTx = rollupConstMaxL1UserTx0,
      idx = UserThreshold,
      currBlock = emptyBlockData,
      currBatch = emptyBatchData,
      currBatchNum = 0,
      queues = [[], []],
      toForgeNum = 0,
      openToForge = 1,
      blocks = []\<rparr>"

text \<open>\<^verbatim>\<open>tc.Users[name]\<close> followed by a field access: a panic when the name is unknown.\<close>

definition getUser :: "string \<Rightarrow> (til_error, TestContext, User) prog" where
  "getUser name =
     (\<lambda>tc. case Users tc name of
             None \<Rightarrow> (Inl PanicNilPointer, tc)
           | Some u \<Rightarrow> (Inr u, tc))"

text \<open>\<^verbatim>\<open>tc.Users[name].Accounts[tok]\<close>: the pointer, nil when the user has no such account.\<close>

definition getAccountPtr ::
  "string \<Rightarrow> 32 word \<Rightarrow> (til_error, TestContext, Account option) prog" where
  "getAccountPtr name tok = bnd (getUser name) (\<lambda>u. ret (Accounts u tok))"

text \<open>The same, dereferenced.\<close>

definition getAccount ::
  "string \<Rightarrow> 32 word \<Rightarrow> (til_error, TestContext, Account) prog" where
  "getAccount name tok =
     bnd (getAccountPtr name tok) (\<lambda>p.
       case p of None \<Rightarrow> throw PanicNilPointer | Some a \<Rightarrow> ret a)"

text \<open>\<^verbatim>\<open>tc.queues[i]\<close>: a panic when the index is out of range.\<close>

definition queueAt :: "int \<Rightarrow> (til_error, TestContext, L1Tx list) prog" where
  "queueAt i =
     (\<lambda>tc. if 0 \<le> i \<and> i < int (length (queues tc)) then (Inr (queues tc ! nat i), tc)
           else (Inl PanicIndexOutOfRange, tc))"

definition checkIfAccountExists ::
  "string \<Rightarrow> instruction \<Rightarrow> (til_error, TestContext, unit) prog" where
  "checkIfAccountExists tf inst =
     bnd (getAccountPtr tf (tokenID inst)) (\<lambda>p.
       if p = None then throw ErrAccountNotCreatedYet else ret ())"

definition checkIfTokenIsRegistered :: "instruction \<Rightarrow> (til_error, TestContext, unit) prog" where
  "checkIfTokenIsRegistered inst =
     bnd (gets lastRegisteredTokenID) (\<lambda>lst.
       if tokenID inst > lst then throw ErrTokenNotRegistered else ret ())"

text \<open>
  \<^verbatim>\<open>addToL1Queue\<close>: when the open queue has reached the maximum, a new empty queue is
  appended and becomes the open one; the transaction goes to the open queue.
\<close>

definition addToL1Queue :: "L1Tx \<Rightarrow> (til_error, TestContext, unit) prog" where
  "addToL1Queue tx =
     bnd (gets openToForge) (\<lambda>otf.
     bnd (queueAt otf) (\<lambda>q.
     bnd (gets rollupConstMaxL1UserTx) (\<lambda>mx.
     thn (whenE (int (length q) \<ge> mx)
            (modify (\<lambda>tc. tc\<lparr>openToForge := openToForge tc + 1, queues := queues tc @ [[]]\<rparr>)))
    (bnd (gets openToForge) (\<lambda>otf1.
     bnd (queueAt otf1) (\<lambda>q1.
     modify (\<lambda>tc. tc\<lparr>queues := (queues tc)[nat otf1 := q1 @ [tx]]\<rparr>)))))))"

text \<open>
  The creation of an account in \<^verbatim>\<open>calculateIdxForL1Txs\<close>: refused when the user has
  an account for the token already; otherwise the new account takes the counter
  \<^verbatim>\<open>tc.idx\<close> as its index, is entered in \<^verbatim>\<open>l1CreatedAccounts\<close>, and the counter is
  incremented.
\<close>

definition createAccount :: "til_env \<Rightarrow> L1Tx \<Rightarrow> (til_error, TestContext, unit) prog" where
  "createAccount env tx =
     (\<lambda>tc. case Users tc (fromIdxName1 tx) of
             None \<Rightarrow> (Inl PanicNilPointer, tc)
           | Some u \<Rightarrow>
               if Accounts u (L1TokenID (L1Tx tx)) \<noteq> None
               then (Inl ErrCreateSameAccountTwice, tc)
               else (Inr (),
                 tc\<lparr>Users := (Users tc)(fromIdxName1 tx \<mapsto>
                       u\<lparr>Accounts := (Accounts u)(L1TokenID (L1Tx tx) \<mapsto>
                            \<lparr>Idx = idx tc, AccNonce = 0\<rparr>)\<rparr>),
                    l1CreatedAccounts := (l1CreatedAccounts tc)
                      (idxTokenIDToString env (fromIdxName1 tx) (L1TokenID (L1Tx tx))
                         \<mapsto> (fromIdxName1 tx, L1TokenID (L1Tx tx))),
                    idx := idx tc + 1\<rparr>))"

definition calculateIdxForL1Tx ::
  "til_env \<Rightarrow> bool \<Rightarrow> L1Tx \<Rightarrow> (til_error, TestContext, unit) prog" where
  "calculateIdxForL1Tx env isCoordinatorTxs tx =
     thn (whenE (L1Type (L1Tx tx) = Some TxTypeCreateAccountDeposit
                 \<or> L1Type (L1Tx tx) = Some TxTypeCreateAccountDepositTransfer)
           (createAccount env tx))
         (whenE isCoordinatorTxs
           (modify (\<lambda>tc. tc\<lparr>currBatch := (currBatch tc)
              \<lparr>L1CoordinatorTxs := L1CoordinatorTxs (currBatch tc) @ [L1Tx tx]\<rparr>\<rparr>)))"

definition calculateIdxForL1Txs ::
  "til_env \<Rightarrow> bool \<Rightarrow> L1Tx list \<Rightarrow> (til_error, TestContext, unit) prog" where
  "calculateIdxForL1Txs env isCoordinatorTxs txs =
     forEach txs (calculateIdxForL1Tx env isCoordinatorTxs)"

text \<open>\<^verbatim>\<open>tc.Users[name].Accounts[tok].Nonce++\<close>.\<close>

definition incNonce :: "string \<Rightarrow> 32 word \<Rightarrow> (til_error, TestContext, unit) prog" where
  "incNonce name tok =
     (\<lambda>tc. case Users tc name of
             None \<Rightarrow> (Inl PanicNilPointer, tc)
           | Some u \<Rightarrow>
               (case Accounts u tok of
                  None \<Rightarrow> (Inl PanicNilPointer, tc)
                | Some a \<Rightarrow>
                    (Inr (), tc\<lparr>Users := (Users tc)(name \<mapsto>
                       u\<lparr>Accounts := (Accounts u)(tok \<mapsto> a\<lparr>AccNonce := AccNonce a + 1\<rparr>)\<rparr>)\<rparr>)))"

text \<open>\<^verbatim>\<open>testTx := &tc.currBatch.testL2Txs[i]\<close>: reading and writing through it.\<close>

definition testL2TxAt :: "nat \<Rightarrow> (til_error, TestContext, L2Tx) prog" where
  "testL2TxAt i =
     (\<lambda>tc. if i < length (testL2Txs (currBatch tc)) then (Inr (testL2Txs (currBatch tc) ! i), tc)
           else (Inl PanicIndexOutOfRange, tc))"

definition updTestL2Tx ::
  "nat \<Rightarrow> (common_L2Tx \<Rightarrow> common_L2Tx) \<Rightarrow> (til_error, TestContext, unit) prog" where
  "updTestL2Tx i f =
     modify (\<lambda>tc. tc\<lparr>currBatch := (currBatch tc)
       \<lparr>testL2Txs := (testL2Txs (currBatch tc))
          [i := (testL2Txs (currBatch tc) ! i)\<lparr>L2Tx := f (L2Tx (testL2Txs (currBatch tc) ! i))\<rparr>]\<rparr>\<rparr>)"

text \<open>The body of the loop of \<^verbatim>\<open>setIdxs\<close>, for the L2 transaction at position \<open>i\<close>.\<close>

definition setIdx :: "til_env \<Rightarrow> nat \<Rightarrow> (til_error, TestContext, unit) prog" where
  "setIdx env i =
     bnd (testL2TxAt i) (\<lambda>testTx.
     bnd (getAccountPtr (fromIdxName2 testTx) (tokenID2 testTx)) (\<lambda>p.
     if p = None then throw ErrAccountNotCreatedYet
     else
     bnd (gets l1CreatedAccounts) (\<lambda>created.
     if L2Type (L2Tx testTx) = Some TxTypeTransfer
        \<and> created (idxTokenIDToString env (toIdxName2 testTx) (tokenID2 testTx)) = None
     then throw ErrTransferToNonExistingAccount
     else
     thn (incNonce (fromIdxName2 testTx) (tokenID2 testTx))
    (bnd (getAccount (fromIdxName2 testTx) (tokenID2 testTx)) (\<lambda>a1.
     thn (updTestL2Tx i (\<lambda>t. t\<lparr>L2Nonce := AccNonce a1\<rparr>))
    (thn (updTestL2Tx i (\<lambda>t. t\<lparr>L2FromIdx := Idx a1\<rparr>))
    (thn (whenE (L2Type (L2Tx testTx) = Some TxTypeTransfer)
           (bnd (getAccount (toIdxName2 testTx) (tokenID2 testTx)) (\<lambda>b.
            updTestL2Tx i (\<lambda>t. t\<lparr>L2ToIdx := Idx b\<rparr>))))
    (bnd (testL2TxAt i) (\<lambda>testTx1.
     bnd (liftE (NewL2Tx env (L2Tx testTx1))) (\<lambda>nTx.
     thn (updTestL2Tx i (\<lambda>t. nTx))
         (modify (\<lambda>tc. tc\<lparr>currBatch := (currBatch tc)
            \<lparr>L2Txs := L2Txs (currBatch tc) @ [nTx]\<rparr>\<rparr>))))))))))))"

definition setIdxs :: "til_env \<Rightarrow> (til_error, TestContext, unit) prog" where
  "setIdxs env =
     bnd (gets (\<lambda>tc. length (testL2Txs (currBatch tc)))) (\<lambda>n.
     thn (forEach [0..<n] (setIdx env))
         (modify (\<lambda>tc. tc\<lparr>currBlock := (currBlock tc)
                    \<lparr>Batches := Batches (currBlock tc) @ [currBatch tc]\<rparr>,
                  currBatchNum := currBatchNum tc + 1,
                  currBatch := emptyBatchData\<rparr>)))"

text \<open>
  \<^verbatim>\<open>testTx := &tc.queues[tc.toForgeNum][i]\<close> in the case \<^verbatim>\<open>typeNewBatchL1\<close>: reading
  and writing through it.
\<close>

definition queueTxAt :: "nat \<Rightarrow> (til_error, TestContext, L1Tx) prog" where
  "queueTxAt i =
     bnd (gets toForgeNum) (\<lambda>tf.
     bnd (queueAt tf) (\<lambda>q.
       if i < length q then ret (q ! i) else throw PanicIndexOutOfRange))"

definition updQueueTx ::
  "nat \<Rightarrow> (common_L1Tx \<Rightarrow> common_L1Tx) \<Rightarrow> (til_error, TestContext, unit) prog" where
  "updQueueTx i f =
     modify (\<lambda>tc. tc\<lparr>queues := (queues tc)
       [nat (toForgeNum tc) := (queues tc ! nat (toForgeNum tc))
          [i := (queues tc ! nat (toForgeNum tc) ! i)
                  \<lparr>L1Tx := f (L1Tx (queues tc ! nat (toForgeNum tc) ! i))\<rparr>]]\<rparr>)"

text \<open>The body of the loop that sets the real indices of the forged queue, at position \<open>i\<close>.\<close>

definition setQueueTxIdx :: "nat \<Rightarrow> (til_error, TestContext, unit) prog" where
  "setQueueTxIdx i =
     bnd (queueTxAt i) (\<lambda>testTx.
     bnd (getAccount (fromIdxName1 testTx) (L1TokenID (L1Tx testTx))) (\<lambda>a.
     thn (updQueueTx i (\<lambda>t. t\<lparr>L1FromIdx := Idx a\<rparr>))
    (bnd (getUser (fromIdxName1 testTx)) (\<lambda>u.
     thn (updQueueTx i (\<lambda>t. t\<lparr>L1FromEthAddr := Addr u\<rparr>))
    (thn (updQueueTx i (\<lambda>t. t\<lparr>L1FromBJJ := Some (BJJ u)\<rparr>))
    (thn (if toIdxName1 testTx = []
          then updQueueTx i (\<lambda>t. t\<lparr>L1ToIdx := 0\<rparr>)
          else bnd (getAccount (toIdxName1 testTx) (L1TokenID (L1Tx testTx))) (\<lambda>b.
               updQueueTx i (\<lambda>t. t\<lparr>L1ToIdx := Idx b\<rparr>)))
    (bnd (queueTxAt i) (\<lambda>testTx1.
     modify (\<lambda>tc. tc\<lparr>currBlock := (currBlock tc)
       \<lparr>L1UserTxs := L1UserTxs (currBlock tc) @ [L1Tx testTx1]\<rparr>\<rparr>)))))))))"

text \<open>
  The end of the case \<^verbatim>\<open>typeNewBatchL1\<close>: the next queue is the one to forge, and when
  that is the open queue, a new empty queue is appended and becomes the open one.
\<close>

definition advanceBatch :: "(til_error, TestContext, unit) prog" where
  "advanceBatch =
     thn (modify (\<lambda>tc. tc\<lparr>toForgeNum := toForgeNum tc + 1\<rparr>))
         (bnd (gets (\<lambda>tc. toForgeNum tc = openToForge tc)) (\<lambda>b.
            whenE b
              (modify (\<lambda>tc. tc\<lparr>openToForge := openToForge tc + 1, queues := queues tc @ [[]]\<rparr>))))"

definition newBatchL1 :: "til_env \<Rightarrow> (til_error, TestContext, unit) prog" where
  "newBatchL1 env =
     bnd (gets toForgeNum) (\<lambda>tf.
     bnd (queueAt tf) (\<lambda>q.
     thn (calculateIdxForL1Txs env False q)
    (bnd (gets (\<lambda>tc. testL1CoordinatorTxs (currBatch tc))) (\<lambda>cs.
     thn (calculateIdxForL1Txs env True cs)
    (bnd (gets toForgeNum) (\<lambda>tf1.
     bnd (queueAt tf1) (\<lambda>q1.
     thn (forEach [0..<length q1] setQueueTxIdx)
    (thn (setIdxs env)
         advanceBatch))))))))"

text \<open>The L1 transaction an instruction describes (\<^verbatim>\<open>int64(inst.loadAmount)\<close> is \<open>sint\<close>).\<close>

definition userL1Tx :: "instruction \<Rightarrow> common_L1Tx \<Rightarrow> L1Tx" where
  "userL1Tx inst tx =
     \<lparr>lineNum1 = lineNum inst, fromIdxName1 = inst_from inst, toIdxName1 = inst_to inst,
      L1Tx = tx\<rparr>"

definition userL2Tx :: "instruction \<Rightarrow> common_L2Tx \<Rightarrow> L2Tx" where
  "userL2Tx inst tx =
     \<lparr>lineNum2 = lineNum inst, fromIdxName2 = inst_from inst, toIdxName2 = inst_to inst,
      tokenID2 = tokenID inst, L2Tx = tx\<rparr>"

definition addTestL2Tx :: "L2Tx \<Rightarrow> (til_error, TestContext, unit) prog" where
  "addTestL2Tx t =
     modify (\<lambda>tc. tc\<lparr>currBatch := (currBatch tc)
       \<lparr>testL2Txs := testL2Txs (currBatch tc) @ [t]\<rparr>\<rparr>)"

text \<open>One turn of the loop of \<^verbatim>\<open>GenerateBlocks\<close>: the \<^verbatim>\<open>switch inst.typ\<close>.\<close>

definition processInstruction :: "til_env \<Rightarrow> instruction \<Rightarrow> (til_error, TestContext, unit) prog" where
  "processInstruction env inst =
     (case inst_typ inst of
        txTypeCreateAccountDepositCoordinator \<Rightarrow>
          thn (checkIfTokenIsRegistered inst)
         (bnd (getUser (inst_from inst)) (\<lambda>u.
          modify (\<lambda>tc. tc\<lparr>currBatch := (currBatch tc)
            \<lparr>testL1CoordinatorTxs := testL1CoordinatorTxs (currBatch tc) @
               [\<lparr>lineNum1 = lineNum inst, fromIdxName1 = inst_from inst, toIdxName1 = [],
                 L1Tx = emptyL1Tx\<lparr>L1FromEthAddr := Addr u, L1FromBJJ := Some (BJJ u),
                   L1TokenID := tokenID inst, L1LoadAmount := Some (sint (loadAmount inst)),
                   L1Type := Some TxTypeCreateAccountDeposit\<rparr>\<rparr>]\<rparr>\<rparr>)))
      | TxTypeCreateAccountDeposit \<Rightarrow>
          thn (checkIfTokenIsRegistered inst)
         (bnd (getUser (inst_from inst)) (\<lambda>u.
          addToL1Queue (userL1Tx inst
            (emptyL1Tx\<lparr>L1FromEthAddr := Addr u, L1FromBJJ := Some (BJJ u),
               L1TokenID := tokenID inst, L1LoadAmount := Some (sint (loadAmount inst)),
               L1Type := Some TxTypeCreateAccountDeposit\<rparr>))))
      | TxTypeCreateAccountDepositTransfer \<Rightarrow>
          thn (checkIfTokenIsRegistered inst)
         (bnd (getUser (inst_from inst)) (\<lambda>u.
          addToL1Queue (userL1Tx inst
            (emptyL1Tx\<lparr>L1FromEthAddr := Addr u, L1FromBJJ := Some (BJJ u),
               L1TokenID := tokenID inst, L1LoadAmount := Some (sint (loadAmount inst)),
               L1Type := Some TxTypeCreateAccountDepositTransfer,
               L1Amount := Some (sint (amount inst))\<rparr>))))
      | TxTypeDeposit \<Rightarrow>
          thn (checkIfTokenIsRegistered inst)
         (thn (checkIfAccountExists (inst_from inst) inst)
         (addToL1Queue (userL1Tx inst
            (emptyL1Tx\<lparr>L1TokenID := tokenID inst,
               L1LoadAmount := Some (sint (loadAmount inst)),
               L1Type := Some TxTypeDeposit\<rparr>))))
      | TxTypeDepositTransfer \<Rightarrow>
          thn (checkIfTokenIsRegistered inst)
         (thn (checkIfAccountExists (inst_from inst) inst)
         (addToL1Queue (userL1Tx inst
            (emptyL1Tx\<lparr>L1TokenID := tokenID inst,
               L1LoadAmount := Some (sint (loadAmount inst)),
               L1Type := Some TxTypeDepositTransfer,
               L1Amount := Some (sint (amount inst))\<rparr>))))
      | TxTypeTransfer \<Rightarrow>
          thn (checkIfTokenIsRegistered inst)
         (bnd (liftE (NewPoolL2Tx env
                 (emptyL2Tx\<lparr>L2Amount := Some (sint (amount inst)), L2Fee := fee inst,
                    L2Type := Some TxTypeTransfer\<rparr>))) (\<lambda>tx.
          bnd (gets currBatchNum) (\<lambda>bn.
          addTestL2Tx (userL2Tx inst (tx\<lparr>L2BatchNum := bn\<rparr>)))))
      | TxTypeExit \<Rightarrow>
          thn (checkIfTokenIsRegistered inst)
         (bnd (gets currBatchNum) (\<lambda>bn.
          addTestL2Tx (userL2Tx inst
            (emptyL2Tx\<lparr>L2ToIdx := 1, L2Amount := Some (sint (amount inst)),
               L2Type := Some TxTypeExit, L2BatchNum := bn\<rparr>))))
      | TxTypeForceExit \<Rightarrow>
          thn (checkIfTokenIsRegistered inst)
         (addToL1Queue (userL1Tx inst
            (emptyL1Tx\<lparr>L1ToIdx := 1, L1TokenID := tokenID inst,
               L1Amount := Some (sint (amount inst)), L1Type := Some TxTypeExit\<rparr>)))
      | typeNewBatch \<Rightarrow>
          bnd (gets (\<lambda>tc. testL1CoordinatorTxs (currBatch tc))) (\<lambda>cs.
          thn (calculateIdxForL1Txs env True cs)
              (setIdxs env))
      | typeNewBatchL1 \<Rightarrow> newBatchL1 env
      | typeNewBlock \<Rightarrow>
          modify (\<lambda>tc. tc\<lparr>blocks := blocks tc @ [currBlock tc], currBlock := emptyBlockData\<rparr>)
      | typeRegisterToken \<Rightarrow>
          bnd (gets (\<lambda>tc. (lastRegisteredTokenID tc, int (length (blocks tc))))) (\<lambda>(lst, nb).
          if tokenID inst \<noteq> lst + 1 then throw ErrTokenIDNotSequential
          else
          modify (\<lambda>tc. tc\<lparr>lastRegisteredTokenID := lastRegisteredTokenID tc + 1,
            currBlock := (currBlock tc)\<lparr>RegisteredTokens := RegisteredTokens (currBlock tc) @
              [\<lparr>tilTokenID = tokenID inst, tilEthBlockNum = nb\<rparr>]\<rparr>\<rparr>))
      | _ \<Rightarrow> throw ErrUnexpectedType)"

text \<open>
  \<^verbatim>\<open>generateKeys\<close>: a user for every account name that has none, with keys derived
  from the position of the name, and no account.
\<close>

definition generateKey :: "til_env \<Rightarrow> nat \<times> string \<Rightarrow> (til_error, TestContext, unit) prog" where
  "generateKey env = (\<lambda>(i, name).
     modify (\<lambda>tc. if Users tc name \<noteq> None then tc
       else tc\<lparr>Users := (Users tc)(name \<mapsto>
              \<lparr>BJJ = keyBJJ env i, Addr = keyAddr env i, Accounts = Map.empty\<rparr>)\<rparr>))"

definition generateKeys :: "til_env \<Rightarrow> string list \<Rightarrow> (til_error, TestContext, unit) prog" where
  "generateKeys env accNames = forEach (zip [1..<length accNames + 1] accNames) (generateKey env)"

text \<open>
  \<^verbatim>\<open>GenerateBlocks\<close>, from the parsed set on (the parser is not among the sources): the
  instructions and the account names. It returns the blocks, or the first error.
\<close>

definition GenerateBlocks ::
  "til_env \<Rightarrow> instruction list \<Rightarrow> string list \<Rightarrow> (til_error, TestContext, til_BlockData list) prog" where
  "GenerateBlocks env instructions accounts =
     thn (generateKeys env accounts)
    (thn (modify (\<lambda>tc. tc\<lparr>blocks := []\<rparr>))
    (thn (forEach instructions (processInstruction env))
         (gets blocks)))"

text \<open>
  The shape of the queues: the maximum is at least one; the queue to forge comes before
  the open queue; the open queue is the last one; no queue is longer than the maximum.
\<close>

definition queues_ok :: "TestContext \<Rightarrow> bool" where
  "queues_ok tc =
     (1 \<le> rollupConstMaxL1UserTx tc \<and>
      0 \<le> toForgeNum tc \<and> toForgeNum tc < openToForge tc \<and>
      openToForge tc + 1 = int (length (queues tc)) \<and>
      list_all (\<lambda>q. int (length q) \<le> rollupConstMaxL1UserTx tc) (queues tc))"

text \<open>
  The index of the account a user holds for a token, and what sequential assignment
  means: the indices in use are exactly those from 256 up to the counter, and no two
  accounts share one.
\<close>

definition accountIdx :: "TestContext \<Rightarrow> string \<times> 32 word \<Rightarrow> int option" where
  "accountIdx tc = (\<lambda>(name, tok).
     case Users tc name of None \<Rightarrow> None | Some u \<Rightarrow> map_option Idx (Accounts u tok))"

definition idxs_ok :: "TestContext \<Rightarrow> bool" where
  "idxs_ok tc =
     (UserThreshold \<le> idx tc \<and>
      ran (accountIdx tc) = {UserThreshold..<idx tc} \<and>
      inj_on (accountIdx tc) (dom (accountIdx tc)))"

text \<open>A small set of instructions and what it needs, to run the generator on.\<close>

definition til_env0 :: til_env where
  "til_env0 =
     \<lparr>idxTokenIDToString = (\<lambda>name tok. name @ replicate (unat tok) CHR ''#''),
      NewPoolL2Tx = Inr, NewL2Tx = Inr, keyBJJ = (\<lambda>i. i), keyAddr = of_nat\<rparr>"

definition tx0 :: L1Tx where
  "tx0 =
     \<lparr>lineNum1 = 1, fromIdxName1 = ''A'', toIdxName1 = [],
      L1Tx = emptyL1Tx\<lparr>L1TokenID := 1, L1LoadAmount := Some 10,
        L1Type := Some TxTypeCreateAccountDeposit\<rparr>\<rparr>"

definition inst0 :: "TxType \<Rightarrow> string \<Rightarrow> instruction" where
  "inst0 t name =
     \<lparr>lineNum = 1, inst_typ = t, inst_from = name, inst_to = [], tokenID = 1,
      loadAmount = 10, amount = 0, fee = 0\<rparr>"

definition insts0 :: "instruction list" where
  "insts0 =
     [inst0 typeRegisterToken [],
      inst0 TxTypeCreateAccountDeposit ''A'',
      inst0 typeNewBatchL1 [],
      inst0 txTypeCreateAccountDepositCoordinator ''B'',
      inst0 typeNewBatchL1 [],
      inst0 typeNewBlock []]"

definition tc_users0 :: TestContext where
  "tc_users0 = snd (generateKeys til_env0 [''A'', ''B''] (NewTestContext 1))"

definition tc_full0 :: TestContext where
  "tc_full0 = snd (addToL1Queue tx0 (NewTestContext 1))"

section \<open>Synchronizer: data\<close>

text \<open>
  Hashes are 32 bytes, addresses 20 bytes. Block, batch and slot numbers are
  \<^verbatim>\<open>int64\<close>; they count blocks of a chain and stay far from the bounds of the type, and
  are integers here. Amounts (\<^verbatim>\<open>*big.Int\<close>) are integers. A value the synchronizer
  only passes on (the content of a transaction, of an exit, of a created account) is a
  number that stands for it.
\<close>

type_synonym hash = "256 word"

type_synonym address = "160 word"

text \<open>
  The errors. \<open>NotFound\<close> is \<^verbatim>\<open>ethereum.NotFound\<close>, \<open>ErrNoRows\<close> is
  \<^verbatim>\<open>sql.ErrNoRows\<close>, \<open>ErrBlockHashMismatchEvent\<close> is
  \<^verbatim>\<open>eth.ErrBlockHashMismatchEvent\<close>; \<open>Errorf\<close> is \<^verbatim>\<open>fmt.Errorf\<close> around an error
  (\<^verbatim>\<open>%w\<close>), which \<^verbatim>\<open>tracerr.Unwrap\<close> does not see through; \<open>ErrCollaborator\<close> is
  any other error a collaborator returns. \<^verbatim>\<open>tracerr.Wrap\<close> only adds a stack trace and
  is not modelled.
\<close>

datatype sync_error =
  NotFound
| ErrNoRows
| ErrBlockHashMismatchEvent
| ErrLastSavedBlockBeforeStart
| ErrWDelayerDepositNotFound
| ErrForgerDiffers
| ErrTokenExchangeLengths
| ErrUnexpectedSlotSet
| ErrCollaborator nat
| Errorf string sync_error
| PanicNilDereference
| PanicIndexRange
| PanicDivideByZero

record Block =
  Num :: int
  Timestamp :: int
  Hash :: hash
  ParentHash :: hash

record Slot =
  SlotNum :: int
  ForgerCommitment :: bool
  StartBlock :: int
  EndBlock :: int
  BootCoord :: bool
  slot_Forger :: address
  slot_URL :: string
  slot_BidValue :: "int option"
  DefaultSlotBid :: "int option"
  slot_Bidder :: address

record EthStats =
  RefreshPeriod :: int
  eth_Updated :: int
  FirstBlockNum :: int
  eth_LastBlock :: Block
  eth_LastBatch :: int

record SyncStats =
  sync_Updated :: int
  sync_LastBlock :: Block
  sync_LastBatch :: int
  LastL1BatchBlock :: int
  LastForgeL1TxsNum :: int
  CurrentSlot :: Slot

record Stats =
  Eth :: EthStats
  Sync :: SyncStats

record BucketParams =
  CeilUSD :: int
  bp_Withdrawals :: int
  BlockWithdrawalRate :: int
  MaxWithdrawals :: int

record RollupVariables =
  rv_EthBlockNum :: int
  FeeAddToken :: int
  ForgeL1L2BatchTimeout :: int
  rv_WithdrawalDelay :: int
  Buckets :: "BucketParams list"
  SafeMode :: bool

record AuctionVariables =
  av_EthBlockNum :: int
  DonationAddress :: address
  BootCoordinator :: address
  BootCoordinatorURL :: string
  DefaultSlotSetBid :: "int list"
  DefaultSlotSetBidSlotNum :: int
  ClosedAuctionSlots :: int
  OpenAuctionSlots :: int
  AllocationRatio :: "int list"
  Outbidding :: int
  SlotDeadline :: int

record WDelayerVariables =
  wv_EthBlockNum :: int
  HermezGovernanceAddress :: address
  EmergencyCouncilAddress :: address
  wv_WithdrawalDelay :: int
  EmergencyModeStartingBlock :: int
  EmergencyMode :: bool

record SCVariables =
  Rollup :: RollupVariables
  Auction :: AuctionVariables
  WDelayer :: WDelayerVariables

record AuctionConstants =
  GenesisBlockNum :: int
  BlocksPerSlot :: int

record Coordinator =
  co_Bidder :: address
  co_Forger :: address
  co_URL :: string
  co_EthBlockNum :: int

record BidCoordinator =
  bc_BidValue :: int
  bc_DefaultSlotSetBid :: "int list"
  bc_Bidder :: address
  bc_Forger :: address
  bc_URL :: string

record Bid =
  bid_SlotNum :: int
  bid_BidValue :: int
  bid_Bidder :: address
  bid_EthBlockNum :: int

text \<open>Transactions, as far as the synchronizer writes to them.\<close>

record sync_L1Tx =
  l1_content :: nat
  l1_ToForgeL1TxsNum :: "int option"
  l1_Position :: int
  l1_UserOrigin :: bool
  l1_EthBlockNum :: int
  l1_BatchNum :: "int option"

record sync_L2Tx =
  l2_content :: nat
  l2_Position :: int
  l2_EthBlockNum :: int
  l2_BatchNum :: int

type_synonym sync_PoolL2Tx = nat

record ExitInfo =
  ex_content :: nat
  ex_BatchNum :: int

record CreatedAccount =
  ca_content :: nat
  ca_Nonce :: int
  ca_Balance :: "int option"
  ca_BatchNum :: int

record ProcessTxsOutput =
  ExitInfos :: "ExitInfo list"
  CreatedAccounts :: "CreatedAccount list"
  CollectedFees :: "(32 word \<times> int) list"

record Batch =
  BatchNum :: int
  b_EthBlockNum :: int
  ForgerAddr :: address
  b_CollectedFees :: "(32 word \<times> int) list"
  FeeIdxsCoordinator :: "int list"
  StateRoot :: int
  NumAccounts :: int
  LastIdx :: int
  ExitRoot :: int
  ForgeL1TxsNum :: "int option"
  b_SlotNum :: int

record BatchData =
  L1Batch :: bool
  bd_L1UserTxs :: "sync_L1Tx list"
  bd_L1CoordinatorTxs :: "sync_L1Tx list"
  bd_L2Txs :: "sync_L2Tx list"
  bd_CreatedAccounts :: "CreatedAccount list"
  ExitTree :: "ExitInfo list"
  bd_Batch :: Batch

record Token =
  TokenID :: "32 word"
  tok_EthAddr :: address
  tok_EthBlockNum :: int
  Name :: string
  Symbol :: string
  Decimals :: "64 word"

record BucketUpdate =
  bu_EthBlockNum :: int
  bu_NumBucket :: int
  bu_BlockStamp :: int
  bu_Withdrawals :: int

record WithdrawInfo =
  wi_Idx :: int
  NumExitRoot :: int
  InstantWithdraw :: bool
  wi_TxHash :: hash
  wi_Owner :: address
  wi_Token :: address

record TokenExchange =
  te_EthBlockNum :: int
  te_Address :: address
  ValueUSD :: int

record RollupData =
  rd_L1UserTxs :: "sync_L1Tx list"
  rd_Batches :: "BatchData list"
  AddedTokens :: "Token list"
  rd_Withdrawals :: "WithdrawInfo list"
  UpdateBucketWithdraw :: "BucketUpdate list"
  TokenExchanges :: "TokenExchange list"
  rd_Vars :: "RollupVariables option"

record AuctionData =
  Bids :: "Bid list"
  Coordinators :: "Coordinator list"
  ad_Vars :: "AuctionVariables option"

record WDelayerTransfer =
  wt_Owner :: address
  wt_Token :: address
  wt_Amount :: int

record WDelayerEscapeHatchWithdrawal =
  eh_EthBlockNum :: int
  eh_Who :: address
  eh_To :: address
  eh_TokenAddr :: address
  eh_Amount :: int

text \<open>
  \<^verbatim>\<open>DepositsByTxHash\<close> maps a transaction hash to pointers into \<^verbatim>\<open>Deposits\<close>; the
  deposits are never written to after they are appended, so the map holds the deposits
  themselves. A hash that is not a key gives the empty list, as in Go.
\<close>

record WDelayerData =
  wd_Vars :: "WDelayerVariables option"
  Deposits :: "WDelayerTransfer list"
  DepositsByTxHash :: "hash \<Rightarrow> WDelayerTransfer list"
  wd_Withdrawals :: "WDelayerTransfer list"
  EscapeHatchWithdrawals :: "WDelayerEscapeHatchWithdrawal list"

record BlockData =
  bk_Block :: Block
  bk_Rollup :: RollupData
  bk_Auction :: AuctionData
  bk_WDelayer :: WDelayerData

text \<open>The events of the three contracts (package \<^verbatim>\<open>eth\<close>), with the fields that are read.\<close>

record RollupEventForgeBatch =
  fb_BatchNum :: int
  EthTxHash :: hash
  L1UserTxsLen :: int

record RollupEventAddToken =
  TokenAddress :: address
  at_TokenID :: "32 word"

record RollupEventUpdateBucketWithdraw =
  ubw_NumBucket :: int
  ubw_BlockStamp :: int
  ubw_Withdrawals :: int

record RollupEventWithdraw =
  we_Idx :: int
  we_NumExitRoot :: int
  we_InstantWithdraw :: bool
  we_TxHash :: hash

record RollupEventUpdateTokenExchange =
  AddressArray :: "address list"
  ValueArray :: "int list"

record RollupEventUpdateBucketsParameters =
  ArrayBuckets :: "BucketParams list"
  ubp_SafeMode :: bool

record RollupEvents =
  ev_L1UserTx :: "sync_L1Tx list"
  ev_ForgeBatch :: "RollupEventForgeBatch list"
  ev_AddToken :: "RollupEventAddToken list"
  ev_UpdateBucketWithdraw :: "RollupEventUpdateBucketWithdraw list"
  ev_Withdraw :: "RollupEventWithdraw list"
  ev_UpdateTokenExchange :: "RollupEventUpdateTokenExchange list"
  ev_UpdateForgeL1L2BatchTimeout :: "int list"
  ev_UpdateFeeAddToken :: "int list"
  ev_UpdateWithdrawalDelay :: "int list"
  ev_UpdateBucketsParameters :: "RollupEventUpdateBucketsParameters list"

record AuctionEventNewBid =
  nb_Slot :: int
  nb_BidAmount :: int
  nb_Bidder :: address

record AuctionEventSetCoordinator =
  BidderAddress :: address
  ForgerAddress :: address
  CoordinatorURL :: string

record AuctionEventNewBootCoordinator =
  NewBootCoordinator :: address
  NewBootCoordinatorURL :: string

record AuctionEventNewDefaultSlotSetBid =
  SlotSet :: int
  NewInitialMinBid :: int

record AuctionEvents =
  ev_NewBid :: "AuctionEventNewBid list"
  ev_SetCoordinator :: "AuctionEventSetCoordinator list"
  ev_NewSlotDeadline :: "int list"
  ev_NewClosedAuctionSlots :: "int list"
  ev_NewOutbidding :: "int list"
  ev_NewDonationAddress :: "address list"
  ev_NewBootCoordinator :: "AuctionEventNewBootCoordinator list"
  ev_NewOpenAuctionSlots :: "int list"
  ev_NewAllocationRatio :: "int list list"
  ev_NewDefaultSlotSetBid :: "AuctionEventNewDefaultSlotSetBid list"

record WDelayerEventDeposit =
  de_Owner :: address
  de_Token :: address
  de_Amount :: int
  de_TxHash :: hash

record WDelayerEventEscapeHatchWithdrawal =
  ehe_Who :: address
  ehe_To :: address
  ehe_Token :: address
  ehe_Amount :: int

record WDelayerEvents =
  ev_Deposit :: "WDelayerEventDeposit list"
  ev_WDelayerWithdraw :: "WDelayerTransfer list"
  ev_EscapeHatchWithdrawal :: "WDelayerEventEscapeHatchWithdrawal list"
  ev_EmergencyModeEnabled :: "unit list"
  ev_NewWithdrawalDelay :: "int list"
  ev_NewEmergencyCouncil :: "address list"
  ev_NewHermezGovernanceAddress :: "address list"

record ForgeBatchArgs =
  fa_L1Batch :: bool
  fa_L1CoordinatorTxs :: "sync_L1Tx list"
  L2TxsData :: "sync_L2Tx list"
  FeeIdxCoordinator :: "int list"
  NewLastIdx :: int
  NewStRoot :: int
  NewExitRoot :: int

record ERC20Consts =
  erc_Name :: string
  erc_Symbol :: string
  erc_Decimals :: "64 word"

text \<open>
  The collaborators, none of which is among the sources: the chain client
  (\<^verbatim>\<open>eth.ClientInterface\<close>), the history database over a state of type \<open>'h\<close>, the state
  database over a state of type \<open>'s\<close> and its transaction processor, the constructors of
  package \<^verbatim>\<open>common\<close>, and the slot arithmetic of the auction constants. A call that
  returns an error in Go returns \<open>Inl\<close>. The chain client answers one call of the
  synchronizer, during which the chain is the same; \<open>Now\<close> is the clock during that call.
\<close>

record ('h, 's) sync_env =
  Now :: int
  EthBlockByNumber :: "int \<Rightarrow> sync_error + Block"
  RollupLastForgedBatch :: "sync_error + int"
  RollupEventsByBlock :: "int \<Rightarrow> sync_error + RollupEvents \<times> hash option"
  AuctionEventsByBlock :: "int \<Rightarrow> sync_error + AuctionEvents \<times> hash option"
  WDelayerEventsByBlock :: "int \<Rightarrow> sync_error + WDelayerEvents \<times> hash option"
  RollupForgeBatchArgs :: "hash \<Rightarrow> int \<Rightarrow> sync_error + ForgeBatchArgs \<times> address"
  EthERC20Consts :: "address \<Rightarrow> sync_error + ERC20Consts"
  AuctionCanForge :: "address \<Rightarrow> int \<Rightarrow> sync_error + bool"
  GetLastBlock :: "'h \<Rightarrow> sync_error + Block"
  GetBlock :: "'h \<Rightarrow> int \<Rightarrow> sync_error + Block"
  Reorg :: "'h \<Rightarrow> int \<Rightarrow> sync_error + 'h"
  GetSCVars :: "'h \<Rightarrow> sync_error + SCVariables"
  SetInitialSCVars :: "'h \<Rightarrow> SCVariables \<Rightarrow> sync_error + 'h"
  AddCoordinators :: "'h \<Rightarrow> Coordinator list \<Rightarrow> sync_error + 'h"
  GetLastBatchNum :: "'h \<Rightarrow> sync_error + int"
  GetLastL1BatchBlockNum :: "'h \<Rightarrow> sync_error + int"
  GetLastL1TxsNum :: "'h \<Rightarrow> sync_error + int option"
  GetUnforgedL1UserTxs :: "'h \<Rightarrow> int \<Rightarrow> sync_error + sync_L1Tx list"
  GetFirstBatchBlockNumBySlot :: "'h \<Rightarrow> int \<Rightarrow> sync_error + int"
  GetBestBidCoordinator :: "'h \<Rightarrow> int \<Rightarrow> sync_error + BidCoordinator"
  AddBlockSCData :: "'h \<Rightarrow> BlockData \<Rightarrow> sync_error + 'h"
  StateDBReset :: "'s \<Rightarrow> int \<Rightarrow> sync_error + 's"
  ProcessTxs :: "'s \<Rightarrow> int list \<Rightarrow> sync_L1Tx list \<Rightarrow> sync_L1Tx list \<Rightarrow> sync_PoolL2Tx list
                 \<Rightarrow> sync_error + ProcessTxsOutput \<times> sync_PoolL2Tx list \<times> 's"
  NewL1Tx :: "sync_L1Tx \<Rightarrow> sync_error + sync_L1Tx"
  SetType :: "sync_L2Tx \<Rightarrow> sync_error + sync_L2Tx"
  L2TxsToPoolL2Txs :: "sync_L2Tx list \<Rightarrow> sync_PoolL2Tx list"
  PoolL2TxsToL2Txs :: "sync_PoolL2Tx list \<Rightarrow> sync_error + sync_L2Tx list"
  SetID :: "sync_L2Tx \<Rightarrow> sync_error + sync_L2Tx"
  AuctionSlotNum :: "int \<Rightarrow> int"
  AuctionSlotBlocks :: "int \<Rightarrow> int \<times> int"
  AuctionRelativeBlock :: "int \<Rightarrow> int"

text \<open>The synchronizer: the fields of the struct that the functions read and write.\<close>

record ('h, 's) Synchronizer =
  auctionConsts :: AuctionConstants
  historyDB :: 'h
  stateDB :: 's
  initVars :: SCVariables
  startBlockNum :: int
  vars :: SCVariables
  stats :: Stats

section \<open>Synchronizer: statistics and the current slot\<close>

type_synonym ('h, 's, 'a) sync = "(sync_error, ('h, 's) Synchronizer, 'a) prog"

definition updEth :: "(EthStats \<Rightarrow> EthStats) \<Rightarrow> ('h, 's, unit) sync" where
  "updEth f = modify (\<lambda>s. s\<lparr>stats := (stats s)\<lparr>Eth := f (Eth (stats s))\<rparr>\<rparr>)"

definition updSync :: "(SyncStats \<Rightarrow> SyncStats) \<Rightarrow> ('h, 's, unit) sync" where
  "updSync f = modify (\<lambda>s. s\<lparr>stats := (stats s)\<lparr>Sync := f (Sync (stats s))\<rparr>\<rparr>)"

definition updRollupVars :: "(RollupVariables \<Rightarrow> RollupVariables) \<Rightarrow> ('h, 's, unit) sync" where
  "updRollupVars f = modify (\<lambda>s. s\<lparr>vars := (vars s)\<lparr>Rollup := f (Rollup (vars s))\<rparr>\<rparr>)"

definition updAuctionVars :: "(AuctionVariables \<Rightarrow> AuctionVariables) \<Rightarrow> ('h, 's, unit) sync" where
  "updAuctionVars f = modify (\<lambda>s. s\<lparr>vars := (vars s)\<lparr>Auction := f (Auction (vars s))\<rparr>\<rparr>)"

definition updWDelayerVars ::
  "(WDelayerVariables \<Rightarrow> WDelayerVariables) \<Rightarrow> ('h, 's, unit) sync" where
  "updWDelayerVars f = modify (\<lambda>s. s\<lparr>vars := (vars s)\<lparr>WDelayer := f (WDelayer (vars s))\<rparr>\<rparr>)"

text \<open>\<^verbatim>\<open>Stats.Synced\<close>.\<close>

definition Synced :: "Stats \<Rightarrow> bool" where
  "Synced st = (Num (eth_LastBlock (Eth st)) = Num (sync_LastBlock (Sync st)))"

text \<open>\<^verbatim>\<open>StatsHolder.UpdateCurrentSlot\<close>.\<close>

definition UpdateCurrentSlot :: "Slot \<Rightarrow> ('h, 's, unit) sync" where
  "UpdateCurrentSlot slot = updSync (\<lambda>y. y\<lparr>CurrentSlot := slot\<rparr>)"

text \<open>
  \<^verbatim>\<open>StatsHolder.UpdateSync\<close>. The last three arguments are pointers; the last one is
  dereferenced whenever the one before it is not nil.
\<close>

definition UpdateSync ::
  "('h, 's) sync_env \<Rightarrow> Block \<Rightarrow> int option \<Rightarrow> int option \<Rightarrow> int option \<Rightarrow> ('h, 's, unit) sync" where
  "UpdateSync env lastBlock lastBatch lastL1BatchBlock lastForgeL1TxsNum =
     thn (updSync (\<lambda>y. y\<lparr>sync_LastBlock := lastBlock\<rparr>))
    (thn (case lastBatch of
            None \<Rightarrow> ret ()
          | Some b \<Rightarrow> updSync (\<lambda>y. y\<lparr>sync_LastBatch := b\<rparr>))
    (thn (case lastL1BatchBlock of
            None \<Rightarrow> ret ()
          | Some lb \<Rightarrow>
              thn (updSync (\<lambda>y. y\<lparr>LastL1BatchBlock := lb\<rparr>))
                  (case lastForgeL1TxsNum of
                     None \<Rightarrow> throw PanicNilDereference
                   | Some n \<Rightarrow> updSync (\<lambda>y. y\<lparr>LastForgeL1TxsNum := n\<rparr>)))
         (updSync (\<lambda>y. y\<lparr>sync_Updated := Now env\<rparr>))))"

text \<open>\<^verbatim>\<open>StatsHolder.UpdateEth\<close>: refreshed only when the last refresh has expired.\<close>

definition UpdateEth :: "('h, 's) sync_env \<Rightarrow> ('h, 's, unit) sync" where
  "UpdateEth env =
     bnd (gets stats) (\<lambda>st.
     if Now env - eth_Updated (Eth st) < RefreshPeriod (Eth st) then ret ()
     else
     bnd (liftE (EthBlockByNumber env (- 1))) (\<lambda>lastBlock.
     bnd (liftE (RollupLastForgedBatch env)) (\<lambda>lastBatch.
     updEth (\<lambda>e. e\<lparr>eth_Updated := Now env, eth_LastBlock := lastBlock,
                   eth_LastBatch := lastBatch\<rparr>))))"

definition emptySlot :: Slot where
  "emptySlot =
     \<lparr>SlotNum = 0, ForgerCommitment = False, StartBlock = 0, EndBlock = 0, BootCoord = False,
      slot_Forger = 0, slot_URL = [], slot_BidValue = None, DefaultSlotBid = None,
      slot_Bidder = 0\<rparr>"

text \<open>Go's \<^verbatim>\<open>%\<close> (the sign of the dividend) and an index into an array.\<close>

definition go_rem :: "int \<Rightarrow> int \<Rightarrow> int" where
  "go_rem a b = sgn a * (\<bar>a\<bar> mod \<bar>b\<bar>)"

definition indexE :: "'a list \<Rightarrow> int \<Rightarrow> sync_error + 'a" where
  "indexE xs i = (if 0 \<le> i \<and> i < int (length xs) then Inr (xs ! nat i) else Inl PanicIndexRange)"

text \<open>The coordinator of the slot, once the best bid is known.\<close>

definition bootSlot :: "AuctionVariables \<Rightarrow> Slot \<Rightarrow> Slot" where
  "bootSlot av slot =
     slot\<lparr>BootCoord := True, slot_Forger := BootCoordinator av,
          slot_URL := BootCoordinatorURL av\<rparr>"

definition slotCoordinator ::
  "('h, 's) sync_env \<Rightarrow> Slot \<Rightarrow> ('h, 's, Slot) sync" where
  "slotCoordinator env slot =
     bnd (gets historyDB) (\<lambda>h.
     bnd (gets (\<lambda>s. Auction (vars s))) (\<lambda>av.
     case GetBestBidCoordinator env h (SlotNum slot) of
       Inl err \<Rightarrow> if err \<noteq> ErrNoRows then throw err else ret (bootSlot av slot)
     | Inr bidCoord \<Rightarrow>
         bnd (liftE (indexE (bc_DefaultSlotSetBid bidCoord) (go_rem (SlotNum slot) 6))) (\<lambda>dsb.
         ret (if bc_BidValue bidCoord \<ge> dsb
              then slot\<lparr>slot_BidValue := Some (bc_BidValue bidCoord), DefaultSlotBid := Some dsb,
                     slot_Bidder := bc_Bidder bidCoord, slot_Forger := bc_Forger bidCoord,
                     slot_URL := bc_URL bidCoord\<rparr>
              else bootSlot av
                     (slot\<lparr>slot_BidValue := Some (bc_BidValue bidCoord),
                           DefaultSlotBid := Some dsb\<rparr>)))))"

text \<open>\<^verbatim>\<open>updateCurrentSlotIfSync\<close>.\<close>

definition updateCurrentSlotIfSync ::
  "('h, 's) sync_env \<Rightarrow> bool \<Rightarrow> int option \<Rightarrow> ('h, 's, unit) sync" where
  "updateCurrentSlotIfSync env reset firstBatchBlockNum =
     bnd (gets (\<lambda>s. CurrentSlot (Sync (stats s)))) (\<lambda>cur.
     bnd (gets (\<lambda>s. Num (sync_LastBlock (Sync (stats s))) + 1)) (\<lambda>blockNum.
     bnd (if reset then
            bnd (gets historyDB) (\<lambda>h.
            case GetFirstBatchBlockNumBySlot env h (AuctionSlotNum env blockNum) of
              Inl err \<Rightarrow>
                if err \<noteq> ErrNoRows then throw (Errorf ''historyDB.GetFirstBatchBySlot'' err)
                else ret (None, False)
            | Inr n \<Rightarrow> ret (Some n, False))
          else if AuctionSlotNum env blockNum > SlotNum cur
            then ret (firstBatchBlockNum, False)
          else ret (firstBatchBlockNum, ForgerCommitment cur)) (\<lambda>(firstBatch, commitment).
     bnd (gets (\<lambda>s. (Synced (stats s), GenesisBlockNum (auctionConsts s),
                     SlotDeadline (Auction (vars s))))) (\<lambda>(synced, genesis, deadline).
     bnd (if synced \<and> blockNum \<ge> genesis then
            bnd (slotCoordinator env
                   (emptySlot\<lparr>SlotNum := AuctionSlotNum env blockNum,
                      ForgerCommitment := commitment,
                      StartBlock := fst (AuctionSlotBlocks env (AuctionSlotNum env blockNum)),
                      EndBlock := snd (AuctionSlotBlocks env (AuctionSlotNum env blockNum))\<rparr>))
              (\<lambda>slot.
            bnd (ret (case firstBatch of
                        None \<Rightarrow> slot
                      | Some fb \<Rightarrow>
                          if AuctionRelativeBlock env fb < deadline
                          then slot\<lparr>ForgerCommitment := True\<rparr> else slot)) (\<lambda>slot1.
            bnd (liftE (AuctionCanForge env (slot_Forger slot1) blockNum)) (\<lambda>canForge.
            if \<not> canForge then throw ErrForgerDiffers else ret slot1)))
          else ret (emptySlot\<lparr>SlotNum := AuctionSlotNum env blockNum,
                      ForgerCommitment := commitment,
                      StartBlock := fst (AuctionSlotBlocks env (AuctionSlotNum env blockNum)),
                      EndBlock := snd (AuctionSlotBlocks env (AuctionSlotNum env blockNum))\<rparr>))
       UpdateCurrentSlot))))"

section \<open>Synchronizer: reorganisations\<close>

text \<open>\<^verbatim>\<open>resetState\<close>.\<close>

definition resetVars :: "('h, 's) sync_env \<Rightarrow> ('h, 's, unit) sync" where
  "resetVars env =
     bnd (gets historyDB) (\<lambda>h.
     case GetSCVars env h of
       Inl err \<Rightarrow>
         if err = ErrNoRows then
           bnd (gets initVars) (\<lambda>vs.
           case SetInitialSCVars env h vs of
             Inl err1 \<Rightarrow> throw (Errorf ''historyDB.SetInitialSCVars'' err1)
           | Inr h1 \<Rightarrow>
               thn (modify (\<lambda>s. s\<lparr>historyDB := h1, vars := vs\<rparr>))
              (bnd (liftE (AddCoordinators env h1
                      [\<lparr>co_Bidder = 0, co_Forger = BootCoordinator (Auction vs),
                        co_URL = BootCoordinatorURL (Auction vs),
                        co_EthBlockNum = av_EthBlockNum (Auction vs)\<rparr>])) (\<lambda>h2.
               modify (\<lambda>s. s\<lparr>historyDB := h2\<rparr>))))
         else throw err
     | Inr v \<Rightarrow> modify (\<lambda>s. s\<lparr>vars := v\<rparr>))"

definition orNoRows :: "string \<Rightarrow> 'a \<Rightarrow> sync_error + 'a \<Rightarrow> sync_error + 'a" where
  "orNoRows label dflt r =
     (case r of
        Inl err \<Rightarrow> if err \<noteq> ErrNoRows then Inl (Errorf label err) else Inr dflt
      | Inr v \<Rightarrow> Inr v)"

definition resetState :: "('h, 's) sync_env \<Rightarrow> Block \<Rightarrow> ('h, 's, unit) sync" where
  "resetState env block =
     thn (resetVars env)
    (bnd (gets historyDB) (\<lambda>h.
     bnd (liftE (orNoRows ''historyDB.GetLastBatchNum'' 0 (GetLastBatchNum env h))) (\<lambda>batchNum.
     bnd (liftE (orNoRows ''historyDB.GetLastL1BatchBlockNum'' 0
                   (GetLastL1BatchBlockNum env h))) (\<lambda>lastL1BatchBlockNum.
     bnd (liftE (orNoRows ''historyDB.GetLastL1BatchBlockNum'' None
                   (GetLastL1TxsNum env h))) (\<lambda>lastForgeL1TxsNum.
     bnd (gets stateDB) (\<lambda>sdb.
     case StateDBReset env sdb batchNum of
       Inl err \<Rightarrow> throw (Errorf ''stateDB.Reset'' err)
     | Inr sdb1 \<Rightarrow>
         thn (modify (\<lambda>s. s\<lparr>stateDB := sdb1\<rparr>))
        (thn (UpdateSync env block (Some batchNum) (Some lastL1BatchBlockNum)
                (Some (case lastForgeL1TxsNum of None \<Rightarrow> - 1 | Some n \<Rightarrow> n)))
             (updateCurrentSlotIfSync env True None))))))))"

text \<open>
  The loop of \<^verbatim>\<open>reorg\<close>: from \<open>blockNum\<close> down to the first block to synchronize, the
  block the history database holds is compared with the block of the chain; the loop
  ends at the first height where the hashes are equal. \<open>block\<close> is the block read last.
\<close>

function reorgLoop ::
  "('h, 's) sync_env \<Rightarrow> 'h \<Rightarrow> int \<Rightarrow> int \<Rightarrow> Block option \<Rightarrow> sync_error + Block option" where
  "reorgLoop env h start blockNum block =
     (if blockNum \<ge> start then
        (case EthBlockByNumber env blockNum of
           Inl err \<Rightarrow> Inl (Errorf ''ethClient.EthBlockByNumber'' err)
         | Inr ethBlock \<Rightarrow>
             (case GetBlock env h blockNum of
                Inl err \<Rightarrow> Inl (Errorf ''historyDB.GetBlock'' err)
              | Inr blk \<Rightarrow>
                  if Hash blk = Hash ethBlock then Inr (Some blk)
                  else reorgLoop env h start (blockNum - 1) (Some blk)))
      else Inr block)"
  by pat_completeness auto
termination
  by (relation "measure (\<lambda>(env, h, start, blockNum, block). nat (blockNum - start + 1))") auto

text \<open>\<^verbatim>\<open>reorg\<close>.\<close>

definition reorg :: "('h, 's) sync_env \<Rightarrow> Block \<Rightarrow> ('h, 's, int) sync" where
  "reorg env uncleBlock =
     bnd (gets (\<lambda>s. (startBlockNum s, historyDB s))) (\<lambda>(start, h).
     bnd (liftE (reorgLoop env h start (Num uncleBlock) None)) (\<lambda>block.
     case block of
       None \<Rightarrow> throw PanicNilDereference
     | Some blk \<Rightarrow>
         bnd (liftE (Reorg env h (Num blk))) (\<lambda>h1.
         thn (modify (\<lambda>s. s\<lparr>historyDB := h1\<rparr>))
        (thn (resetState env blk)
             (ret (Num blk))))))"

section \<open>Synchronizer: the three event streams\<close>

text \<open>\<^verbatim>\<open>getL1UserTx\<close>.\<close>

definition getL1UserTx ::
  "('h, 's) sync_env \<Rightarrow> sync_L1Tx list \<Rightarrow> int \<Rightarrow> sync_error + sync_L1Tx list" where
  "getL1UserTx env eventsL1UserTx blockNum =
     mapE (\<lambda>tx. NewL1Tx env (tx\<lparr>l1_EthBlockNum := blockNum\<rparr>)) eventsL1UserTx"

text \<open>
  The user transactions of this block that belong to the queue \<open>n\<close>
  (\<^verbatim>\<open>*l1UserTx.ToForgeL1TxsNum == nextForgeL1TxsNum\<close>, through a pointer).
\<close>

fun inBlockL1UserTxs :: "sync_L1Tx list \<Rightarrow> int \<Rightarrow> sync_error + sync_L1Tx list" where
  "inBlockL1UserTxs [] n = Inr []"
| "inBlockL1UserTxs (tx # txs) n =
     (case l1_ToForgeL1TxsNum tx of
        None \<Rightarrow> Inl PanicNilDereference
      | Some k \<Rightarrow>
          (case inBlockL1UserTxs txs n of
             Inl e \<Rightarrow> Inl e
           | Inr r \<Rightarrow> Inr (if k = n then tx # r else r)))"

text \<open>The coordinator transactions of a batch, numbered from \<open>position\<close>.\<close>

fun coordinatorTxs ::
  "('h, 's) sync_env \<Rightarrow> int \<Rightarrow> int \<Rightarrow> int \<Rightarrow> sync_L1Tx list \<Rightarrow> sync_error + sync_L1Tx list" where
  "coordinatorTxs env blockNum batchNum position [] = Inr []"
| "coordinatorTxs env blockNum batchNum position (tx # txs) =
     (case NewL1Tx env (tx\<lparr>l1_Position := position, l1_UserOrigin := False,
                           l1_EthBlockNum := blockNum, l1_BatchNum := Some batchNum\<rparr>) of
        Inl e \<Rightarrow> Inl e
      | Inr l1Tx \<Rightarrow>
          (case coordinatorTxs env blockNum batchNum (position + 1) txs of
             Inl e \<Rightarrow> Inl e
           | Inr r \<Rightarrow> Inr (l1Tx # r)))"

text \<open>The L2 transactions of a batch, numbered from \<open>position\<close>.\<close>

fun forgedL2Txs ::
  "('h, 's) sync_env \<Rightarrow> int \<Rightarrow> int \<Rightarrow> int \<Rightarrow> sync_L2Tx list \<Rightarrow> sync_error + sync_L2Tx list" where
  "forgedL2Txs env blockNum batchNum position [] = Inr []"
| "forgedL2Txs env blockNum batchNum position (tx # txs) =
     (case SetID env tx of
        Inl e \<Rightarrow> Inl e
      | Inr tx1 \<Rightarrow>
          (case forgedL2Txs env blockNum batchNum (position + 1) txs of
             Inl e \<Rightarrow> Inl e
           | Inr r \<Rightarrow>
               Inr (tx1\<lparr>l2_EthBlockNum := blockNum, l2_BatchNum := batchNum,
                         l2_Position := position\<rparr> # r)))"

text \<open>
  The body of the loop over the \<^verbatim>\<open>ForgeBatch\<close> events of \<^verbatim>\<open>rollupSync\<close>. The local
  variables it carries are \<^verbatim>\<open>nextForgeL1TxsNum\<close> and \<^verbatim>\<open>rollupData.Batches\<close>. The
  transaction processor works on the state database; when it fails the state database
  is taken as it was.
\<close>

definition forgeBatch ::
  "('h, 's) sync_env \<Rightarrow> Block \<Rightarrow> sync_L1Tx list \<Rightarrow> RollupEventForgeBatch \<Rightarrow> int \<times> BatchData list
     \<Rightarrow> ('h, 's, int \<times> BatchData list) sync" where
  "forgeBatch env ethBlock blockL1UserTxs evtForgeBatch = (\<lambda>(nextForgeL1TxsNum, batches).
     bnd (liftE (RollupForgeBatchArgs env (EthTxHash evtForgeBatch)
                   (L1UserTxsLen evtForgeBatch))) (\<lambda>(forgeBatchArgs, sender).
     bnd (if fa_L1Batch forgeBatchArgs then
            bnd (gets historyDB) (\<lambda>h.
            bnd (liftE (GetUnforgedL1UserTxs env h nextForgeL1TxsNum)) (\<lambda>dbTxs.
            bnd (liftE (inBlockL1UserTxs blockL1UserTxs nextForgeL1TxsNum)) (\<lambda>blockTxs.
            ret (dbTxs @ blockTxs, int (length (dbTxs @ blockTxs))))))
          else ret ([], 0)) (\<lambda>(l1UserTxs, position).
     bnd (liftE (coordinatorTxs env (Num ethBlock) (fb_BatchNum evtForgeBatch) position
                   (fa_L1CoordinatorTxs forgeBatchArgs))) (\<lambda>l1CoordinatorTxs.
     bnd (liftE (mapE (SetType env) (L2TxsData forgeBatchArgs))) (\<lambda>l2TxsData.
     bnd (gets stateDB) (\<lambda>sdb.
     bnd (liftE (ProcessTxs env sdb (FeeIdxCoordinator forgeBatchArgs) l1UserTxs
                   l1CoordinatorTxs (L2TxsToPoolL2Txs env l2TxsData)))
       (\<lambda>(processTxsOut, poolL2Txs, sdb1).
     thn (modify (\<lambda>s. s\<lparr>stateDB := sdb1\<rparr>))
    (bnd (liftE (PoolL2TxsToL2Txs env poolL2Txs)) (\<lambda>l2Txs0.
     bnd (liftE (forgedL2Txs env (Num ethBlock) (fb_BatchNum evtForgeBatch)
                   (position + int (length l1CoordinatorTxs)) l2Txs0)) (\<lambda>l2Txs.
     bnd (gets auctionConsts) (\<lambda>ac.
     bnd (if Num ethBlock \<ge> GenesisBlockNum ac then
            (if BlocksPerSlot ac = 0 then throw PanicDivideByZero
             else ret ((Num ethBlock - GenesisBlockNum ac) div BlocksPerSlot ac))
          else ret 0) (\<lambda>slotNum.
     ret (if fa_L1Batch forgeBatchArgs then nextForgeL1TxsNum + 1 else nextForgeL1TxsNum,
          batches @
          [\<lparr>L1Batch = fa_L1Batch forgeBatchArgs,
            bd_L1UserTxs =
              map (\<lambda>t. t\<lparr>l1_BatchNum := Some (fb_BatchNum evtForgeBatch)\<rparr>) l1UserTxs,
            bd_L1CoordinatorTxs = l1CoordinatorTxs,
            bd_L2Txs = l2Txs,
            bd_CreatedAccounts =
              map (\<lambda>a. a\<lparr>ca_Nonce := 0, ca_Balance := Some 0,
                          ca_BatchNum := fb_BatchNum evtForgeBatch\<rparr>)
                (CreatedAccounts processTxsOut),
            ExitTree =
              map (\<lambda>e. e\<lparr>ex_BatchNum := fb_BatchNum evtForgeBatch\<rparr>) (ExitInfos processTxsOut),
            bd_Batch =
              \<lparr>BatchNum = fb_BatchNum evtForgeBatch,
               b_EthBlockNum = Num ethBlock,
               ForgerAddr = sender,
               b_CollectedFees = CollectedFees processTxsOut,
               FeeIdxsCoordinator = FeeIdxCoordinator forgeBatchArgs,
               StateRoot = NewStRoot forgeBatchArgs,
               NumAccounts = int (length (CreatedAccounts processTxsOut)),
               LastIdx = NewLastIdx forgeBatchArgs,
               ExitRoot = NewExitRoot forgeBatchArgs,
               ForgeL1TxsNum =
                 (if fa_L1Batch forgeBatchArgs then Some nextForgeL1TxsNum else None),
               b_SlotNum = slotNum\<rparr>\<rparr>])))))))))))))"

text \<open>\<^verbatim>\<open>cutStringMax\<close>. A Go string is a sequence of bytes and \<^verbatim>\<open>len\<close> counts bytes.\<close>

definition cutStringMax :: "string \<Rightarrow> int \<Rightarrow> sync_error + string" where
  "cutStringMax str mx =
     (if int (length str) > mx then
        (if mx < 0 then Inl PanicIndexRange else Inr (take (nat mx) str))
      else Inr str)"

text \<open>The body of the loop over the \<^verbatim>\<open>AddToken\<close> events of \<^verbatim>\<open>rollupSync\<close>.\<close>

definition addToken ::
  "('h, 's) sync_env \<Rightarrow> int \<Rightarrow> RollupEventAddToken \<Rightarrow> sync_error + Token" where
  "addToken env blockNum evtAddToken =
     (case EthERC20Consts env (TokenAddress evtAddToken) of
        Inl err \<Rightarrow>
          Inr \<lparr>TokenID = at_TokenID evtAddToken, tok_EthAddr = TokenAddress evtAddToken,
               tok_EthBlockNum = blockNum, Name = ''ERC20_ETH_ERROR'', Symbol = ''ERROR'',
               Decimals = 1\<rparr>
      | Inr consts \<Rightarrow>
          (case cutStringMax (erc_Name consts) 20 of
             Inl p \<Rightarrow> Inl p
           | Inr name \<Rightarrow>
               (case cutStringMax (erc_Symbol consts) 10 of
                  Inl p \<Rightarrow> Inl p
                | Inr symbol \<Rightarrow>
                    Inr \<lparr>TokenID = at_TokenID evtAddToken,
                         tok_EthAddr = TokenAddress evtAddToken,
                         tok_EthBlockNum = blockNum, Name = name, Symbol = symbol,
                         Decimals = erc_Decimals consts\<rparr>)))"

definition bucketUpdate :: "int \<Rightarrow> RollupEventUpdateBucketWithdraw \<Rightarrow> BucketUpdate" where
  "bucketUpdate blockNum evt =
     \<lparr>bu_EthBlockNum = blockNum, bu_NumBucket = ubw_NumBucket evt,
      bu_BlockStamp = ubw_BlockStamp evt, bu_Withdrawals = ubw_Withdrawals evt\<rparr>"

definition withdrawInfo :: "RollupEventWithdraw \<Rightarrow> WithdrawInfo" where
  "withdrawInfo evt =
     \<lparr>wi_Idx = we_Idx evt, NumExitRoot = we_NumExitRoot evt,
      InstantWithdraw = we_InstantWithdraw evt, wi_TxHash = we_TxHash evt,
      wi_Owner = 0, wi_Token = 0\<rparr>"

definition tokenExchanges ::
  "int \<Rightarrow> RollupEventUpdateTokenExchange \<Rightarrow> sync_error + TokenExchange list" where
  "tokenExchanges blockNum evt =
     (if length (AddressArray evt) \<noteq> length (ValueArray evt) then Inl ErrTokenExchangeLengths
      else Inr (map (\<lambda>(a, v). \<lparr>te_EthBlockNum = blockNum, te_Address = a, ValueUSD = v\<rparr>)
                  (zip (AddressArray evt) (ValueArray evt))))"

definition NewRollupData :: RollupData where
  "NewRollupData =
     \<lparr>rd_L1UserTxs = [], rd_Batches = [], AddedTokens = [], rd_Withdrawals = [],
      UpdateBucketWithdraw = [], TokenExchanges = [], rd_Vars = None\<rparr>"

text \<open>
  The end of \<^verbatim>\<open>rollupSync\<close>: the events that change the variables of the contract are
  applied to \<^verbatim>\<open>s.vars.Rollup\<close> in place, and a copy of the variables goes into the
  data when one of them occurred. The buckets are two arrays of the same fixed length,
  every entry of which is overwritten.
\<close>

definition rollupVarsSync ::
  "RollupEvents \<Rightarrow> int \<Rightarrow> ('h, 's, RollupVariables option) sync" where
  "rollupVarsSync rollupEvents blockNum =
     thn (forEach (ev_UpdateForgeL1L2BatchTimeout rollupEvents)
            (\<lambda>v. updRollupVars (\<lambda>r. r\<lparr>ForgeL1L2BatchTimeout := v\<rparr>)))
    (thn (forEach (ev_UpdateFeeAddToken rollupEvents)
            (\<lambda>v. updRollupVars (\<lambda>r. r\<lparr>FeeAddToken := v\<rparr>)))
    (thn (forEach (ev_UpdateWithdrawalDelay rollupEvents)
            (\<lambda>v. updRollupVars (\<lambda>r. r\<lparr>rv_WithdrawalDelay := v\<rparr>)))
    (thn (forEach (ev_UpdateBucketsParameters rollupEvents)
            (\<lambda>evt. updRollupVars (\<lambda>r. r\<lparr>Buckets := ArrayBuckets evt,
                                         SafeMode := ubp_SafeMode evt\<rparr>)))
         (if ev_UpdateForgeL1L2BatchTimeout rollupEvents \<noteq> []
             \<or> ev_UpdateFeeAddToken rollupEvents \<noteq> []
             \<or> ev_UpdateWithdrawalDelay rollupEvents \<noteq> []
             \<or> ev_UpdateBucketsParameters rollupEvents \<noteq> []
          then thn (updRollupVars (\<lambda>r. r\<lparr>rv_EthBlockNum := blockNum\<rparr>))
                   (gets (\<lambda>s. Some (Rollup (vars s))))
          else ret None))))"

text \<open>\<^verbatim>\<open>rollupSync\<close>.\<close>

definition rollupSync :: "('h, 's) sync_env \<Rightarrow> Block \<Rightarrow> ('h, 's, RollupData) sync" where
  "rollupSync env ethBlock =
     bnd (liftE (RollupEventsByBlock env (Num ethBlock))) (\<lambda>(rollupEvents, blockHash).
     case blockHash of
       None \<Rightarrow> ret NewRollupData
     | Some bh \<Rightarrow>
         if bh \<noteq> Hash ethBlock then throw ErrBlockHashMismatchEvent
         else
         bnd (gets historyDB) (\<lambda>h.
         bnd (liftE (GetLastL1TxsNum env h)) (\<lambda>nextForgeL1TxsNumPtr.
         bnd (liftE (getL1UserTx env (ev_L1UserTx rollupEvents) (Num ethBlock))) (\<lambda>l1UserTxs.
         bnd (foldE (forgeBatch env ethBlock l1UserTxs) (ev_ForgeBatch rollupEvents)
                (case nextForgeL1TxsNumPtr of None \<Rightarrow> 0 | Some n \<Rightarrow> n + 1, []))
           (\<lambda>(nextForgeL1TxsNum, batches).
         bnd (liftE (mapE (addToken env (Num ethBlock)) (ev_AddToken rollupEvents)))
           (\<lambda>addedTokens.
         bnd (liftE (mapE (tokenExchanges (Num ethBlock))
                       (ev_UpdateTokenExchange rollupEvents))) (\<lambda>exchanges.
         bnd (rollupVarsSync rollupEvents (Num ethBlock)) (\<lambda>varsCopy.
         ret \<lparr>rd_L1UserTxs = l1UserTxs,
              rd_Batches = batches,
              AddedTokens = addedTokens,
              rd_Withdrawals = map withdrawInfo (ev_Withdraw rollupEvents),
              UpdateBucketWithdraw =
                map (bucketUpdate (Num ethBlock)) (ev_UpdateBucketWithdraw rollupEvents),
              TokenExchanges = concat exchanges,
              rd_Vars = varsCopy\<rparr>))))))))"

definition NewAuctionData :: AuctionData where
  "NewAuctionData = \<lparr>Bids = [], Coordinators = [], ad_Vars = None\<rparr>"

text \<open>The body of the loop over the \<^verbatim>\<open>NewDefaultSlotSetBid\<close> events of \<^verbatim>\<open>auctionSync\<close>.\<close>

definition newDefaultSlotSetBid ::
  "('h, 's) sync_env \<Rightarrow> int \<Rightarrow> AuctionEventNewDefaultSlotSetBid \<Rightarrow> ('h, 's, unit) sync" where
  "newDefaultSlotSetBid env blockNum evt =
     (if SlotSet evt > 6 then throw ErrUnexpectedSlotSet
      else
      bnd (gets (\<lambda>s. Auction (vars s))) (\<lambda>av.
      if \<not> (0 \<le> SlotSet evt \<and> SlotSet evt < int (length (DefaultSlotSetBid av)))
      then throw PanicIndexRange
      else updAuctionVars (\<lambda>a. a\<lparr>
             DefaultSlotSetBid := (DefaultSlotSetBid a)[nat (SlotSet evt) := NewInitialMinBid evt],
             DefaultSlotSetBidSlotNum :=
               AuctionSlotNum env blockNum + ClosedAuctionSlots a + 1\<rparr>)))"

text \<open>\<^verbatim>\<open>auctionSync\<close>.\<close>

definition auctionSync :: "('h, 's) sync_env \<Rightarrow> Block \<Rightarrow> ('h, 's, AuctionData) sync" where
  "auctionSync env ethBlock =
     bnd (liftE (AuctionEventsByBlock env (Num ethBlock))) (\<lambda>(auctionEvents, blockHash).
     case blockHash of
       None \<Rightarrow> ret NewAuctionData
     | Some bh \<Rightarrow>
         if bh \<noteq> Hash ethBlock then throw ErrBlockHashMismatchEvent
         else
         thn (forEach (ev_NewSlotDeadline auctionEvents)
                (\<lambda>v. updAuctionVars (\<lambda>a. a\<lparr>SlotDeadline := v\<rparr>)))
        (thn (forEach (ev_NewClosedAuctionSlots auctionEvents)
                (\<lambda>v. updAuctionVars (\<lambda>a. a\<lparr>ClosedAuctionSlots := v\<rparr>)))
        (thn (forEach (ev_NewOutbidding auctionEvents)
                (\<lambda>v. updAuctionVars (\<lambda>a. a\<lparr>Outbidding := v\<rparr>)))
        (thn (forEach (ev_NewDonationAddress auctionEvents)
                (\<lambda>v. updAuctionVars (\<lambda>a. a\<lparr>DonationAddress := v\<rparr>)))
        (thn (forEach (ev_NewBootCoordinator auctionEvents)
                (\<lambda>evt. updAuctionVars (\<lambda>a. a\<lparr>BootCoordinator := NewBootCoordinator evt,
                     BootCoordinatorURL := NewBootCoordinatorURL evt\<rparr>)))
        (thn (forEach (ev_NewOpenAuctionSlots auctionEvents)
                (\<lambda>v. updAuctionVars (\<lambda>a. a\<lparr>OpenAuctionSlots := v\<rparr>)))
        (thn (forEach (ev_NewAllocationRatio auctionEvents)
                (\<lambda>v. updAuctionVars (\<lambda>a. a\<lparr>AllocationRatio := v\<rparr>)))
        (thn (forEach (ev_NewDefaultSlotSetBid auctionEvents)
                (newDefaultSlotSetBid env (Num ethBlock)))
        (bnd (if ev_NewSlotDeadline auctionEvents \<noteq> []
                 \<or> ev_NewClosedAuctionSlots auctionEvents \<noteq> []
                 \<or> ev_NewOutbidding auctionEvents \<noteq> []
                 \<or> ev_NewDonationAddress auctionEvents \<noteq> []
                 \<or> ev_NewBootCoordinator auctionEvents \<noteq> []
                 \<or> ev_NewOpenAuctionSlots auctionEvents \<noteq> []
                 \<or> ev_NewAllocationRatio auctionEvents \<noteq> []
                 \<or> ev_NewDefaultSlotSetBid auctionEvents \<noteq> []
              then thn (updAuctionVars (\<lambda>a. a\<lparr>av_EthBlockNum := Num ethBlock\<rparr>))
                       (gets (\<lambda>s. Some (Auction (vars s))))
              else ret None) (\<lambda>varsCopy.
         ret \<lparr>Bids =
                map (\<lambda>evt. \<lparr>bid_SlotNum = nb_Slot evt, bid_BidValue = nb_BidAmount evt,
                             bid_Bidder = nb_Bidder evt, bid_EthBlockNum = Num ethBlock\<rparr>)
                  (ev_NewBid auctionEvents),
              Coordinators =
                map (\<lambda>evt. \<lparr>co_Bidder = BidderAddress evt, co_Forger = ForgerAddress evt,
                             co_URL = CoordinatorURL evt, co_EthBlockNum = Num ethBlock\<rparr>)
                  (ev_SetCoordinator auctionEvents) @
                map (\<lambda>evt. \<lparr>co_Bidder = 0, co_Forger = NewBootCoordinator evt,
                             co_URL = NewBootCoordinatorURL evt, co_EthBlockNum = Num ethBlock\<rparr>)
                  (ev_NewBootCoordinator auctionEvents),
              ad_Vars = varsCopy\<rparr>))))))))))"

definition NewWDelayerData :: WDelayerData where
  "NewWDelayerData =
     \<lparr>wd_Vars = None, Deposits = [], DepositsByTxHash = (\<lambda>h. []), wd_Withdrawals = [],
      EscapeHatchWithdrawals = []\<rparr>"

text \<open>
  The body of the loop over the \<^verbatim>\<open>Deposit\<close> events of \<^verbatim>\<open>wdelayerSync\<close>: the
  deposit is appended to the deposits, and to the deposits of its transaction hash.
\<close>

definition addDeposit :: "WDelayerData \<Rightarrow> WDelayerEventDeposit \<Rightarrow> WDelayerData" where
  "addDeposit wDelayerData evt =
     wDelayerData\<lparr>
       Deposits := Deposits wDelayerData @
         [\<lparr>wt_Owner = de_Owner evt, wt_Token = de_Token evt, wt_Amount = de_Amount evt\<rparr>],
       DepositsByTxHash := (DepositsByTxHash wDelayerData)
         (de_TxHash evt := DepositsByTxHash wDelayerData (de_TxHash evt) @
            [\<lparr>wt_Owner = de_Owner evt, wt_Token = de_Token evt, wt_Amount = de_Amount evt\<rparr>])\<rparr>"

text \<open>\<^verbatim>\<open>wdelayerSync\<close>.\<close>

definition wdelayerSync :: "('h, 's) sync_env \<Rightarrow> Block \<Rightarrow> ('h, 's, WDelayerData) sync" where
  "wdelayerSync env ethBlock =
     bnd (liftE (WDelayerEventsByBlock env (Num ethBlock))) (\<lambda>(wDelayerEvents, blockHash).
     case blockHash of
       None \<Rightarrow> ret NewWDelayerData
     | Some bh \<Rightarrow>
         if bh \<noteq> Hash ethBlock then throw ErrBlockHashMismatchEvent
         else
         thn (forEach (ev_EmergencyModeEnabled wDelayerEvents)
                (\<lambda>_. updWDelayerVars (\<lambda>w. w\<lparr>EmergencyMode := True,
                     EmergencyModeStartingBlock := Num ethBlock\<rparr>)))
        (thn (forEach (ev_NewWithdrawalDelay wDelayerEvents)
                (\<lambda>v. updWDelayerVars (\<lambda>w. w\<lparr>wv_WithdrawalDelay := v\<rparr>)))
        (thn (forEach (ev_NewEmergencyCouncil wDelayerEvents)
                (\<lambda>v. updWDelayerVars (\<lambda>w. w\<lparr>EmergencyCouncilAddress := v\<rparr>)))
        (thn (forEach (ev_NewHermezGovernanceAddress wDelayerEvents)
                (\<lambda>v. updWDelayerVars (\<lambda>w. w\<lparr>HermezGovernanceAddress := v\<rparr>)))
        (bnd (if ev_EmergencyModeEnabled wDelayerEvents \<noteq> []
                 \<or> ev_NewWithdrawalDelay wDelayerEvents \<noteq> []
                 \<or> ev_NewEmergencyCouncil wDelayerEvents \<noteq> []
                 \<or> ev_NewHermezGovernanceAddress wDelayerEvents \<noteq> []
              then thn (updWDelayerVars (\<lambda>w. w\<lparr>wv_EthBlockNum := Num ethBlock\<rparr>))
                       (gets (\<lambda>s. Some (WDelayer (vars s))))
              else ret None) (\<lambda>varsCopy.
         ret ((foldl addDeposit NewWDelayerData (ev_Deposit wDelayerEvents))
                \<lparr>wd_Withdrawals := ev_WDelayerWithdraw wDelayerEvents,
                 EscapeHatchWithdrawals :=
                   map (\<lambda>evt. \<lparr>eh_EthBlockNum = Num ethBlock, eh_Who = ehe_Who evt,
                                eh_To = ehe_To evt, eh_TokenAddr = ehe_Token evt,
                                eh_Amount = ehe_Amount evt\<rparr>)
                     (ev_EscapeHatchWithdrawal wDelayerEvents),
                 wd_Vars := varsCopy\<rparr>)))))))"

section \<open>Synchronizer: \<^verbatim>\<open>Sync2\<close>\<close>

text \<open>
  The loop over \<^verbatim>\<open>rollupData.Withdrawals\<close> in \<^verbatim>\<open>Sync2\<close>: a withdrawal that is not
  instant takes the owner and the token of the first deposit left for its transaction
  hash, and that deposit is removed; with no deposit left the loop ends with an error.
\<close>

fun pairWithdrawals ::
  "(hash \<Rightarrow> WDelayerTransfer list) \<Rightarrow> WithdrawInfo list
     \<Rightarrow> sync_error + WithdrawInfo list \<times> (hash \<Rightarrow> WDelayerTransfer list)" where
  "pairWithdrawals deposits [] = Inr ([], deposits)"
| "pairWithdrawals deposits (w # ws) =
     (if \<not> InstantWithdraw w then
        (case deposits (wi_TxHash w) of
           [] \<Rightarrow> Inl ErrWDelayerDepositNotFound
         | t # ts \<Rightarrow>
             (case pairWithdrawals (deposits(wi_TxHash w := ts)) ws of
                Inl e \<Rightarrow> Inl e
              | Inr (ws1, d1) \<Rightarrow>
                  Inr (w\<lparr>wi_Owner := wt_Owner t, wi_Token := wt_Token t\<rparr> # ws1, d1)))
      else
        (case pairWithdrawals deposits ws of
           Inl e \<Rightarrow> Inl e
         | Inr (ws1, d1) \<Rightarrow> Inr (w # ws1, d1)))"

text \<open>
  The pairing, said without the loop. \<open>consumedBefore ws i\<close> counts the withdrawals
  before position \<open>i\<close> that are not instant and have the transaction hash of the
  withdrawal at \<open>i\<close>: so many deposits of that hash are consumed when the loop reaches
  \<open>i\<close>. \<open>noDepositLeft\<close> says that the withdrawal at \<open>i\<close> is not instant and finds no
  deposit left; \<open>pairedWithdrawal\<close> is the withdrawal at \<open>i\<close> with the owner and token
  of the deposit it consumes.
\<close>

definition consumedBefore :: "WithdrawInfo list \<Rightarrow> nat \<Rightarrow> nat" where
  "consumedBefore ws i =
     length (filter (\<lambda>w. \<not> InstantWithdraw w \<and> wi_TxHash w = wi_TxHash (ws ! i)) (take i ws))"

definition noDepositLeft ::
  "(hash \<Rightarrow> WDelayerTransfer list) \<Rightarrow> WithdrawInfo list \<Rightarrow> nat \<Rightarrow> bool" where
  "noDepositLeft deposits ws i =
     (\<not> InstantWithdraw (ws ! i) \<and>
      length (deposits (wi_TxHash (ws ! i))) \<le> consumedBefore ws i)"

definition pairedWithdrawal ::
  "(hash \<Rightarrow> WDelayerTransfer list) \<Rightarrow> WithdrawInfo list \<Rightarrow> nat \<Rightarrow> WithdrawInfo" where
  "pairedWithdrawal deposits ws i =
     (if InstantWithdraw (ws ! i) then ws ! i
      else (ws ! i)\<lparr>
        wi_Owner := wt_Owner (deposits (wi_TxHash (ws ! i)) ! consumedBefore ws i),
        wi_Token := wt_Token (deposits (wi_TxHash (ws ! i)) ! consumedBefore ws i)\<rparr>)"

text \<open>The deposit events of a transaction hash, in the order of the events.\<close>

definition depositsOf :: "WDelayerEventDeposit list \<Rightarrow> hash \<Rightarrow> WDelayerTransfer list" where
  "depositsOf evts h =
     map (\<lambda>evt. \<lparr>wt_Owner = de_Owner evt, wt_Token = de_Token evt, wt_Amount = de_Amount evt\<rparr>)
       (filter (\<lambda>evt. de_TxHash evt = h) evts)"

text \<open>
  What \<^verbatim>\<open>Sync2\<close> returns beside the error: nothing (the next block is not mined yet),
  the number of discarded blocks, or the data of the block it synchronized.
\<close>

datatype sync_result =
  NotSynced
| Discarded int
| SyncedBlock BlockData

text \<open>
  The statistics after a block is stored. \<^verbatim>\<open>lastL1BatchBlock\<close> is the address of a
  field of the loop variable, which the loop leaves holding the last batch of the block;
  \<^verbatim>\<open>lastForgeL1TxsNum\<close> is the pointer the last L1 batch holds.
\<close>

definition updateSyncStats ::
  "('h, 's) sync_env \<Rightarrow> Block \<Rightarrow> BatchData list \<Rightarrow> ('h, 's, unit) sync" where
  "updateSyncStats env ethBlock batches =
     (if batches = [] then UpdateSync env ethBlock None None None
      else UpdateSync env ethBlock
             (Some (BatchNum (bd_Batch (last batches))))
             (if filter L1Batch batches = [] then None
              else Some (b_EthBlockNum (bd_Batch (last batches))))
             (if filter L1Batch batches = [] then None
              else ForgeL1TxsNum (bd_Batch (last (filter L1Batch batches)))))"

text \<open>
  The end of \<^verbatim>\<open>Sync2\<close>, from the call of \<^verbatim>\<open>historyDB.AddBlockSCData\<close>: the data of
  the block are stored in the history database, the statistics and the current slot are
  brought up to date, and the data are returned.
\<close>

definition storeBlock ::
  "('h, 's) sync_env \<Rightarrow> Block \<Rightarrow> BlockData \<Rightarrow> ('h, 's, sync_result) sync" where
  "storeBlock env ethBlock blockData =
     bnd (gets historyDB) (\<lambda>h.
     bnd (liftE (AddBlockSCData env h blockData)) (\<lambda>h1.
     thn (modify (\<lambda>s. s\<lparr>historyDB := h1\<rparr>))
    (thn (updateSyncStats env ethBlock (rd_Batches (bk_Rollup blockData)))
    (thn (updateCurrentSlotIfSync env False
            (case rd_Batches (bk_Rollup blockData) of
               [] \<Rightarrow> None
             | b # _ \<Rightarrow> Some (b_EthBlockNum (bd_Batch b))))
         (ret (SyncedBlock blockData))))))"

text \<open>
  \<^verbatim>\<open>Sync2\<close> from the line \<^verbatim>\<open>// Get data from the rollup contract\<close> on: the three
  streams, the pairing of the withdrawals, and the end of \<^verbatim>\<open>Sync2\<close>.
\<close>

definition syncBlock :: "('h, 's) sync_env \<Rightarrow> Block \<Rightarrow> ('h, 's, sync_result) sync" where
  "syncBlock env ethBlock =
     bnd (rollupSync env ethBlock) (\<lambda>rollupData.
     bnd (auctionSync env ethBlock) (\<lambda>auctionData.
     bnd (wdelayerSync env ethBlock) (\<lambda>wDelayerData.
     bnd (liftE (pairWithdrawals (DepositsByTxHash wDelayerData) (rd_Withdrawals rollupData)))
       (\<lambda>(withdrawals, deposits).
     storeBlock env ethBlock
       \<lparr>bk_Block = ethBlock,
        bk_Rollup = rollupData\<lparr>rd_Withdrawals := withdrawals\<rparr>,
        bk_Auction = auctionData,
        bk_WDelayer = wDelayerData\<lparr>DepositsByTxHash := deposits\<rparr>\<rparr>))))"

text \<open>
  The start of \<^verbatim>\<open>Sync2\<close>: the last saved block (the argument, or else the last block
  of the history database, or none when the database holds only block 0) and the number
  of the next block.
\<close>

definition lastSavedAndNext ::
  "('h, 's) sync_env \<Rightarrow> Block option \<Rightarrow> ('h, 's, Block option \<times> int) sync" where
  "lastSavedAndNext env lastSavedBlock =
     bnd (case lastSavedBlock of
            Some lb \<Rightarrow> ret (Some lb, 0)
          | None \<Rightarrow>
              bnd (gets (\<lambda>s. (historyDB s, startBlockNum s))) (\<lambda>(h, start).
              case GetLastBlock env h of
                Inl err \<Rightarrow> if err \<noteq> ErrNoRows then throw err else ret (None, start)
              | Inr lb \<Rightarrow> if Num lb = 0 then ret (None, start) else ret (Some lb, 0)))
       (\<lambda>(lastSaved, nextBlockNum).
     case lastSaved of
       None \<Rightarrow> ret (None, nextBlockNum)
     | Some lb \<Rightarrow>
         bnd (gets startBlockNum) (\<lambda>start.
         if Num lb < start then throw ErrLastSavedBlockBeforeStart
         else ret (Some lb, Num lb + 1)))"

text \<open>\<^verbatim>\<open>Sync2\<close>.\<close>

definition Sync2 ::
  "('h, 's) sync_env \<Rightarrow> Block option \<Rightarrow> ('h, 's, sync_result) sync" where
  "Sync2 env lastSavedBlock =
     bnd (lastSavedAndNext env lastSavedBlock) (\<lambda>(lastSaved, nextBlockNum).
     case EthBlockByNumber env nextBlockNum of
       Inl err \<Rightarrow> if err = NotFound then ret NotSynced else throw err
     | Inr ethBlock \<Rightarrow>
         thn (UpdateEth env)
             (case lastSaved of
                None \<Rightarrow> syncBlock env ethBlock
              | Some lb \<Rightarrow>
                  if Hash lb \<noteq> ParentHash ethBlock then
                    bnd (reorg env lb) (\<lambda>lastDBBlockNum.
                    ret (Discarded (Num lb - lastDBBlockNum)))
                  else syncBlock env ethBlock))"

section \<open>A small chain to run the synchronizer on\<close>

text \<open>
  Collaborators simple enough to compute with: the history database is the list of the
  blocks it holds, with one batch for every block; the state database is the number of
  the batch it stands at; the chain is a list of blocks, and the three streams of events
  are given block by block.
\<close>

definition blk :: "int \<Rightarrow> hash \<Rightarrow> hash \<Rightarrow> Block" where
  "blk n h p = \<lparr>Num = n, Timestamp = 0, Hash = h, ParentHash = p\<rparr>"

definition vars0 :: SCVariables where
  "vars0 =
     \<lparr>Rollup = \<lparr>rv_EthBlockNum = 0, FeeAddToken = 0, ForgeL1L2BatchTimeout = 0,
        rv_WithdrawalDelay = 0, Buckets = [], SafeMode = False\<rparr>,
      Auction = \<lparr>av_EthBlockNum = 0, DonationAddress = 0, BootCoordinator = 5,
        BootCoordinatorURL = ''boot'', DefaultSlotSetBid = [0, 0, 0, 0, 0, 0],
        DefaultSlotSetBidSlotNum = 0, ClosedAuctionSlots = 2, OpenAuctionSlots = 0,
        AllocationRatio = [], Outbidding = 0, SlotDeadline = 0\<rparr>,
      WDelayer = \<lparr>wv_EthBlockNum = 0, HermezGovernanceAddress = 0,
        EmergencyCouncilAddress = 0, wv_WithdrawalDelay = 0, EmergencyModeStartingBlock = 0,
        EmergencyMode = False\<rparr>\<rparr>"

definition noRollupEvents :: RollupEvents where
  "noRollupEvents =
     \<lparr>ev_L1UserTx = [], ev_ForgeBatch = [], ev_AddToken = [], ev_UpdateBucketWithdraw = [],
      ev_Withdraw = [], ev_UpdateTokenExchange = [], ev_UpdateForgeL1L2BatchTimeout = [],
      ev_UpdateFeeAddToken = [], ev_UpdateWithdrawalDelay = [],
      ev_UpdateBucketsParameters = []\<rparr>"

definition noAuctionEvents :: AuctionEvents where
  "noAuctionEvents =
     \<lparr>ev_NewBid = [], ev_SetCoordinator = [], ev_NewSlotDeadline = [],
      ev_NewClosedAuctionSlots = [], ev_NewOutbidding = [], ev_NewDonationAddress = [],
      ev_NewBootCoordinator = [], ev_NewOpenAuctionSlots = [], ev_NewAllocationRatio = [],
      ev_NewDefaultSlotSetBid = []\<rparr>"

definition noWDelayerEvents :: WDelayerEvents where
  "noWDelayerEvents =
     \<lparr>ev_Deposit = [], ev_WDelayerWithdraw = [], ev_EscapeHatchWithdrawal = [],
      ev_EmergencyModeEnabled = [], ev_NewWithdrawalDelay = [], ev_NewEmergencyCouncil = [],
      ev_NewHermezGovernanceAddress = []\<rparr>"

definition chainBlock :: "Block list \<Rightarrow> int \<Rightarrow> sync_error + Block" where
  "chainBlock chain n =
     (if n = - 1 then (if chain = [] then Inl NotFound else Inr (last chain))
      else case find (\<lambda>b. Num b = n) chain of None \<Rightarrow> Inl NotFound | Some b \<Rightarrow> Inr b)"

definition toy_env ::
  "Block list \<Rightarrow> (int \<Rightarrow> RollupEvents \<times> hash option) \<Rightarrow> (int \<Rightarrow> AuctionEvents \<times> hash option)
     \<Rightarrow> (int \<Rightarrow> WDelayerEvents \<times> hash option) \<Rightarrow> (Block list, int) sync_env" where
  "toy_env chain rollupEv auctionEv wDelayerEv =
     \<lparr>Now = 0,
      EthBlockByNumber = chainBlock chain,
      RollupLastForgedBatch = Inr 0,
      RollupEventsByBlock = (\<lambda>n. Inr (rollupEv n)),
      AuctionEventsByBlock = (\<lambda>n. Inr (auctionEv n)),
      WDelayerEventsByBlock = (\<lambda>n. Inr (wDelayerEv n)),
      RollupForgeBatchArgs = (\<lambda>h n. Inl (ErrCollaborator 0)),
      EthERC20Consts = (\<lambda>a.
        if a = 1 then Inl (ErrCollaborator 1)
        else Inr \<lparr>erc_Name = ''A token with quite a long name'', erc_Symbol = ''LONGSYMBOLXYZ'',
               erc_Decimals = 18\<rparr>),
      AuctionCanForge = (\<lambda>f n. Inr True),
      GetLastBlock = (\<lambda>h. if h = [] then Inl ErrNoRows else Inr (last h)),
      GetBlock = (\<lambda>h n.
        case find (\<lambda>b. Num b = n) h of None \<Rightarrow> Inl ErrNoRows | Some b \<Rightarrow> Inr b),
      Reorg = (\<lambda>h n. Inr (filter (\<lambda>b. Num b \<le> n) h)),
      GetSCVars = (\<lambda>h. Inr vars0),
      SetInitialSCVars = (\<lambda>h v. Inr h),
      AddCoordinators = (\<lambda>h cs. Inr h),
      GetLastBatchNum = (\<lambda>h. Inr (int (length h))),
      GetLastL1BatchBlockNum = (\<lambda>h. Inl ErrNoRows),
      GetLastL1TxsNum = (\<lambda>h. Inr None),
      GetUnforgedL1UserTxs = (\<lambda>h n. Inr []),
      GetFirstBatchBlockNumBySlot = (\<lambda>h n. Inl ErrNoRows),
      GetBestBidCoordinator = (\<lambda>h n. Inl ErrNoRows),
      AddBlockSCData = (\<lambda>h bd. Inr (h @ [bk_Block bd])),
      StateDBReset = (\<lambda>sdb n. Inr n),
      ProcessTxs = (\<lambda>sdb c u k p.
        Inr (\<lparr>ExitInfos = [], CreatedAccounts = [], CollectedFees = []\<rparr>, p, sdb + 1)),
      NewL1Tx = Inr,
      SetType = Inr,
      L2TxsToPoolL2Txs = map l2_content,
      PoolL2TxsToL2Txs = (\<lambda>ps. Inr (map (\<lambda>p.
        \<lparr>l2_content = p, l2_Position = 0, l2_EthBlockNum = 0, l2_BatchNum = 0\<rparr>) ps)),
      SetID = Inr,
      AuctionSlotNum = (\<lambda>n. n div 10),
      AuctionSlotBlocks = (\<lambda>n. (10 * n, 10 * n + 9)),
      AuctionRelativeBlock = (\<lambda>n. n mod 10)\<rparr>"

text \<open>
  A synchronizer that starts at block 1 and holds the blocks given, at the batch given,
  with statistics that say the chain is further on than the last block it holds.
\<close>

definition toy_sync :: "Block list \<Rightarrow> int \<Rightarrow> (Block list, int) Synchronizer" where
  "toy_sync stored batch =
     \<lparr>auctionConsts = \<lparr>GenesisBlockNum = 0, BlocksPerSlot = 10\<rparr>,
      historyDB = stored,
      stateDB = batch,
      initVars = vars0,
      startBlockNum = 1,
      vars = vars0,
      stats =
        \<lparr>Eth = \<lparr>RefreshPeriod = 1, eth_Updated = 0, FirstBlockNum = 1,
                 eth_LastBlock = blk 100 100 99, eth_LastBatch = 0\<rparr>,
         Sync = \<lparr>sync_Updated = 0, sync_LastBlock = blk 0 0 0, sync_LastBatch = 0,
                  LastL1BatchBlock = 0, LastForgeL1TxsNum = - 1, CurrentSlot = emptySlot\<rparr>\<rparr>\<rparr>"

text \<open>Block 3 of a chain, with two \<^verbatim>\<open>AddToken\<close> events: the probe of token 1 fails.\<close>

definition chain3 :: "Block list" where
  "chain3 = [blk 1 11 10, blk 2 12 11, blk 3 13 12]"

definition addTokenEvents :: "int \<Rightarrow> RollupEvents \<times> hash option" where
  "addTokenEvents n =
     (if n = 3 then
        (noRollupEvents\<lparr>ev_AddToken :=
           [\<lparr>TokenAddress = 1, at_TokenID = 1\<rparr>, \<lparr>TokenAddress = 2, at_TokenID = 2\<rparr>]\<rparr>,
         Some 13)
      else (noRollupEvents, None))"

definition env_tokens :: "(Block list, int) sync_env" where
  "env_tokens =
     toy_env chain3 addTokenEvents (\<lambda>n. (noAuctionEvents, None)) (\<lambda>n. (noWDelayerEvents, None))"

text \<open>
  Block 3 with three deposits in the withdrawal delayer (two of the transaction 7, one of
  the transaction 8) and withdrawals of the rollup: first a list that the deposits
  cover, then a list with one withdrawal of the transaction 7 too many.
\<close>

definition depositEvents :: "int \<Rightarrow> WDelayerEvents \<times> hash option" where
  "depositEvents n =
     (if n = 3 then
        (noWDelayerEvents\<lparr>ev_Deposit :=
           [\<lparr>de_Owner = 1, de_Token = 21, de_Amount = 5, de_TxHash = 7\<rparr>,
            \<lparr>de_Owner = 2, de_Token = 22, de_Amount = 5, de_TxHash = 7\<rparr>,
            \<lparr>de_Owner = 3, de_Token = 23, de_Amount = 5, de_TxHash = 8\<rparr>]\<rparr>,
         Some 13)
      else (noWDelayerEvents, None))"

definition wev :: "bool \<Rightarrow> hash \<Rightarrow> RollupEventWithdraw" where
  "wev instant h = \<lparr>we_Idx = 256, we_NumExitRoot = 1, we_InstantWithdraw = instant, we_TxHash = h\<rparr>"

definition withdrawEvents :: "RollupEventWithdraw list \<Rightarrow> int \<Rightarrow> RollupEvents \<times> hash option" where
  "withdrawEvents ws n =
     (if n = 3 then (noRollupEvents\<lparr>ev_Withdraw := ws\<rparr>, Some 13)
      else (noRollupEvents, None))"

definition env_withdrawals :: "RollupEventWithdraw list \<Rightarrow> (Block list, int) sync_env" where
  "env_withdrawals ws =
     toy_env chain3 (withdrawEvents ws) (\<lambda>n. (noAuctionEvents, None)) depositEvents"

definition withdrawals_covered :: "RollupEventWithdraw list" where
  "withdrawals_covered = [wev False 7, wev True 9, wev False 7, wev False 8]"

definition withdrawals_short :: "RollupEventWithdraw list" where
  "withdrawals_short = [wev False 7, wev False 7, wev False 7]"

text \<open>Block 3 with a stream that reports the hash 99, which is not the hash of the block.\<close>

definition env_rollup_mismatch :: "(Block list, int) sync_env" where
  "env_rollup_mismatch =
     toy_env chain3 (\<lambda>n. (noRollupEvents, Some 99)) (\<lambda>n. (noAuctionEvents, None))
       (\<lambda>n. (noWDelayerEvents, None))"

definition env_auction_mismatch :: "(Block list, int) sync_env" where
  "env_auction_mismatch =
     toy_env chain3 (\<lambda>n. (noRollupEvents, None)) (\<lambda>n. (noAuctionEvents, Some 99))
       (\<lambda>n. (noWDelayerEvents, None))"

definition env_wdelayer_mismatch :: "(Block list, int) sync_env" where
  "env_wdelayer_mismatch =
     toy_env chain3 (\<lambda>n. (noRollupEvents, None)) (\<lambda>n. (noAuctionEvents, None))
       (\<lambda>n. (noWDelayerEvents, Some 99))"

text \<open>
  A reorganisation: the synchronizer holds the blocks 1, 2 and 3 of one chain, and the
  chain now has other blocks 2, 3 and 4 on top of the same block 1. Then a chain that
  shares no block with the blocks held, and a history database that fails to read.
\<close>

definition stored123 :: "Block list" where
  "stored123 = [blk 1 11 10, blk 2 12 11, blk 3 13 12]"

definition no_events :: "Block list \<Rightarrow> (Block list, int) sync_env" where
  "no_events chain =
     toy_env chain (\<lambda>n. (noRollupEvents, None)) (\<lambda>n. (noAuctionEvents, None))
       (\<lambda>n. (noWDelayerEvents, None))"

definition env_reorg :: "(Block list, int) sync_env" where
  "env_reorg = no_events [blk 1 11 10, blk 2 32 11, blk 3 33 32, blk 4 34 33]"

definition env_reorg_all :: "(Block list, int) sync_env" where
  "env_reorg_all = no_events [blk 1 31 30, blk 2 32 31, blk 3 33 32, blk 4 34 33]"

definition env_reorg_fails :: "(Block list, int) sync_env" where
  "env_reorg_fails = env_reorg\<lparr>GetBlock := (\<lambda>h n. Inl (ErrCollaborator 7))\<rparr>"

text \<open>
  Block 3 with a batch: the rollup stream has one \<^verbatim>\<open>ForgeBatch\<close> event (batch 3, no
  transactions), one \<^verbatim>\<open>UpdateFeeAddToken\<close> event that sets the fee to 42, and the
  withdrawals given; the arguments of the batch are read without error. Then the auction
  stream, or the stream of the withdrawal delayer, reports the hash 99; or the streams
  are those of the block but one withdrawal has no deposit left.
\<close>

definition batchArgs :: ForgeBatchArgs where
  "batchArgs =
     \<lparr>fa_L1Batch = False, fa_L1CoordinatorTxs = [], L2TxsData = [], FeeIdxCoordinator = [],
      NewLastIdx = 255, NewStRoot = 0, NewExitRoot = 0\<rparr>"

definition batchEvents :: "RollupEventWithdraw list \<Rightarrow> int \<Rightarrow> RollupEvents \<times> hash option" where
  "batchEvents ws n =
     (if n = 3 then
        (noRollupEvents\<lparr>
           ev_ForgeBatch := [\<lparr>fb_BatchNum = 3, EthTxHash = 5, L1UserTxsLen = 0\<rparr>],
           ev_Withdraw := ws,
           ev_UpdateFeeAddToken := [42]\<rparr>,
         Some 13)
      else (noRollupEvents, None))"

definition env_batch_auction_mismatch :: "(Block list, int) sync_env" where
  "env_batch_auction_mismatch =
     (toy_env chain3 (batchEvents []) (\<lambda>n. (noAuctionEvents, Some 99))
        (\<lambda>n. (noWDelayerEvents, None)))
     \<lparr>RollupForgeBatchArgs := (\<lambda>h n. Inr (batchArgs, 6))\<rparr>"

definition env_batch_wdelayer_mismatch :: "(Block list, int) sync_env" where
  "env_batch_wdelayer_mismatch =
     (toy_env chain3 (batchEvents []) (\<lambda>n. (noAuctionEvents, None))
        (\<lambda>n. (noWDelayerEvents, Some 99)))
     \<lparr>RollupForgeBatchArgs := (\<lambda>h n. Inr (batchArgs, 6))\<rparr>"

definition env_batch_missing_deposit :: "(Block list, int) sync_env" where
  "env_batch_missing_deposit =
     (toy_env chain3 (batchEvents withdrawals_short) (\<lambda>n. (noAuctionEvents, None))
        depositEvents)
     \<lparr>RollupForgeBatchArgs := (\<lambda>h n. Inr (batchArgs, 6))\<rparr>"

section \<open>The transaction processor\<close>

text \<open>
  Modelled from the spec: the transaction processor (\<^verbatim>\<open>ProcessTxs\<close> and the state
  database under it) is not among the sources, which hold only its tests. This section
  follows section 4.3 of the specification, with the accounts and the operations of the
  state database of sections 3 and 4.2. Amounts are natural numbers. The Merkle tree and
  the witness \<^verbatim>\<open>ZKInputs\<close> are left out; the signature scheme and the table of fees,
  which the specification does not give, are parameters.
\<close>

datatype tp_error =
  ErrMaxL1Tx
| ErrMaxTx
| ErrMaxFeeTx
| ErrAccountNotFound
| ErrSignature
| ErrNonce
| ErrMaxNumBatch
| ErrToIdx
| ErrTokenID
| ErrBalance
| ErrNotL2

text \<open>Modelled from the spec: an account, without its index (section 3).\<close>

record tp_Account =
  ac_TokenID :: "32 word"
  ac_Nonce :: nat
  ac_Balance :: nat
  ac_BJJ :: hash
  ac_EthAddr :: address

text \<open>
  Modelled from the spec: the state database, as the accounts by index, the last index
  given to an account (255 when there is none) and the number of the current batch.
\<close>

record StateDB =
  sdb_accounts :: "nat \<Rightarrow> tp_Account option"
  lastIdx :: nat
  currentBatch :: nat

definition emptyStateDB :: StateDB where
  "emptyStateDB = \<lparr>sdb_accounts = (\<lambda>i. None), lastIdx = 255, currentBatch = 0\<rparr>"

text \<open>Modelled from the spec: the fields of the transactions that section 4.3 reads.\<close>

record tp_L1Tx =
  l1_Type :: TxType
  l1_FromIdx :: nat
  l1_ToIdx :: nat
  l1_TokenID :: "32 word"
  l1_Amount :: nat
  l1_DepositAmount :: nat
  l1_FromBJJ :: hash
  l1_FromEthAddr :: address

record tp_L2Tx =
  l2_Type :: TxType
  l2_FromIdx :: nat
  l2_ToIdx :: nat
  l2_ToEthAddr :: address
  l2_ToBJJ :: hash
  l2_TokenID :: "32 word"
  l2_Amount :: nat
  l2_Fee :: "8 word"
  l2_Nonce :: nat
  l2_MaxNumBatch :: nat
  l2_Signature :: nat

record ProcessTxsConfig =
  MaxTx :: nat
  MaxL1Tx :: nat
  MaxFeeTx :: nat

record tp_ExitInfo =
  exit_Idx :: nat
  exit_Amount :: nat

record tp_Output =
  out_ExitInfos :: "tp_ExitInfo list"
  out_CreatedAccounts :: "nat list"
  out_CollectedFees :: "32 word \<Rightarrow> nat"

text \<open>
  Modelled from the spec: the two parameters. \<open>feeTable\<close> gives the multiplier of a fee
  selector; \<open>verifySignature\<close> says whether the signature of a transaction is valid for
  the public key given.
\<close>

record tp_env =
  feeTable :: "8 word \<Rightarrow> rat"
  verifySignature :: "tp_L2Tx \<Rightarrow> hash \<Rightarrow> bool"

text \<open>
  Modelled from the spec: \<^verbatim>\<open>feeAmount = Amount * feeTable[FeeSelector]\<close>, an integer as
  every amount is: the product rounded down.
\<close>

definition feeAmount :: "tp_env \<Rightarrow> nat \<Rightarrow> 8 word \<Rightarrow> nat" where
  "feeAmount env amt sel = nat \<lfloor>of_nat amt * feeTable env sel\<rfloor>"

text \<open>
  Modelled from the spec: the operations of the state database (section 4.2).
  \<^verbatim>\<open>createAccount\<close> assigns the next index and bumps \<^verbatim>\<open>lastIdx\<close>; the two look-ups go
  through the indices given so far, from 256.
\<close>

definition createAccount_sdb :: "StateDB \<Rightarrow> tp_Account \<Rightarrow> StateDB" where
  "createAccount_sdb sdb acc =
     sdb\<lparr>sdb_accounts := (sdb_accounts sdb)(Suc (lastIdx sdb) := Some acc),
         lastIdx := Suc (lastIdx sdb)\<rparr>"

definition updateAccount :: "StateDB \<Rightarrow> nat \<Rightarrow> tp_Account \<Rightarrow> StateDB" where
  "updateAccount sdb i acc = sdb\<lparr>sdb_accounts := (sdb_accounts sdb)(i := Some acc)\<rparr>"

definition getIdxByEthAddrBJJ :: "StateDB \<Rightarrow> address \<Rightarrow> hash \<Rightarrow> 32 word \<Rightarrow> nat option" where
  "getIdxByEthAddrBJJ sdb addr bjj tok =
     find (\<lambda>i. case sdb_accounts sdb i of
                   None \<Rightarrow> False
                 | Some acc \<Rightarrow> ac_EthAddr acc = addr \<and> ac_BJJ acc = bjj \<and> ac_TokenID acc = tok)
       [256..<Suc (lastIdx sdb)]"

definition getIdxByEthAddr :: "StateDB \<Rightarrow> address \<Rightarrow> 32 word \<Rightarrow> nat option" where
  "getIdxByEthAddr sdb addr tok =
     find (\<lambda>i. case sdb_accounts sdb i of
                   None \<Rightarrow> False
                 | Some acc \<Rightarrow> ac_EthAddr acc = addr \<and> ac_TokenID acc = tok)
       [256..<Suc (lastIdx sdb)]"

text \<open>
  Modelled from the spec: the transfer leg of an L1 transaction. It is applied when the
  recipient is a user account of the token of the sender and the sender holds the
  amount; otherwise nothing changes. The sender is debited and stored before the
  recipient is read.
\<close>

definition l1Transfer :: "StateDB \<Rightarrow> nat \<Rightarrow> nat \<Rightarrow> nat \<Rightarrow> StateDB" where
  "l1Transfer sdb fromIdx toIdx amt =
     (case sdb_accounts sdb fromIdx of
        None \<Rightarrow> sdb
      | Some sender \<Rightarrow>
          (case sdb_accounts sdb toIdx of
             None \<Rightarrow> sdb
           | Some recipient0 \<Rightarrow>
               if toIdx < 256 \<or> ac_TokenID recipient0 \<noteq> ac_TokenID sender
                  \<or> ac_Balance sender < amt
               then sdb
               else
                 let sdb1 = updateAccount sdb fromIdx
                              (sender\<lparr>ac_Balance := ac_Balance sender - amt\<rparr>)
                 in (case sdb_accounts sdb1 toIdx of
                       None \<Rightarrow> sdb1
                     | Some recipient \<Rightarrow>
                         updateAccount sdb1 toIdx
                           (recipient\<lparr>ac_Balance := ac_Balance recipient + amt\<rparr>))))"

text \<open>
  Modelled from the spec: one L1 transaction. A transaction that fails its check is
  consumed and not applied. The result is the state, the index of the account created,
  if any, and the exit recorded, if any.
\<close>

definition processL1Tx ::
  "StateDB \<Rightarrow> tp_L1Tx \<Rightarrow> StateDB \<times> nat option \<times> tp_ExitInfo option" where
  "processL1Tx sdb tx =
     (if l1_Type tx = TxTypeCreateAccountDeposit \<or> l1_Type tx = TxTypeCreateAccountDepositTransfer
      then
        (if getIdxByEthAddrBJJ sdb (l1_FromEthAddr tx) (l1_FromBJJ tx) (l1_TokenID tx) \<noteq> None
         then (sdb, None, None)
         else
           let sdb1 = createAccount_sdb sdb
                        \<lparr>ac_TokenID = l1_TokenID tx, ac_Nonce = 0,
                         ac_Balance = l1_DepositAmount tx, ac_BJJ = l1_FromBJJ tx,
                         ac_EthAddr = l1_FromEthAddr tx\<rparr>
           in if l1_Type tx = TxTypeCreateAccountDeposit then (sdb1, Some (lastIdx sdb1), None)
              else (l1Transfer sdb1 (lastIdx sdb1) (l1_ToIdx tx) (l1_Amount tx),
                    Some (lastIdx sdb1), None))
      else if l1_Type tx = TxTypeDeposit \<or> l1_Type tx = TxTypeDepositTransfer then
        (case sdb_accounts sdb (l1_FromIdx tx) of
           None \<Rightarrow> (sdb, None, None)
         | Some acc \<Rightarrow>
             if ac_EthAddr acc \<noteq> l1_FromEthAddr tx then (sdb, None, None)
             else
               let sdb1 = updateAccount sdb (l1_FromIdx tx)
                            (acc\<lparr>ac_Balance := ac_Balance acc + l1_DepositAmount tx\<rparr>)
               in if l1_Type tx = TxTypeDeposit then (sdb1, None, None)
                  else (l1Transfer sdb1 (l1_FromIdx tx) (l1_ToIdx tx) (l1_Amount tx), None, None))
      else if l1_Type tx = TxTypeForceTransfer then
        (case sdb_accounts sdb (l1_FromIdx tx) of
           None \<Rightarrow> (sdb, None, None)
         | Some acc \<Rightarrow>
             if ac_EthAddr acc \<noteq> l1_FromEthAddr tx then (sdb, None, None)
             else (l1Transfer sdb (l1_FromIdx tx) (l1_ToIdx tx) (l1_Amount tx), None, None))
      else if l1_Type tx = TxTypeForceExit then
        (case sdb_accounts sdb (l1_FromIdx tx) of
           None \<Rightarrow> (sdb, None, None)
         | Some acc \<Rightarrow>
             if ac_EthAddr acc \<noteq> l1_FromEthAddr tx \<or> ac_Balance acc < l1_Amount tx
             then (sdb, None, None)
             else (updateAccount sdb (l1_FromIdx tx)
                     (acc\<lparr>ac_Balance := ac_Balance acc - l1_Amount tx\<rparr>),
                   None,
                   Some \<lparr>exit_Idx = l1_FromIdx tx, exit_Amount = l1_Amount tx\<rparr>))
      else (sdb, None, None))"

text \<open>
  Modelled from the spec: the state of a batch while \<^verbatim>\<open>ProcessTxs\<close> runs: the state
  database and the output so far.
\<close>

type_synonym tp_run = "StateDB \<times> tp_Output"

definition addL1 :: "tp_run \<Rightarrow> tp_L1Tx \<Rightarrow> tp_run" where
  "addL1 run tx =
     (case processL1Tx (fst run) tx of
        (sdb1, created, exited) \<Rightarrow>
          (sdb1,
           (snd run)\<lparr>
             out_CreatedAccounts :=
               out_CreatedAccounts (snd run) @ (case created of None \<Rightarrow> [] | Some i \<Rightarrow> [i]),
             out_ExitInfos :=
               out_ExitInfos (snd run) @ (case exited of None \<Rightarrow> [] | Some e \<Rightarrow> [e])\<rparr>))"

text \<open>
  Modelled from the spec: the recipient of an L2 transaction. A transfer names a user
  account; a transfer to an address, or to an address and a public key, is resolved to
  the account that exists for them and the token; an exit goes to the index 1.
\<close>

definition l2Recipient :: "StateDB \<Rightarrow> tp_L2Tx \<Rightarrow> tp_error + nat" where
  "l2Recipient sdb tx =
     (if l2_Type tx = TxTypeTransfer then
        (if l2_ToIdx tx < 256 then Inl ErrToIdx else Inr (l2_ToIdx tx))
      else if l2_Type tx = TxTypeTransferToEthAddr then
        (case getIdxByEthAddr sdb (l2_ToEthAddr tx) (l2_TokenID tx) of
           None \<Rightarrow> Inl ErrAccountNotFound
         | Some i \<Rightarrow> Inr i)
      else if l2_Type tx = TxTypeTransferToBJJ then
        (case getIdxByEthAddrBJJ sdb (l2_ToEthAddr tx) (l2_ToBJJ tx) (l2_TokenID tx) of
           None \<Rightarrow> Inl ErrAccountNotFound
         | Some i \<Rightarrow> Inr i)
      else if l2_Type tx = TxTypeExit then Inr 1
      else Inl ErrNotL2)"

text \<open>
  Modelled from the spec: one L2 transaction; a failed check is an error of the whole
  batch. The sender is debited of the amount and the fee and stored; then the recipient
  is read and credited (or the exit recorded); the fee is added to the fees collected
  for the token; and the nonce of the sender is bumped. The check of the balance is
  invariant (I3) of the specification.
\<close>

definition processL2Tx :: "tp_env \<Rightarrow> tp_run \<Rightarrow> tp_L2Tx \<Rightarrow> tp_error + tp_run" where
  "processL2Tx env run tx =
     (let sdb = fst run; out = snd run in
      case sdb_accounts sdb (l2_FromIdx tx) of
        None \<Rightarrow> Inl ErrAccountNotFound
      | Some sender \<Rightarrow>
          if \<not> verifySignature env tx (ac_BJJ sender) then Inl ErrSignature
          else if l2_Nonce tx \<noteq> ac_Nonce sender then Inl ErrNonce
          else if \<not> (l2_MaxNumBatch tx = 0 \<or> l2_MaxNumBatch tx \<ge> currentBatch sdb)
            then Inl ErrMaxNumBatch
          else
            let feeAmt = feeAmount env (l2_Amount tx) (l2_Fee tx) in
            case l2Recipient sdb tx of
              Inl err \<Rightarrow> Inl err
            | Inr toIdx \<Rightarrow>
                if ac_Balance sender < l2_Amount tx + feeAmt then Inl ErrBalance
                else if l2_Type tx = TxTypeExit then
                  Inr (updateAccount sdb (l2_FromIdx tx)
                         (sender\<lparr>ac_Balance := ac_Balance sender - (l2_Amount tx + feeAmt),
                                 ac_Nonce := Suc (ac_Nonce sender)\<rparr>),
                       out\<lparr>out_ExitInfos := out_ExitInfos out @
                              [\<lparr>exit_Idx = l2_FromIdx tx, exit_Amount = l2_Amount tx\<rparr>],
                           out_CollectedFees := (out_CollectedFees out)
                             (ac_TokenID sender := out_CollectedFees out (ac_TokenID sender) + feeAmt)\<rparr>)
                else
                  (case sdb_accounts sdb toIdx of
                     None \<Rightarrow> Inl ErrAccountNotFound
                   | Some recipient0 \<Rightarrow>
                       if ac_TokenID recipient0 \<noteq> ac_TokenID sender then Inl ErrTokenID
                       else
                         let sdb1 = updateAccount sdb (l2_FromIdx tx)
                               (sender\<lparr>ac_Balance := ac_Balance sender - (l2_Amount tx + feeAmt)\<rparr>)
                         in (case sdb_accounts sdb1 toIdx of
                               None \<Rightarrow> Inl ErrAccountNotFound
                             | Some recipient \<Rightarrow>
                                 let sdb2 = updateAccount sdb1 toIdx
                                       (recipient\<lparr>ac_Balance := ac_Balance recipient + l2_Amount tx\<rparr>)
                                 in (case sdb_accounts sdb2 (l2_FromIdx tx) of
                                       None \<Rightarrow> Inl ErrAccountNotFound
                                     | Some sender2 \<Rightarrow>
                                         Inr (updateAccount sdb2 (l2_FromIdx tx)
                                                (sender2\<lparr>ac_Nonce := Suc (ac_Nonce sender2)\<rparr>),
                                              out\<lparr>out_CollectedFees := (out_CollectedFees out)
                                                (ac_TokenID sender :=
                                                   out_CollectedFees out (ac_TokenID sender) + feeAmt)\<rparr>)))))"

fun processL2Txs :: "tp_env \<Rightarrow> tp_run \<Rightarrow> tp_L2Tx list \<Rightarrow> tp_error + tp_run" where
  "processL2Txs env run [] = Inr run"
| "processL2Txs env run (tx # txs) =
     (case processL2Tx env run tx of
        Inl err \<Rightarrow> Inl err
      | Inr run1 \<Rightarrow> processL2Txs env run1 txs)"

text \<open>
  Modelled from the spec: the distribution of the fees. \<open>fees\<close> holds what is left to
  distribute: for each index of the coordinator, in order, the fees collected for the
  token of its account, when there are any, are credited to the account and the slot of
  the token is zeroed.
\<close>

fun distributeFees ::
  "StateDB \<Rightarrow> (32 word \<Rightarrow> nat) \<Rightarrow> nat list \<Rightarrow> tp_error + StateDB" where
  "distributeFees sdb fees [] = Inr sdb"
| "distributeFees sdb fees (i # rest) =
     (case sdb_accounts sdb i of
        None \<Rightarrow> Inl ErrAccountNotFound
      | Some acc \<Rightarrow>
          if fees (ac_TokenID acc) > 0 then
            distributeFees
              (updateAccount sdb i
                 (acc\<lparr>ac_Balance := ac_Balance acc + fees (ac_TokenID acc)\<rparr>))
              (fees(ac_TokenID acc := 0)) rest
          else distributeFees sdb fees rest)"

text \<open>
  Modelled from the spec: \<^verbatim>\<open>ProcessTxs\<close>. The bounds are checked before anything is
  processed; the batch takes the next batch number; then the L1 transactions of the
  users, those of the coordinator, the L2 transactions, and the distribution of the
  fees.
\<close>

definition ProcessTxs_sdb ::
  "tp_env \<Rightarrow> ProcessTxsConfig \<Rightarrow> nat list \<Rightarrow> tp_L1Tx list \<Rightarrow> tp_L1Tx list \<Rightarrow> tp_L2Tx list
     \<Rightarrow> StateDB \<Rightarrow> tp_error + tp_Output \<times> StateDB" where
  "ProcessTxs_sdb env ptc coordIdxs l1UserTxs l1CoordinatorTxs poolL2Txs sdb =
     (if length l1UserTxs + length l1CoordinatorTxs > MaxL1Tx ptc then Inl ErrMaxL1Tx
      else if length l1UserTxs + length l1CoordinatorTxs + length poolL2Txs > MaxTx ptc
        then Inl ErrMaxTx
      else if length coordIdxs > MaxFeeTx ptc then Inl ErrMaxFeeTx
      else
        let run0 = (sdb\<lparr>currentBatch := Suc (currentBatch sdb)\<rparr>,
                    \<lparr>out_ExitInfos = [], out_CreatedAccounts = [],
                     out_CollectedFees = (\<lambda>tok. 0)\<rparr>);
            run1 = foldl addL1 run0 (l1UserTxs @ l1CoordinatorTxs)
        in case processL2Txs env run1 poolL2Txs of
             Inl err \<Rightarrow> Inl err
           | Inr run2 \<Rightarrow>
               (case distributeFees (fst run2) (out_CollectedFees (snd run2)) coordIdxs of
                  Inl err \<Rightarrow> Inl err
                | Inr sdb3 \<Rightarrow> Inr (snd run2, sdb3)))"

text \<open>
  The transactions of \<^verbatim>\<open>TestZKInputs1\<close> and \<^verbatim>\<open>TestZKInputs3\<close>, for users with the
  addresses and public keys given.
\<close>

definition createAccountDeposit :: "address \<Rightarrow> hash \<Rightarrow> tp_L1Tx" where
  "createAccountDeposit addr bjj =
     \<lparr>l1_Type = TxTypeCreateAccountDeposit, l1_FromIdx = 0, l1_ToIdx = 0, l1_TokenID = 1,
      l1_Amount = 0, l1_DepositAmount = 16000000, l1_FromBJJ = bjj, l1_FromEthAddr = addr\<rparr>"

definition createAccountDepositTransfer :: "address \<Rightarrow> hash \<Rightarrow> tp_L1Tx" where
  "createAccountDepositTransfer addr bjj =
     \<lparr>l1_Type = TxTypeCreateAccountDepositTransfer, l1_FromIdx = 0, l1_ToIdx = 258,
      l1_TokenID = 1, l1_Amount = 1000, l1_DepositAmount = 16000000, l1_FromBJJ = bjj,
      l1_FromEthAddr = addr\<rparr>"

definition selfTransfer :: "nat \<Rightarrow> tp_L2Tx" where
  "selfTransfer sig =
     \<lparr>l2_Type = TxTypeTransfer, l2_FromIdx = 256, l2_ToIdx = 256, l2_ToEthAddr = 0,
      l2_ToBJJ = 0, l2_TokenID = 1, l2_Amount = 1000, l2_Fee = 126, l2_Nonce = 0,
      l2_MaxNumBatch = 0, l2_Signature = sig\<rparr>"

definition ptc1 :: ProcessTxsConfig where
  "ptc1 = \<lparr>MaxTx = 3, MaxL1Tx = 2, MaxFeeTx = 2\<rparr>"

text \<open>
  A table of fees whose entry 126 is 101 thousandths, and a signature scheme where the
  signature is the low bits of the public key.
\<close>

definition env1 :: tp_env where
  "env1 =
     \<lparr>feeTable = (\<lambda>sel. if sel = 0 then 0 else if sel = 126 then 101 / 1000 else 1),
      verifySignature = (\<lambda>tx bjj. l2_Signature tx = unat bjj)\<rparr>"


chapter \<open>Theorems\<close>

section \<open>Running a program\<close>

lemma bnd_Inr: "m s = (Inr v, s1) \<Longrightarrow> bnd m f s = f v s1"
  by (simp add: bnd_def)

lemma bnd_Inl: "m s = (Inl e, s1) \<Longrightarrow> bnd m f s = (Inl e, s1)"
  by (simp add: bnd_def)

lemma bnd_result_Inr:
  "bnd m f s = (Inr w, s2) \<Longrightarrow> \<exists>v s1. m s = (Inr v, s1) \<and> f v s1 = (Inr w, s2)"
  by (auto simp: bnd_def split: prod.splits sum.splits)

lemma thn_Inr: "m s = (Inr v, s1) \<Longrightarrow> thn m n s = n s1"
  by (simp add: thn_def bnd_def)

lemma thn_Inl: "m s = (Inl e, s1) \<Longrightarrow> thn m n s = (Inl e, s1)"
  by (simp add: thn_def bnd_def)

lemma liftE_run: "liftE r s = (r, s)"
  by (simp add: liftE_def)

lemma ret_run: "ret v s = (Inr v, s)"
  by (simp add: ret_def)

lemma throw_run: "throw e s = (Inl e, s)"
  by (simp add: throw_def)

lemma gets_run: "gets f s = (Inr (f s), s)"
  by (simp add: gets_def)

lemma modify_run: "modify f s = (Inr (), f s)"
  by (simp add: modify_def)

lemma mapE_Inr: "mapE f vs = Inr ws \<Longrightarrow> list_all2 (\<lambda>v w. f v = Inr w) vs ws"
  by (induction vs arbitrary: ws) (auto split: sum.splits)

lemma mapE_total: "(\<And>v. f v = Inr (g v)) \<Longrightarrow> mapE f vs = Inr (map g vs)"
  by (induction vs) simp_all

section \<open>Programs that keep a property of the state\<close>

named_theorems pres_intros

lemma pres_ret [pres_intros]: "pres P (ret v)"
  by (simp add: pres_def ret_def)

lemma pres_throw [pres_intros]: "pres P (throw e)"
  by (simp add: pres_def throw_def)

lemma pres_gets [pres_intros]: "pres P (gets f)"
  by (simp add: pres_def gets_def)

lemma pres_liftE [pres_intros]: "pres P (liftE r)"
  by (simp add: pres_def liftE_def)

lemma pres_modify: "(\<And>s. P s \<Longrightarrow> P (f s)) \<Longrightarrow> pres P (modify f)"
  by (simp add: pres_def modify_def)

lemma pres_bnd [pres_intros]: "pres P m \<Longrightarrow> (\<And>v. pres P (f v)) \<Longrightarrow> pres P (bnd m f)"
  by (auto simp: pres_def bnd_def split: prod.splits sum.splits)

lemma pres_thn [pres_intros]: "pres P m \<Longrightarrow> pres P n \<Longrightarrow> pres P (thn m n)"
  by (simp add: thn_def pres_bnd)

lemma pres_whenE [pres_intros]: "pres P m \<Longrightarrow> pres P (whenE b m)"
  by (simp add: whenE_def pres_ret)

lemma pres_if [pres_intros]: "pres P m \<Longrightarrow> pres P n \<Longrightarrow> pres P (if b then m else n)"
  by simp

lemma pres_case_option [pres_intros]:
  "pres P m \<Longrightarrow> (\<And>v. pres P (f v)) \<Longrightarrow> pres P (case x of None \<Rightarrow> m | Some v \<Rightarrow> f v)"
  by (cases x) simp_all

lemma pres_case_prod [pres_intros]:
  "(\<And>a b. pres P (f a b)) \<Longrightarrow> pres P (case x of (a, b) \<Rightarrow> f a b)"
  by (cases x) simp

lemma pres_forEach [pres_intros]: "(\<And>v. pres P (body v)) \<Longrightarrow> pres P (forEach vs body)"
  by (induction vs) (simp_all add: pres_ret pres_bnd)

lemma pres_case_sum [pres_intros]:
  "(\<And>e. pres P (f e)) \<Longrightarrow> (\<And>v. pres P (g v)) \<Longrightarrow>
   pres P (case x of Inl e \<Rightarrow> f e | Inr v \<Rightarrow> g v)"
  by (cases x) simp_all

lemma pres_case_list [pres_intros]:
  "pres P m \<Longrightarrow> (\<And>v vs. pres P (f v vs)) \<Longrightarrow>
   pres P (case x of [] \<Rightarrow> m | v # vs \<Rightarrow> f v vs)"
  by (cases x) simp_all

lemma pres_foldE [pres_intros]:
  "(\<And>v acc. pres P (body v acc)) \<Longrightarrow> pres P (foldE body vs acc)"
  by (induction vs arbitrary: acc) (simp_all add: pres_ret pres_bnd)

lemma presD: "pres P m \<Longrightarrow> P s \<Longrightarrow> P (snd (m s))"
  by (simp add: pres_def)

section \<open>Properties of \<^verbatim>\<open>getL2Profitable\<close>\<close>

lemma sortSort_contract: "sort_contract sortSort"
proof -
  have "sorted_wrt (\<lambda>a b. \<not> Less b a) (sort_key (\<lambda>t. - AbsoluteFee t) xs)" for xs
  proof -
    have "sorted (map (\<lambda>t. - AbsoluteFee t) (sort_key (\<lambda>t. - AbsoluteFee t) xs))"
      by (rule sorted_sort_key)
    then show ?thesis
      by (simp add: sorted_map Less_def not_less)
  qed
  then show ?thesis
    by (simp add: sort_contract_def sortSort_def)
qed

lemma getL2Profitable_length:
  assumes "sort_contract srt"
  shows "length (getL2Profitable srt txs mx) = min (length txs) (unat mx)"
proof -
  have "length (srt txs) = length txs"
    using assms by (metis sort_contract_def size_mset)
  then show ?thesis
    by (simp add: getL2Profitable_def Let_def)
qed

lemma getL2Profitable_subset:
  assumes "sort_contract srt"
  shows "mset (getL2Profitable srt txs mx) \<subseteq># mset txs"
proof -
  have m: "mset (srt txs) = mset txs"
    using assms by (simp add: sort_contract_def)
  have "mset (take (unat mx) (srt txs)) \<subseteq># mset (srt txs)"
    by (metis append_take_drop_id mset_append mset_subset_eq_add_left)
  then show ?thesis
    using m by (simp add: getL2Profitable_def Let_def)
qed

lemma getL2Profitable_nonce_sorted:
  assumes "unat mx \<le> length (srt txs)"
  shows "sorted (map Nonce (getL2Profitable srt txs mx))"
  using assms by (simp add: getL2Profitable_def Let_def)

text \<open>
  C10. The claim asks that the slice \<^verbatim>\<open>getL2Profitable\<close> returns is sorted by nonce
  for every input and every bound. With fewer transactions than the bound the function
  returns right after the sort by fee: for two transactions whose fees are 2 and 1 and
  whose nonces are 1 and 0, and the bound 3, it returns both in the order of their fees,
  nonce 1 before nonce 0.
\<close>

theorem getL2Profitable_short_input_not_nonce_sorted:
  "map Nonce (getL2Profitable sortSort [tx_lo, tx_hi] 3) = [1, 0] \<and>
   \<not> sorted (map Nonce (getL2Profitable sortSort [tx_lo, tx_hi] 3))"
  by (simp add: getL2Profitable_def sortSort_def tx_hi_def tx_lo_def)

section \<open>Properties of \<^verbatim>\<open>Status\<close>\<close>

lemma Status_never_returns_a_status: "Status env \<noteq> Inr st"
  by (simp add: Status_def assign_through_def split: sum.splits)

lemma Status_panics_after_GetLastBlock:
  "GetLastBlock0 env = Inr b \<Longrightarrow> Status env = Inl PanicNilPointerDereference"
  by (simp add: Status_def assign_through_def)

text \<open>
  C9. The claim asks that \<^verbatim>\<open>Status\<close> has a status record to assign to on every
  path. The function declares \<^verbatim>\<open>var status *common.SyncStatus\<close> and never gives it a
  record: with a history database that holds block 7 and batch 3 and a chain at block 7,
  the first assignment, \<^verbatim>\<open>status.CurrentBlock = ...\<close>, goes through the nil pointer.
\<close>

theorem Status_dereferences_nil:
  "Status status_env_ok = Inl PanicNilPointerDereference"
  by (simp add: Status_def assign_through_def status_env_ok_def)

section \<open>The L1 queues of the test-set generator\<close>

lemma pres_getUser [pres_intros]: "pres P (getUser n)"
  by (simp add: pres_def getUser_def split: option.splits)

lemma pres_queueAt [pres_intros]: "pres P (queueAt i)"
  by (simp add: pres_def queueAt_def)

lemma pres_testL2TxAt [pres_intros]: "pres P (testL2TxAt i)"
  by (simp add: pres_def testL2TxAt_def)

lemma pres_getAccountPtr [pres_intros]: "pres P (getAccountPtr n t)"
  unfolding getAccountPtr_def by (intro pres_intros)

lemma pres_getAccount [pres_intros]: "pres P (getAccount n t)"
  unfolding getAccount_def by (intro pres_intros)

lemma pres_checkIfAccountExists [pres_intros]: "pres P (checkIfAccountExists n t)"
  unfolding checkIfAccountExists_def by (intro pres_intros)

lemma pres_checkIfTokenIsRegistered [pres_intros]: "pres P (checkIfTokenIsRegistered t)"
  unfolding checkIfTokenIsRegistered_def by (intro pres_intros)

lemma pres_queueTxAt [pres_intros]: "pres P (queueTxAt i)"
  unfolding queueTxAt_def by (intro pres_intros)

lemma addToL1Queue_queues_ok: "pres queues_ok (addToL1Queue tx)"
  unfolding pres_def
proof (intro allI impI)
  fix s assume ok: "queues_ok s"
  show "queues_ok (snd (addToL1Queue tx s))"
  proof (cases "int (length (queues s ! nat (openToForge s))) \<ge> rollupConstMaxL1UserTx s")
    case True
    with ok show ?thesis
      by (simp add: addToL1Queue_def bnd_def thn_def gets_def queueAt_def whenE_def modify_def
          queues_ok_def nth_append list_all_length nth_list_update)
  next
    case False
    with ok show ?thesis
      by (auto simp add: addToL1Queue_def bnd_def thn_def gets_def queueAt_def whenE_def
          modify_def ret_def queues_ok_def nth_append list_all_length nth_list_update)
  qed
qed

lemma updQueueTx_queues_ok: "pres queues_ok (updQueueTx i f)"
  unfolding updQueueTx_def
  by (rule pres_modify) (auto simp: queues_ok_def list_all_length nth_list_update)

lemma advanceBatch_queues_ok: "pres queues_ok advanceBatch"
  by (auto simp: pres_def advanceBatch_def thn_def bnd_def modify_def gets_def whenE_def ret_def
      queues_ok_def)

lemma createAccount_queues_ok: "pres queues_ok (createAccount env tx)"
  by (auto simp: pres_def createAccount_def queues_ok_def split: option.splits)

lemma incNonce_queues_ok: "pres queues_ok (incNonce n t)"
  by (auto simp: pres_def incNonce_def queues_ok_def split: option.splits)

lemma updTestL2Tx_queues_ok: "pres queues_ok (updTestL2Tx i f)"
  unfolding updTestL2Tx_def by (rule pres_modify) (simp add: queues_ok_def)

lemma addTestL2Tx_queues_ok: "pres queues_ok (addTestL2Tx t)"
  unfolding addTestL2Tx_def by (rule pres_modify) (simp add: queues_ok_def)

lemma calculateIdxForL1Txs_queues_ok: "pres queues_ok (calculateIdxForL1Txs env b txs)"
  unfolding calculateIdxForL1Txs_def calculateIdxForL1Tx_def
  by (intro pres_intros createAccount_queues_ok pres_modify) (simp add: queues_ok_def)

lemma setIdx_queues_ok: "pres queues_ok (setIdx env i)"
  unfolding setIdx_def
  by (intro pres_intros incNonce_queues_ok updTestL2Tx_queues_ok pres_modify)
     (simp add: queues_ok_def)

lemma setIdxs_queues_ok: "pres queues_ok (setIdxs env)"
  unfolding setIdxs_def
  by (intro pres_intros setIdx_queues_ok pres_modify) (simp add: queues_ok_def)

lemma setQueueTxIdx_queues_ok: "pres queues_ok (setQueueTxIdx i)"
  unfolding setQueueTxIdx_def
  by (intro pres_intros updQueueTx_queues_ok pres_modify) (simp add: queues_ok_def)

lemma newBatchL1_queues_ok: "pres queues_ok (newBatchL1 env)"
  unfolding newBatchL1_def
  by (intro pres_intros calculateIdxForL1Txs_queues_ok setQueueTxIdx_queues_ok
      setIdxs_queues_ok advanceBatch_queues_ok)

lemma processInstruction_queues_ok: "pres queues_ok (processInstruction env inst)"
  unfolding processInstruction_def
  by (cases "inst_typ inst";
      simp add: pres_throw;
      intro pres_intros addToL1Queue_queues_ok calculateIdxForL1Txs_queues_ok
        setIdxs_queues_ok newBatchL1_queues_ok addTestL2Tx_queues_ok pres_modify;
      simp add: queues_ok_def)

lemma generateKeys_queues_ok: "pres queues_ok (generateKeys env names)"
  unfolding generateKeys_def generateKey_def
  by (intro pres_intros pres_modify) (simp add: queues_ok_def)

lemma GenerateBlocks_queues_ok: "pres queues_ok (GenerateBlocks env insts names)"
  unfolding GenerateBlocks_def
  by (intro pres_intros generateKeys_queues_ok processInstruction_queues_ok pres_modify)
     (simp add: queues_ok_def)

lemma NewTestContext_queues_ok: "1 \<le> m \<Longrightarrow> queues_ok (NewTestContext m)"
  by (simp add: queues_ok_def NewTestContext_def)

text \<open>
  C6, as amended. For a maximum of at least one: a new test context has the shape
  \<open>queues_ok\<close> (one open queue, the last; the queue to forge before it; no queue longer
  than the maximum), and every operation keeps it, whether it succeeds or fails:
  \<^verbatim>\<open>GenerateBlocks\<close> on any instructions, each turn of its loop, \<^verbatim>\<open>addToL1Queue\<close>
  and the L1 batch. When the open queue holds the maximum, \<^verbatim>\<open>addToL1Queue\<close> appends a
  new queue that holds the transaction alone and makes it the open one. When, after an
  L1 batch, the queue to forge would be the open one, a new empty queue is appended and
  becomes the open one.
\<close>

theorem L1_queues_keep_their_shape:
  "(1 \<le> m \<longrightarrow> queues_ok (NewTestContext m)) \<and>
   (queues_ok tc \<longrightarrow>
      queues_ok (snd (GenerateBlocks env insts names tc)) \<and>
      queues_ok (snd (processInstruction env inst tc)) \<and>
      queues_ok (snd (addToL1Queue tx tc)) \<and>
      queues_ok (snd (newBatchL1 env tc)) \<and>
      (rollupConstMaxL1UserTx tc \<le> int (length (queues tc ! nat (openToForge tc))) \<longrightarrow>
         addToL1Queue tx tc =
           (Inr (), tc\<lparr>openToForge := openToForge tc + 1, queues := queues tc @ [[tx]]\<rparr>)) \<and>
      (toForgeNum tc + 1 = openToForge tc \<longrightarrow>
         advanceBatch tc =
           (Inr (), tc\<lparr>toForgeNum := toForgeNum tc + 1, openToForge := openToForge tc + 1,
              queues := queues tc @ [[]]\<rparr>)))"
proof (intro conjI impI)
  assume "1 \<le> m"
  then show "queues_ok (NewTestContext m)" by (rule NewTestContext_queues_ok)
next
  assume ok: "queues_ok tc"
  show "queues_ok (snd (GenerateBlocks env insts names tc))"
    using ok GenerateBlocks_queues_ok by (simp add: pres_def)
  show "queues_ok (snd (processInstruction env inst tc))"
    using ok processInstruction_queues_ok by (simp add: pres_def)
  show "queues_ok (snd (addToL1Queue tx tc))"
    using ok addToL1Queue_queues_ok by (simp add: pres_def)
  show "queues_ok (snd (newBatchL1 env tc))"
    using ok newBatchL1_queues_ok by (simp add: pres_def)
next
  assume ok: "queues_ok tc"
    and full: "rollupConstMaxL1UserTx tc \<le> int (length (queues tc ! nat (openToForge tc)))"
  have "nat (openToForge tc + 1) = length (queues tc)"
    using ok by (simp add: queues_ok_def)
  then show "addToL1Queue tx tc =
      (Inr (), tc\<lparr>openToForge := openToForge tc + 1, queues := queues tc @ [[tx]]\<rparr>)"
    using ok full
    by (simp add: addToL1Queue_def bnd_def thn_def gets_def queueAt_def whenE_def modify_def
        queues_ok_def nth_append)
next
  assume ok: "queues_ok tc" and last: "toForgeNum tc + 1 = openToForge tc"
  then show "advanceBatch tc =
      (Inr (), tc\<lparr>toForgeNum := toForgeNum tc + 1, openToForge := openToForge tc + 1,
         queues := queues tc @ [[]]\<rparr>)"
    by (simp add: advanceBatch_def thn_def bnd_def modify_def gets_def whenE_def)
qed

theorem L1_queues_keep_their_shape_witness:
  "(1::int) \<le> 1 \<and> queues_ok (NewTestContext 1) \<and>
   queues_ok tc_full0 \<and>
   rollupConstMaxL1UserTx tc_full0 \<le> int (length (queues tc_full0 ! nat (openToForge tc_full0))) \<and>
   toForgeNum tc_full0 + 1 = openToForge tc_full0 \<and>
   queues_ok (snd (GenerateBlocks til_env0 insts0 [''A'', ''B''] tc_full0)) \<and>
   queues_ok (snd (processInstruction til_env0 (inst0 typeNewBatchL1 []) tc_full0)) \<and>
   queues_ok (snd (addToL1Queue tx0 tc_full0)) \<and>
   queues_ok (snd (newBatchL1 til_env0 tc_full0)) \<and>
   addToL1Queue tx0 tc_full0 =
     (Inr (), tc_full0\<lparr>openToForge := openToForge tc_full0 + 1,
        queues := queues tc_full0 @ [[tx0]]\<rparr>) \<and>
   advanceBatch tc_full0 =
     (Inr (), tc_full0\<lparr>toForgeNum := toForgeNum tc_full0 + 1,
        openToForge := openToForge tc_full0 + 1, queues := queues tc_full0 @ [[]]\<rparr>)"
proof -
  have q: "queues tc_full0 = [[], [tx0]]" and o: "openToForge tc_full0 = 1"
    and f: "toForgeNum tc_full0 = 0" and m: "rollupConstMaxL1UserTx tc_full0 = 1"
    by (simp_all add: tc_full0_def addToL1Queue_def bnd_def thn_def gets_def queueAt_def
        whenE_def modify_def ret_def NewTestContext_def)
  have ok: "queues_ok tc_full0"
    by (simp add: queues_ok_def q o f m)
  have full: "rollupConstMaxL1UserTx tc_full0
      \<le> int (length (queues tc_full0 ! nat (openToForge tc_full0)))"
    by (simp add: q o m)
  have lst: "toForgeNum tc_full0 + 1 = openToForge tc_full0"
    by (simp add: o f)
  have one: "(1::int) \<le> 1" by simp
  show ?thesis
    using L1_queues_keep_their_shape
      [of 1 tc_full0 til_env0 insts0 "[''A'', ''B'']" "inst0 typeNewBatchL1 []" tx0]
      one ok full lst
    by blast
qed

text \<open>
  C6 as the claim states it, for every maximum, fails at the maximum 0: the first
  transaction added to a new test context opens a third queue and is placed there, so
  that queue holds one transaction, more than the maximum.
\<close>

theorem L1_queue_exceeds_zero_maximum:
  "rollupConstMaxL1UserTx (snd (addToL1Queue tx0 (NewTestContext 0))) = 0 \<and>
   queues (snd (addToL1Queue tx0 (NewTestContext 0))) = [[], [], [tx0]] \<and>
   \<not> list_all (\<lambda>q. int (length q) \<le> 0) (queues (snd (addToL1Queue tx0 (NewTestContext 0))))"
  by (simp add: addToL1Queue_def bnd_def thn_def gets_def queueAt_def whenE_def modify_def
      ret_def NewTestContext_def)

section \<open>The account indices of the test-set generator\<close>

lemma idxs_ok_cong:
  "accountIdx tc1 = accountIdx tc \<Longrightarrow> idx tc1 = idx tc \<Longrightarrow> idxs_ok tc1 = idxs_ok tc"
  by (simp add: idxs_ok_def)

lemma createAccount_result:
  assumes "createAccount env tx tc = (Inr v, tc1)"
  shows "accountIdx tc (fromIdxName1 tx, L1TokenID (L1Tx tx)) = None \<and>
         accountIdx tc1 = (accountIdx tc)((fromIdxName1 tx, L1TokenID (L1Tx tx)) \<mapsto> idx tc) \<and>
         idx tc1 = idx tc + 1"
  using assms
  by (auto simp: createAccount_def accountIdx_def fun_eq_iff split: option.splits if_splits)

lemma createAccount_error:
  assumes "createAccount env tx tc = (Inl e, tc1)"
  shows "tc1 = tc"
  using assms by (auto simp: createAccount_def split: option.splits if_splits)

lemma idxs_ok_step:
  assumes ok: "idxs_ok tc" and new: "accountIdx tc k = None"
    and m: "accountIdx tc1 = (accountIdx tc)(k \<mapsto> idx tc)" and i: "idx tc1 = idx tc + 1"
  shows "idxs_ok tc1"
proof -
  have r: "ran (accountIdx tc) = {UserThreshold..<idx tc}" and le: "UserThreshold \<le> idx tc"
    and inj: "inj_on (accountIdx tc) (dom (accountIdx tc))"
    using ok by (simp_all add: idxs_ok_def)
  have "ran (accountIdx tc1) = insert (idx tc) (ran (accountIdx tc))"
    using new by (simp add: m)
  also have "\<dots> = {UserThreshold..<idx tc + 1}"
    using r le by auto
  finally have r1: "ran (accountIdx tc1) = {UserThreshold..<idx tc1}"
    by (simp add: i)
  have fresh: "accountIdx tc k' \<noteq> Some (idx tc)" for k'
  proof
    assume "accountIdx tc k' = Some (idx tc)"
    then have "idx tc \<in> ran (accountIdx tc)" by (rule ranI)
    then show False using r by simp
  qed
  have "inj_on (accountIdx tc1) (dom (accountIdx tc1))"
    unfolding inj_on_def
  proof (intro ballI impI)
    fix a b
    assume a: "a \<in> dom (accountIdx tc1)" and b: "b \<in> dom (accountIdx tc1)"
      and e: "accountIdx tc1 a = accountIdx tc1 b"
    show "a = b"
    proof (cases "a = k")
      case True
      then show ?thesis using e fresh[of b] by (auto simp: m split: if_splits)
    next
      case False
      note ak = this
      show ?thesis
      proof (cases "b = k")
        case True
        then show ?thesis using e ak fresh[of a] by (auto simp: m split: if_splits)
      next
        case False
        then have "accountIdx tc a = accountIdx tc b" "a \<in> dom (accountIdx tc)"
          "b \<in> dom (accountIdx tc)"
          using ak e a b by (auto simp: m)
        then show ?thesis using inj by (auto simp: inj_on_def)
      qed
    qed
  qed
  then show ?thesis
    using r1 le i by (simp add: idxs_ok_def)
qed

lemma createAccount_idxs_ok: "pres idxs_ok (createAccount env tx)"
  unfolding pres_def
proof (intro allI impI)
  fix s assume ok: "idxs_ok s"
  obtain r s1 where res: "createAccount env tx s = (r, s1)" by (cases "createAccount env tx s")
  show "idxs_ok (snd (createAccount env tx s))"
  proof (cases r)
    case (Inl e)
    then show ?thesis using res ok createAccount_error by fastforce
  next
    case (Inr v)
    then show ?thesis
      using res ok createAccount_result[of env tx s v s1] idxs_ok_step[of s _ s1] by auto
  qed
qed

lemma incNonce_idxs_ok: "pres idxs_ok (incNonce n t)"
  unfolding pres_def
proof (intro allI impI)
  fix s assume ok: "idxs_ok s"
  have "accountIdx (snd (incNonce n t s)) = accountIdx s"
    by (auto simp: incNonce_def accountIdx_def fun_eq_iff split: option.splits)
  moreover have "idx (snd (incNonce n t s)) = idx s"
    by (auto simp: incNonce_def split: option.splits)
  ultimately show "idxs_ok (snd (incNonce n t s))"
    using ok idxs_ok_cong by blast
qed

lemma generateKey_idxs_ok: "pres idxs_ok (generateKey env p)"
  unfolding pres_def
proof (intro allI impI)
  fix s assume ok: "idxs_ok s"
  have "accountIdx (snd (generateKey env p s)) = accountIdx s"
    by (cases p) (auto simp: generateKey_def modify_def accountIdx_def fun_eq_iff split: option.splits)
  moreover have "idx (snd (generateKey env p s)) = idx s"
    by (cases p) (auto simp: generateKey_def modify_def)
  ultimately show "idxs_ok (snd (generateKey env p s))"
    using ok idxs_ok_cong by blast
qed

lemma frame_idxs_ok:
  "(\<And>s. Users (f s) = Users s \<and> idx (f s) = idx s) \<Longrightarrow> pres idxs_ok (modify f)"
  by (rule pres_modify) (simp add: idxs_ok_def accountIdx_def)

lemma addToL1Queue_idxs_ok: "pres idxs_ok (addToL1Queue tx)"
  unfolding addToL1Queue_def by (intro pres_intros frame_idxs_ok) simp_all

lemma updQueueTx_idxs_ok: "pres idxs_ok (updQueueTx i f)"
  unfolding updQueueTx_def by (rule frame_idxs_ok) simp

lemma advanceBatch_idxs_ok: "pres idxs_ok advanceBatch"
  unfolding advanceBatch_def by (intro pres_intros frame_idxs_ok) simp_all

lemma updTestL2Tx_idxs_ok: "pres idxs_ok (updTestL2Tx i f)"
  unfolding updTestL2Tx_def by (rule frame_idxs_ok) simp

lemma addTestL2Tx_idxs_ok: "pres idxs_ok (addTestL2Tx t)"
  unfolding addTestL2Tx_def by (rule frame_idxs_ok) simp

lemma calculateIdxForL1Txs_idxs_ok: "pres idxs_ok (calculateIdxForL1Txs env b txs)"
  unfolding calculateIdxForL1Txs_def calculateIdxForL1Tx_def
  by (intro pres_intros createAccount_idxs_ok frame_idxs_ok) simp

lemma setIdx_idxs_ok: "pres idxs_ok (setIdx env i)"
  unfolding setIdx_def
  by (intro pres_intros incNonce_idxs_ok updTestL2Tx_idxs_ok frame_idxs_ok) simp

lemma setIdxs_idxs_ok: "pres idxs_ok (setIdxs env)"
  unfolding setIdxs_def
  by (intro pres_intros setIdx_idxs_ok frame_idxs_ok) simp

lemma setQueueTxIdx_idxs_ok: "pres idxs_ok (setQueueTxIdx i)"
  unfolding setQueueTxIdx_def
  by (intro pres_intros updQueueTx_idxs_ok frame_idxs_ok) simp

lemma newBatchL1_idxs_ok: "pres idxs_ok (newBatchL1 env)"
  unfolding newBatchL1_def
  by (intro pres_intros calculateIdxForL1Txs_idxs_ok setQueueTxIdx_idxs_ok
      setIdxs_idxs_ok advanceBatch_idxs_ok)

lemma processInstruction_idxs_ok: "pres idxs_ok (processInstruction env inst)"
  unfolding processInstruction_def
  by (cases "inst_typ inst";
      simp add: pres_throw;
      intro pres_intros addToL1Queue_idxs_ok calculateIdxForL1Txs_idxs_ok
        setIdxs_idxs_ok newBatchL1_idxs_ok addTestL2Tx_idxs_ok frame_idxs_ok;
      simp)

lemma generateKeys_idxs_ok: "pres idxs_ok (generateKeys env names)"
  unfolding generateKeys_def
  by (intro pres_intros generateKey_idxs_ok)

lemma GenerateBlocks_idxs_ok: "pres idxs_ok (GenerateBlocks env insts names)"
  unfolding GenerateBlocks_def
  by (intro pres_intros generateKeys_idxs_ok processInstruction_idxs_ok frame_idxs_ok) simp

lemma NewTestContext_idxs_ok: "idxs_ok (NewTestContext m)"
  by (simp add: idxs_ok_def NewTestContext_def accountIdx_def ran_def inj_on_def dom_def)

lemma createAccount_new:
  assumes "Users tc (fromIdxName1 tx) = Some u" and "Accounts u (L1TokenID (L1Tx tx)) = None"
  shows "fst (createAccount env tx tc) = Inr () \<and>
         accountIdx (snd (createAccount env tx tc)) =
           (accountIdx tc)((fromIdxName1 tx, L1TokenID (L1Tx tx)) \<mapsto> idx tc) \<and>
         idx (snd (createAccount env tx tc)) = idx tc + 1"
  using assms by (auto simp: createAccount_def accountIdx_def fun_eq_iff)

text \<open>
  C7. The counter of a new test context is 256 and no index is in use. Whatever
  instructions \<^verbatim>\<open>GenerateBlocks\<close> runs, in whatever batches and blocks, and whether it
  ends with the blocks or with an error, the indices in use stay exactly those from 256
  up to the counter, each held by one account (\<open>idxs_ok\<close>). The one place that creates an
  account, for a user or for the coordinator, gives it the counter as its index, leaves
  every other account's index as it was, and adds one to the counter.
\<close>

theorem Idx_assigned_sequentially_from_256:
  "idx (NewTestContext m) = 256 \<and> idxs_ok (NewTestContext m) \<and>
   idxs_ok (snd (GenerateBlocks env insts names (NewTestContext m))) \<and>
   (idxs_ok tc \<longrightarrow> idxs_ok (snd (GenerateBlocks env insts names tc))) \<and>
   (Users tc (fromIdxName1 tx) = Some u \<and> Accounts u (L1TokenID (L1Tx tx)) = None \<longrightarrow>
      fst (createAccount env tx tc) = Inr () \<and>
      accountIdx (snd (createAccount env tx tc)) =
        (accountIdx tc)((fromIdxName1 tx, L1TokenID (L1Tx tx)) \<mapsto> idx tc) \<and>
      idx (snd (createAccount env tx tc)) = idx tc + 1)"
proof (intro conjI impI)
  show "idx (NewTestContext m) = 256"
    by (simp add: NewTestContext_def UserThreshold_def)
  show "idxs_ok (NewTestContext m)"
    by (rule NewTestContext_idxs_ok)
  then show "idxs_ok (snd (GenerateBlocks env insts names (NewTestContext m)))"
    using GenerateBlocks_idxs_ok by (simp add: pres_def)
next
  assume "idxs_ok tc"
  then show "idxs_ok (snd (GenerateBlocks env insts names tc))"
    using GenerateBlocks_idxs_ok by (simp add: pres_def)
next
  assume "Users tc (fromIdxName1 tx) = Some u \<and> Accounts u (L1TokenID (L1Tx tx)) = None"
  then have c: "fst (createAccount env tx tc) = Inr () \<and>
         accountIdx (snd (createAccount env tx tc)) =
           (accountIdx tc)((fromIdxName1 tx, L1TokenID (L1Tx tx)) \<mapsto> idx tc) \<and>
         idx (snd (createAccount env tx tc)) = idx tc + 1"
    using createAccount_new by blast
  from c show "fst (createAccount env tx tc) = Inr ()" by simp
  from c show "accountIdx (snd (createAccount env tx tc)) =
      (accountIdx tc)((fromIdxName1 tx, L1TokenID (L1Tx tx)) \<mapsto> idx tc)" by simp
  from c show "idx (snd (createAccount env tx tc)) = idx tc + 1" by simp
qed

lemmas prog_defs = bnd_def thn_def gets_def modify_def ret_def throw_def whenE_def liftE_def

lemmas til_defs = getUser_def getAccountPtr_def getAccount_def queueAt_def
  checkIfAccountExists_def checkIfTokenIsRegistered_def addToL1Queue_def createAccount_def
  calculateIdxForL1Tx_def calculateIdxForL1Txs_def incNonce_def testL2TxAt_def updTestL2Tx_def
  setIdx_def setIdxs_def queueTxAt_def updQueueTx_def setQueueTxIdx_def advanceBatch_def
  newBatchL1_def userL1Tx_def userL2Tx_def addTestL2Tx_def processInstruction_def
  generateKey_def generateKeys_def GenerateBlocks_def NewTestContext_def emptyBatchData_def
  emptyBlockData_def emptyL1Tx_def emptyL2Tx_def UserThreshold_def
  til_env0_def tx0_def inst0_def insts0_def

lemma tc_users0_A: "Users tc_users0 ''A'' = Some \<lparr>BJJ = 1, Addr = 1, Accounts = Map.empty\<rparr>"
  by (simp add: tc_users0_def prog_defs til_defs upt_conv_Cons)

lemma tc_users0_idx: "idx tc_users0 = 256"
  by (simp add: tc_users0_def prog_defs til_defs upt_conv_Cons)

lemma tc_users0_accountIdx: "accountIdx tc_users0 = (\<lambda>k. None)"
  by (auto simp add: accountIdx_def tc_users0_def prog_defs til_defs upt_conv_Cons fun_eq_iff)

lemma GenerateBlocks_insts0:
  "\<not> isl (fst (GenerateBlocks til_env0 insts0 [''A'', ''B''] (NewTestContext 1))) \<and>
   idx (snd (GenerateBlocks til_env0 insts0 [''A'', ''B''] (NewTestContext 1))) = 258 \<and>
   accountIdx (snd (GenerateBlocks til_env0 insts0 [''A'', ''B''] (NewTestContext 1)))
     (''A'', 1) = Some 256 \<and>
   accountIdx (snd (GenerateBlocks til_env0 insts0 [''A'', ''B''] (NewTestContext 1)))
     (''B'', 1) = Some 257"
  by (simp add: accountIdx_def prog_defs til_defs upt_conv_Cons)

theorem Idx_assigned_sequentially_from_256_witness:
  "idxs_ok tc_users0 \<and>
   Users tc_users0 ''A'' = Some \<lparr>BJJ = 1, Addr = 1, Accounts = Map.empty\<rparr> \<and>
   idx (NewTestContext 1) = 256 \<and>
   idxs_ok (snd (GenerateBlocks til_env0 insts0 [''A'', ''B''] tc_users0)) \<and>
   fst (createAccount til_env0 tx0 tc_users0) = Inr () \<and>
   accountIdx (snd (createAccount til_env0 tx0 tc_users0)) (''A'', 1) = Some 256 \<and>
   idx (snd (createAccount til_env0 tx0 tc_users0)) = 257 \<and>
   \<not> isl (fst (GenerateBlocks til_env0 insts0 [''A'', ''B''] (NewTestContext 1))) \<and>
   idx (snd (GenerateBlocks til_env0 insts0 [''A'', ''B''] (NewTestContext 1))) = 258 \<and>
   accountIdx (snd (GenerateBlocks til_env0 insts0 [''A'', ''B''] (NewTestContext 1)))
     (''A'', 1) = Some 256 \<and>
   accountIdx (snd (GenerateBlocks til_env0 insts0 [''A'', ''B''] (NewTestContext 1)))
     (''B'', 1) = Some 257"
proof -
  note th = Idx_assigned_sequentially_from_256
    [of 1 til_env0 insts0 "[''A'', ''B'']" tc_users0 tx0
      "\<lparr>BJJ = 1, Addr = 1, Accounts = Map.empty\<rparr>"]
  have ok: "idxs_ok tc_users0"
    using generateKeys_idxs_ok[of til_env0 "[''A'', ''B'']"] NewTestContext_idxs_ok[of 1]
    by (simp add: pres_def tc_users0_def)
  have hyp: "Users tc_users0 (fromIdxName1 tx0) = Some \<lparr>BJJ = 1, Addr = 1, Accounts = Map.empty\<rparr>
      \<and> Accounts \<lparr>BJJ = 1, Addr = 1, Accounts = Map.empty\<rparr> (L1TokenID (L1Tx tx0)) = None"
    using tc_users0_A by (simp add: tx0_def)
  have c: "idx (NewTestContext 1) = 256 \<and>
      idxs_ok (snd (GenerateBlocks til_env0 insts0 [''A'', ''B''] tc_users0)) \<and>
      fst (createAccount til_env0 tx0 tc_users0) = Inr () \<and>
      accountIdx (snd (createAccount til_env0 tx0 tc_users0)) =
        (accountIdx tc_users0)((fromIdxName1 tx0, L1TokenID (L1Tx tx0)) \<mapsto> idx tc_users0) \<and>
      idx (snd (createAccount til_env0 tx0 tc_users0)) = idx tc_users0 + 1"
    using th ok hyp by blast
  have k: "(fromIdxName1 tx0, L1TokenID (L1Tx tx0)) = (''A'', 1)"
    by (simp add: tx0_def emptyL1Tx_def)
  show ?thesis
    using c ok tc_users0_A GenerateBlocks_insts0
    by (simp add: k tc_users0_idx)
qed

section \<open>What the three streams leave untouched\<close>

lemma pres_field_modify:
  "(\<And>s. fld (f s) = fld s) \<Longrightarrow> pres (\<lambda>s. fld s = c) (modify f)"
  by (rule pres_modify) simp

lemma updEth_historyDB [pres_intros]: "pres (\<lambda>s. historyDB s = h) (updEth f)"
  unfolding updEth_def by (rule pres_field_modify) simp

lemma updSync_historyDB [pres_intros]: "pres (\<lambda>s. historyDB s = h) (updSync f)"
  unfolding updSync_def by (rule pres_field_modify) simp

lemma updRollupVars_historyDB [pres_intros]: "pres (\<lambda>s. historyDB s = h) (updRollupVars f)"
  unfolding updRollupVars_def by (rule pres_field_modify) simp

lemma updAuctionVars_historyDB [pres_intros]: "pres (\<lambda>s. historyDB s = h) (updAuctionVars f)"
  unfolding updAuctionVars_def by (rule pres_field_modify) simp

lemma updWDelayerVars_historyDB [pres_intros]: "pres (\<lambda>s. historyDB s = h) (updWDelayerVars f)"
  unfolding updWDelayerVars_def by (rule pres_field_modify) simp

lemma UpdateEth_historyDB: "pres (\<lambda>s. historyDB s = h) (UpdateEth env)"
  unfolding UpdateEth_def by (intro pres_intros)

lemma forgeBatch_historyDB:
  "pres (\<lambda>s. historyDB s = h) (forgeBatch env ethBlock txs evt acc)"
  unfolding forgeBatch_def
  by (intro pres_intros pres_field_modify) simp

lemma rollupVarsSync_historyDB: "pres (\<lambda>s. historyDB s = h) (rollupVarsSync ev n)"
  unfolding rollupVarsSync_def by (intro pres_intros)

lemma rollupSync_historyDB: "pres (\<lambda>s. historyDB s = h) (rollupSync env ethBlock)"
  unfolding rollupSync_def
  by (intro pres_intros forgeBatch_historyDB rollupVarsSync_historyDB)

lemma newDefaultSlotSetBid_historyDB:
  "pres (\<lambda>s. historyDB s = h) (newDefaultSlotSetBid env n evt)"
  unfolding newDefaultSlotSetBid_def by (intro pres_intros)

lemma auctionSync_historyDB: "pres (\<lambda>s. historyDB s = h) (auctionSync env ethBlock)"
  unfolding auctionSync_def
  by (intro pres_intros newDefaultSlotSetBid_historyDB)

lemma wdelayerSync_historyDB: "pres (\<lambda>s. historyDB s = h) (wdelayerSync env ethBlock)"
  unfolding wdelayerSync_def by (intro pres_intros)

lemma rollupSync_keeps_historyDB:
  "rollupSync env ethBlock s = (r, s1) \<Longrightarrow> historyDB s1 = historyDB s"
  using presD[OF rollupSync_historyDB, of s "historyDB s" env ethBlock] by simp

lemma auctionSync_keeps_historyDB:
  "auctionSync env ethBlock s = (r, s1) \<Longrightarrow> historyDB s1 = historyDB s"
  using presD[OF auctionSync_historyDB, of s "historyDB s" env ethBlock] by simp

lemma wdelayerSync_keeps_historyDB:
  "wdelayerSync env ethBlock s = (r, s1) \<Longrightarrow> historyDB s1 = historyDB s"
  using presD[OF wdelayerSync_historyDB, of s "historyDB s" env ethBlock] by simp

lemma UpdateEth_keeps_historyDB:
  "UpdateEth env s = (r, s1) \<Longrightarrow> historyDB s1 = historyDB s"
  using presD[OF UpdateEth_historyDB, of s "historyDB s" env] by simp

section \<open>Running the synchronizer on the small chain\<close>

lemmas run_defs = bnd_def thn_def gets_def modify_def ret_def throw_def whenE_def liftE_def

lemmas toy_defs = toy_env_def toy_sync_def chainBlock_def blk_def vars0_def
  noRollupEvents_def noAuctionEvents_def noWDelayerEvents_def emptySlot_def

lemmas sync_defs = updEth_def updSync_def updRollupVars_def updAuctionVars_def
  updWDelayerVars_def Synced_def UpdateCurrentSlot_def UpdateSync_def UpdateEth_def go_rem_def
  indexE_def bootSlot_def slotCoordinator_def updateCurrentSlotIfSync_def resetVars_def
  orNoRows_def resetState_def reorg_def getL1UserTx_def forgeBatch_def cutStringMax_def
  addToken_def bucketUpdate_def withdrawInfo_def tokenExchanges_def NewRollupData_def
  rollupVarsSync_def rollupSync_def NewAuctionData_def newDefaultSlotSetBid_def
  auctionSync_def NewWDelayerData_def addDeposit_def wdelayerSync_def updateSyncStats_def
  storeBlock_def syncBlock_def lastSavedAndNext_def Sync2_def

section \<open>The tokens added in a block\<close>

lemma cutStringMax_take: "0 \<le> mx \<Longrightarrow> cutStringMax str mx = Inr (take (nat mx) str)"
  by (simp add: cutStringMax_def)

lemma addToken_value:
  "addToken env blockNum evt =
     Inr (case EthERC20Consts env (TokenAddress evt) of
            Inl err \<Rightarrow>
              \<lparr>TokenID = at_TokenID evt, tok_EthAddr = TokenAddress evt,
               tok_EthBlockNum = blockNum, Name = ''ERC20_ETH_ERROR'', Symbol = ''ERROR'',
               Decimals = 1\<rparr>
          | Inr consts \<Rightarrow>
              \<lparr>TokenID = at_TokenID evt, tok_EthAddr = TokenAddress evt,
               tok_EthBlockNum = blockNum, Name = take 20 (erc_Name consts),
               Symbol = take 10 (erc_Symbol consts), Decimals = erc_Decimals consts\<rparr>)"
  by (simp add: addToken_def cutStringMax_take split: sum.splits)

lemma rollupSync_AddedTokens:
  assumes "RollupEventsByBlock env (Num ethBlock) = Inr (rollupEvents, Some blockHash)"
    and "rollupSync env ethBlock s = (Inr rollupData, s1)"
  shows "mapE (addToken env (Num ethBlock)) (ev_AddToken rollupEvents) =
           Inr (AddedTokens rollupData)"
  using assms
  by (auto simp: rollupSync_def bnd_def liftE_def throw_def ret_def gets_def
      split: if_splits sum.splits prod.splits)

text \<open>
  C8. When \<^verbatim>\<open>rollupSync\<close> returns the data of a block that has events, the tokens it
  added are the \<^verbatim>\<open>AddToken\<close> events of the block, in their order, each with the identifier
  and address of its event: when the probe of the token's constants fails, with the name
  \<^verbatim>\<open>ERC20_ETH_ERROR\<close>, the symbol \<^verbatim>\<open>ERROR\<close> and 1 decimal; when the probe succeeds,
  with the first 20 bytes of the probed name (the whole name when it has no more), the
  first 10 bytes of the probed symbol, and the probed decimals.
\<close>

theorem AddToken_stored_with_probed_constants:
  assumes "RollupEventsByBlock env (Num ethBlock) = Inr (rollupEvents, Some blockHash)"
    and "rollupSync env ethBlock s = (Inr rollupData, s1)"
  shows "AddedTokens rollupData =
           map (\<lambda>evt.
                 case EthERC20Consts env (TokenAddress evt) of
                   Inl err \<Rightarrow>
                     \<lparr>TokenID = at_TokenID evt, tok_EthAddr = TokenAddress evt,
                      tok_EthBlockNum = Num ethBlock, Name = ''ERC20_ETH_ERROR'',
                      Symbol = ''ERROR'', Decimals = 1\<rparr>
                 | Inr consts \<Rightarrow>
                     \<lparr>TokenID = at_TokenID evt, tok_EthAddr = TokenAddress evt,
                      tok_EthBlockNum = Num ethBlock, Name = take 20 (erc_Name consts),
                      Symbol = take 10 (erc_Symbol consts), Decimals = erc_Decimals consts\<rparr>)
             (ev_AddToken rollupEvents) \<and>
         list_all (\<lambda>t. length (Name t) \<le> 20 \<and> length (Symbol t) \<le> 10)
           (AddedTokens rollupData)"
proof -
  let ?tok = "\<lambda>evt.
      case EthERC20Consts env (TokenAddress evt) of
        Inl err \<Rightarrow>
          \<lparr>TokenID = at_TokenID evt, tok_EthAddr = TokenAddress evt,
           tok_EthBlockNum = Num ethBlock, Name = ''ERC20_ETH_ERROR'',
           Symbol = ''ERROR'', Decimals = 1\<rparr>
      | Inr consts \<Rightarrow>
          \<lparr>TokenID = at_TokenID evt, tok_EthAddr = TokenAddress evt,
           tok_EthBlockNum = Num ethBlock, Name = take 20 (erc_Name consts),
           Symbol = take 10 (erc_Symbol consts), Decimals = erc_Decimals consts\<rparr>"
  have "mapE (addToken env (Num ethBlock)) (ev_AddToken rollupEvents) =
          Inr (map ?tok (ev_AddToken rollupEvents))"
    by (rule mapE_total) (rule addToken_value)
  then have eq: "AddedTokens rollupData = map ?tok (ev_AddToken rollupEvents)"
    using rollupSync_AddedTokens[OF assms] by simp
  have "list_all (\<lambda>t. length (Name t) \<le> 20 \<and> length (Symbol t) \<le> 10)
      (map ?tok (ev_AddToken rollupEvents))"
    by (auto simp: list_all_iff split: sum.splits)
  then show ?thesis
    using eq by simp
qed


lemma rollupSync_env_tokens:
  "fst (rollupSync env_tokens (blk 3 13 12) (toy_sync [blk 1 11 10, blk 2 12 11] 2)) =
     Inr (NewRollupData\<lparr>AddedTokens :=
       [\<lparr>TokenID = 1, tok_EthAddr = 1, tok_EthBlockNum = 3, Name = ''ERC20_ETH_ERROR'',
         Symbol = ''ERROR'', Decimals = 1\<rparr>,
        \<lparr>TokenID = 2, tok_EthAddr = 2, tok_EthBlockNum = 3, Name = ''A token with quite a'',
         Symbol = ''LONGSYMBOL'', Decimals = 18\<rparr>]\<rparr>)"
  by (simp add: env_tokens_def addTokenEvents_def sync_defs run_defs toy_defs)

theorem AddToken_stored_with_probed_constants_witness:
  "RollupEventsByBlock env_tokens (Num (blk 3 13 12)) = Inr (fst (addTokenEvents 3), Some 13) \<and>
   fst (rollupSync env_tokens (blk 3 13 12) (toy_sync [blk 1 11 10, blk 2 12 11] 2)) =
     Inr (NewRollupData\<lparr>AddedTokens :=
       [\<lparr>TokenID = 1, tok_EthAddr = 1, tok_EthBlockNum = 3, Name = ''ERC20_ETH_ERROR'',
         Symbol = ''ERROR'', Decimals = 1\<rparr>,
        \<lparr>TokenID = 2, tok_EthAddr = 2, tok_EthBlockNum = 3, Name = ''A token with quite a'',
         Symbol = ''LONGSYMBOL'', Decimals = 18\<rparr>]\<rparr>) \<and>
   list_all (\<lambda>t. length (Name t) \<le> 20 \<and> length (Symbol t) \<le> 10)
     (AddedTokens (NewRollupData\<lparr>AddedTokens :=
       [\<lparr>TokenID = 1, tok_EthAddr = 1, tok_EthBlockNum = 3, Name = ''ERC20_ETH_ERROR'',
         Symbol = ''ERROR'', Decimals = 1\<rparr>,
        \<lparr>TokenID = 2, tok_EthAddr = 2, tok_EthBlockNum = 3, Name = ''A token with quite a'',
         Symbol = ''LONGSYMBOL'', Decimals = 18\<rparr>]\<rparr>))"
proof -
  let ?s = "toy_sync [blk 1 11 10, blk 2 12 11] 2"
  let ?rd = "NewRollupData\<lparr>AddedTokens :=
       [\<lparr>TokenID = 1, tok_EthAddr = 1, tok_EthBlockNum = 3, Name = ''ERC20_ETH_ERROR'',
         Symbol = ''ERROR'', Decimals = 1\<rparr>,
        \<lparr>TokenID = 2, tok_EthAddr = 2, tok_EthBlockNum = 3, Name = ''A token with quite a'',
         Symbol = ''LONGSYMBOL'', Decimals = 18\<rparr>]\<rparr>"
  have ev: "RollupEventsByBlock env_tokens (Num (blk 3 13 12)) =
      Inr (fst (addTokenEvents 3), Some 13)"
    by (simp add: env_tokens_def addTokenEvents_def toy_defs)
  have run: "rollupSync env_tokens (blk 3 13 12) ?s =
      (Inr ?rd, snd (rollupSync env_tokens (blk 3 13 12) ?s))"
    using rollupSync_env_tokens by (simp add: prod_eq_iff)
  from AddToken_stored_with_probed_constants[OF ev run] ev rollupSync_env_tokens
  show ?thesis by blast
qed

section \<open>From \<^verbatim>\<open>Sync2\<close> to the streams of the block\<close>

lemma lastSavedAndNext_state: "snd (lastSavedAndNext env lastSavedBlock s) = s"
  by (simp add: lastSavedAndNext_def bnd_def gets_def ret_def throw_def
      split: option.splits sum.splits prod.splits)

lemma lastSavedAndNext_run:
  "fst (lastSavedAndNext env lastSavedBlock s) = r \<Longrightarrow>
   lastSavedAndNext env lastSavedBlock s = (r, s)"
  using lastSavedAndNext_state[of env lastSavedBlock s] by (simp add: prod_eq_iff)

lemma Sync2_syncBlock:
  assumes "fst (lastSavedAndNext env lastSavedBlock s) = Inr (lastSaved, nextBlockNum)"
    and "EthBlockByNumber env nextBlockNum = Inr ethBlock"
    and "UpdateEth env s = (Inr (), s0)"
    and "\<forall>lb. lastSaved = Some lb \<longrightarrow> Hash lb = ParentHash ethBlock"
  shows "Sync2 env lastSavedBlock s = syncBlock env ethBlock s0"
  using lastSavedAndNext_run[OF assms(1)] assms(2-4)
  by (simp add: Sync2_def bnd_def thn_def split: option.splits)

lemma Sync2_reorg:
  assumes "fst (lastSavedAndNext env lastSavedBlock s) = Inr (Some lb, nextBlockNum)"
    and "EthBlockByNumber env nextBlockNum = Inr ethBlock"
    and "UpdateEth env s = (Inr (), s0)"
    and "Hash lb \<noteq> ParentHash ethBlock"
  shows "Sync2 env lastSavedBlock s =
           bnd (reorg env lb) (\<lambda>lastDBBlockNum. ret (Discarded (Num lb - lastDBBlockNum))) s0"
  using lastSavedAndNext_run[OF assms(1)] assms(2-4)
  by (simp add: Sync2_def bnd_def thn_def)

lemma syncBlock_rollup_fails:
  "rollupSync env ethBlock s0 = (Inl e, s1) \<Longrightarrow> syncBlock env ethBlock s0 = (Inl e, s1)"
  by (simp add: syncBlock_def bnd_def)

lemma syncBlock_auction_fails:
  "rollupSync env ethBlock s0 = (Inr rollupData, s1) \<Longrightarrow>
   auctionSync env ethBlock s1 = (Inl e, s2) \<Longrightarrow>
   syncBlock env ethBlock s0 = (Inl e, s2)"
  by (simp add: syncBlock_def bnd_def)

lemma syncBlock_wdelayer_fails:
  "rollupSync env ethBlock s0 = (Inr rollupData, s1) \<Longrightarrow>
   auctionSync env ethBlock s1 = (Inr auctionData, s2) \<Longrightarrow>
   wdelayerSync env ethBlock s2 = (Inl e, s3) \<Longrightarrow>
   syncBlock env ethBlock s0 = (Inl e, s3)"
  by (simp add: syncBlock_def bnd_def)

lemma syncBlock_streams:
  "rollupSync env ethBlock s0 = (Inr rollupData, s1) \<Longrightarrow>
   auctionSync env ethBlock s1 = (Inr auctionData, s2) \<Longrightarrow>
   wdelayerSync env ethBlock s2 = (Inr wDelayerData, s3) \<Longrightarrow>
   syncBlock env ethBlock s0 =
     (case pairWithdrawals (DepositsByTxHash wDelayerData) (rd_Withdrawals rollupData) of
        Inl e \<Rightarrow> (Inl e, s3)
      | Inr (withdrawals, deposits) \<Rightarrow>
          storeBlock env ethBlock
            \<lparr>bk_Block = ethBlock,
             bk_Rollup = rollupData\<lparr>rd_Withdrawals := withdrawals\<rparr>,
             bk_Auction = auctionData,
             bk_WDelayer = wDelayerData\<lparr>DepositsByTxHash := deposits\<rparr>\<rparr> s3)"
  by (simp add: syncBlock_def bnd_def liftE_def split: sum.splits)


text \<open>The start of \<^verbatim>\<open>Sync2\<close> on the small chain, whatever the events.\<close>

lemma toy_start:
  "fst (lastSavedAndNext (toy_env chain r a w) None (toy_sync [blk 1 11 10, blk 2 12 11] 2)) =
     Inr (Some (blk 2 12 11), 3)"
  by (simp add: sync_defs run_defs toy_defs)

lemma toy_next: "EthBlockByNumber (toy_env chain3 r a w) 3 = Inr (blk 3 13 12)"
  by (simp add: chain3_def toy_defs)

lemma toy_eth:
  "UpdateEth (toy_env chain r a w) (toy_sync [blk 1 11 10, blk 2 12 11] 2) =
     (Inr (), toy_sync [blk 1 11 10, blk 2 12 11] 2)"
  by (simp add: sync_defs run_defs toy_defs)

lemma toy_parent: "\<forall>lb. Some (blk 2 12 11) = Some lb \<longrightarrow> Hash lb = ParentHash (blk 3 13 12)"
  by (simp add: blk_def)

lemma toy_store:
  "rd_Batches (bk_Rollup bd) = [] \<Longrightarrow>
   fst (storeBlock (toy_env chain r a w) (blk 3 13 12) bd (toy_sync [blk 1 11 10, blk 2 12 11] 2)) =
     Inr (SyncedBlock bd)"
  by (simp add: sync_defs run_defs toy_defs)

lemmas batch_defs = env_batch_auction_mismatch_def env_batch_wdelayer_mismatch_def
  env_batch_missing_deposit_def batchEvents_def batchArgs_def chain3_def depositEvents_def
  withdrawals_short_def wev_def

section \<open>Withdrawals and the deposits of the withdrawal delayer\<close>

lemma consumedBefore_0: "consumedBefore (w # ws) 0 = 0"
  by (simp add: consumedBefore_def)

lemma consumedBefore_Suc:
  "consumedBefore (w # ws) (Suc i) =
     (if \<not> InstantWithdraw w \<and> wi_TxHash w = wi_TxHash (ws ! i) then 1 else 0)
     + consumedBefore ws i"
  by (simp add: consumedBefore_def)

lemma pairWithdrawals_error: "pairWithdrawals d ws = Inl e \<Longrightarrow> e = ErrWDelayerDepositNotFound"
  by (induction ws arbitrary: d) (auto split: if_splits list.splits sum.splits)

lemma noDepositLeft_Suc_instant:
  "InstantWithdraw w \<Longrightarrow> noDepositLeft d (w # ws) (Suc i) = noDepositLeft d ws i"
  by (simp add: noDepositLeft_def consumedBefore_Suc)

lemma noDepositLeft_Suc_consume:
  "\<not> InstantWithdraw w \<Longrightarrow> d (wi_TxHash w) = t # ts \<Longrightarrow>
   noDepositLeft d (w # ws) (Suc i) = noDepositLeft (d(wi_TxHash w := ts)) ws i"
  by (auto simp: noDepositLeft_def consumedBefore_Suc)

lemma ex_less_Cons: "(\<exists>i<length (w # ws). P i) = (P 0 \<or> (\<exists>i<length ws. P (Suc i)))"
  by (auto simp: less_Suc_eq_0_disj)

lemma all_less_Cons: "(\<forall>i<length (w # ws). P i) = (P 0 \<and> (\<forall>i<length ws. P (Suc i)))"
  by (auto simp: less_Suc_eq_0_disj)

lemma pairWithdrawals_fails_iff:
  "isl (pairWithdrawals d ws) = (\<exists>i<length ws. noDepositLeft d ws i)"
proof (induction ws arbitrary: d)
  case Nil
  then show ?case by simp
next
  case (Cons w ws)
  note IH = Cons.IH
  show ?case
  proof (cases "InstantWithdraw w")
    case True
    have 1: "isl (pairWithdrawals d (w # ws)) = isl (pairWithdrawals d ws)"
      using True by (simp split: sum.splits prod.splits)
    have 2: "\<not> noDepositLeft d (w # ws) 0"
      using True by (simp add: noDepositLeft_def)
    have 3: "\<And>i. noDepositLeft d (w # ws) (Suc i) = noDepositLeft d ws i"
      using True by (rule noDepositLeft_Suc_instant)
    show ?thesis
      unfolding ex_less_Cons 1 3 IH[of d] using 2 by blast
  next
    case False
    note ni = this
    show ?thesis
    proof (cases "d (wi_TxHash w)")
      case Nil
      then have "noDepositLeft d (w # ws) 0"
        using ni by (simp add: noDepositLeft_def consumedBefore_0)
      moreover have "isl (pairWithdrawals d (w # ws))"
        using ni Nil by simp
      ultimately show ?thesis
        unfolding ex_less_Cons by blast
    next
      case (Cons t ts)
      have 1: "isl (pairWithdrawals d (w # ws))
          = isl (pairWithdrawals (d(wi_TxHash w := ts)) ws)"
        using ni Cons by (simp split: sum.splits prod.splits)
      have 2: "\<not> noDepositLeft d (w # ws) 0"
        using Cons by (simp add: noDepositLeft_def consumedBefore_0)
      have 3: "\<And>i. noDepositLeft d (w # ws) (Suc i)
                 = noDepositLeft (d(wi_TxHash w := ts)) ws i"
        using ni Cons by (rule noDepositLeft_Suc_consume)
      show ?thesis
        unfolding ex_less_Cons 1 3 IH[of "d(wi_TxHash w := ts)"] using 2 by blast
    qed
  qed
qed

lemma pairedWithdrawal_Suc_instant:
  "InstantWithdraw w \<Longrightarrow> pairedWithdrawal d (w # ws) (Suc i) = pairedWithdrawal d ws i"
  by (simp add: pairedWithdrawal_def consumedBefore_Suc)

lemma pairedWithdrawal_Suc_consume:
  "\<not> InstantWithdraw w \<Longrightarrow> d (wi_TxHash w) = t # ts \<Longrightarrow>
   pairedWithdrawal d (w # ws) (Suc i) = pairedWithdrawal (d(wi_TxHash w := ts)) ws i"
  by (auto simp: pairedWithdrawal_def consumedBefore_Suc)

lemma pairWithdrawals_paired:
  "pairWithdrawals d ws = Inr (ws1, d1) \<Longrightarrow>
   length ws1 = length ws \<and> (\<forall>i<length ws. ws1 ! i = pairedWithdrawal d ws i)"
proof (induction ws arbitrary: d ws1 d1)
  case Nil
  then show ?case by simp
next
  case (Cons w ws)
  note IH = Cons.IH
  show ?case
  proof (cases "InstantWithdraw w")
    case True
    then obtain ws2 where r: "pairWithdrawals d ws = Inr (ws2, d1)" and e: "ws1 = w # ws2"
      using Cons.prems by (auto split: sum.splits prod.splits)
    have 0: "pairedWithdrawal d (w # ws) 0 = w"
      using True by (simp add: pairedWithdrawal_def)
    have 3: "\<And>i. pairedWithdrawal d (w # ws) (Suc i) = pairedWithdrawal d ws i"
      using True by (rule pairedWithdrawal_Suc_instant)
    show ?thesis
      unfolding all_less_Cons 0 3 e using IH[OF r] by simp
  next
    case False
    note ni = this
    then obtain t ts ws2 where dd: "d (wi_TxHash w) = t # ts"
      and r: "pairWithdrawals (d(wi_TxHash w := ts)) ws = Inr (ws2, d1)"
      and e: "ws1 = w\<lparr>wi_Owner := wt_Owner t, wi_Token := wt_Token t\<rparr> # ws2"
      using Cons.prems by (auto split: sum.splits prod.splits list.splits)
    have 0: "pairedWithdrawal d (w # ws) 0 = w\<lparr>wi_Owner := wt_Owner t, wi_Token := wt_Token t\<rparr>"
      using ni dd by (simp add: pairedWithdrawal_def consumedBefore_0)
    have 3: "\<And>i. pairedWithdrawal d (w # ws) (Suc i)
               = pairedWithdrawal (d(wi_TxHash w := ts)) ws i"
      using ni dd by (rule pairedWithdrawal_Suc_consume)
    show ?thesis
      unfolding all_less_Cons 0 3 e using IH[OF r] by (simp add: fun_upd_def)
  qed
qed

lemma foldl_addDeposit:
  "DepositsByTxHash (foldl addDeposit wd evts) h = DepositsByTxHash wd h @ depositsOf evts h"
  by (induction evts arbitrary: wd) (auto simp: addDeposit_def depositsOf_def)

lemma wdelayerSync_deposits:
  assumes "WDelayerEventsByBlock env (Num ethBlock) = Inr (wDelayerEvents, blockHash)"
    and "wdelayerSync env ethBlock s = (Inr wDelayerData, s1)"
  shows "DepositsByTxHash wDelayerData h =
           (case blockHash of None \<Rightarrow> [] | Some bh \<Rightarrow> depositsOf (ev_Deposit wDelayerEvents) h)"
  using assms
  by (auto simp: wdelayerSync_def bnd_def thn_def liftE_def throw_def ret_def
      NewWDelayerData_def foldl_addDeposit
      split: if_splits sum.splits prod.splits option.splits)

text \<open>
  The pairing in \<^verbatim>\<open>Sync2\<close>, which has fetched the next block, found no reorganisation,
  and got the data of the three streams of the block. The deposits that \<^verbatim>\<open>wdelayerSync\<close>
  filed under a transaction hash are the \<^verbatim>\<open>Deposit\<close> events of that hash, in the order
  of the events. If some withdrawal of the block is not instant and finds every deposit
  of its transaction hash consumed by the withdrawals before it, \<^verbatim>\<open>Sync2\<close> returns the
  error that the deposit was not found, and the history database is as it was.
  Otherwise \<^verbatim>\<open>Sync2\<close> goes on to store the block, with the same number of withdrawals,
  in which every instant withdrawal is unchanged and every other withdrawal has the owner
  and the token of the first deposit of its transaction hash that the withdrawals before
  it left.
\<close>

theorem withdrawals_paired_with_earliest_deposit:
  assumes start: "fst (lastSavedAndNext env lastSavedBlock s) = Inr (lastSaved, nextBlockNum)"
    and nxt: "EthBlockByNumber env nextBlockNum = Inr ethBlock"
    and eth: "UpdateEth env s = (Inr (), s0)"
    and parent: "\<forall>lb. lastSaved = Some lb \<longrightarrow> Hash lb = ParentHash ethBlock"
    and rollup: "rollupSync env ethBlock s0 = (Inr rollupData, s1)"
    and auction: "auctionSync env ethBlock s1 = (Inr auctionData, s2)"
    and events: "WDelayerEventsByBlock env (Num ethBlock) = Inr (wDelayerEvents, blockHash)"
    and wdelayer: "wdelayerSync env ethBlock s2 = (Inr wDelayerData, s3)"
  shows "(\<forall>h. DepositsByTxHash wDelayerData h =
            (case blockHash of
               None \<Rightarrow> []
             | Some bh \<Rightarrow> depositsOf (ev_Deposit wDelayerEvents) h)) \<and>
         (if \<exists>i<length (rd_Withdrawals rollupData).
               noDepositLeft (DepositsByTxHash wDelayerData) (rd_Withdrawals rollupData) i
          then Sync2 env lastSavedBlock s = (Inl ErrWDelayerDepositNotFound, s3) \<and>
               historyDB s3 = historyDB s
          else \<exists>withdrawals deposits.
                 length withdrawals = length (rd_Withdrawals rollupData) \<and>
                 (\<forall>i<length (rd_Withdrawals rollupData).
                    withdrawals ! i =
                      pairedWithdrawal (DepositsByTxHash wDelayerData)
                        (rd_Withdrawals rollupData) i) \<and>
                 Sync2 env lastSavedBlock s =
                   storeBlock env ethBlock
                     \<lparr>bk_Block = ethBlock,
                      bk_Rollup = rollupData\<lparr>rd_Withdrawals := withdrawals\<rparr>,
                      bk_Auction = auctionData,
                      bk_WDelayer = wDelayerData\<lparr>DepositsByTxHash := deposits\<rparr>\<rparr> s3)"
proof -
  let ?d = "DepositsByTxHash wDelayerData"
  let ?ws = "rd_Withdrawals rollupData"
  have run: "Sync2 env lastSavedBlock s =
      (case pairWithdrawals ?d ?ws of
        Inl e \<Rightarrow> (Inl e, s3)
      | Inr (withdrawals, deposits) \<Rightarrow>
          storeBlock env ethBlock
            \<lparr>bk_Block = ethBlock,
             bk_Rollup = rollupData\<lparr>rd_Withdrawals := withdrawals\<rparr>,
             bk_Auction = auctionData,
             bk_WDelayer = wDelayerData\<lparr>DepositsByTxHash := deposits\<rparr>\<rparr> s3)"
    using Sync2_syncBlock[OF start nxt eth parent] syncBlock_streams[OF rollup auction wdelayer]
    by simp
  have hist: "historyDB s3 = historyDB s"
    using UpdateEth_keeps_historyDB[OF eth] rollupSync_keeps_historyDB[OF rollup]
      auctionSync_keeps_historyDB[OF auction] wdelayerSync_keeps_historyDB[OF wdelayer]
    by simp
  have deps: "\<forall>h. ?d h =
      (case blockHash of None \<Rightarrow> [] | Some bh \<Rightarrow> depositsOf (ev_Deposit wDelayerEvents) h)"
    using wdelayerSync_deposits[OF events wdelayer] by simp
  show ?thesis
  proof (cases "pairWithdrawals ?d ?ws")
    case (Inl e)
    then have "isl (pairWithdrawals ?d ?ws)" by simp
    then have un: "\<exists>i<length ?ws. noDepositLeft ?d ?ws i"
      by (simp only: pairWithdrawals_fails_iff)
    have "e = ErrWDelayerDepositNotFound"
      using Inl by (rule pairWithdrawals_error)
    then have "Sync2 env lastSavedBlock s = (Inl ErrWDelayerDepositNotFound, s3)"
      using run Inl by simp
    then show ?thesis
      using un hist deps by (simp only: if_True simp_thms)
  next
    case (Inr p)
    obtain ws1 d1 where p: "p = (ws1, d1)" by (cases p)
    have "\<not> isl (pairWithdrawals ?d ?ws)" using Inr by simp
    then have un: "\<not> (\<exists>i<length ?ws. noDepositLeft ?d ?ws i)"
      using pairWithdrawals_fails_iff[of ?d ?ws] by simp
    have pr: "length ws1 = length ?ws \<and> (\<forall>i<length ?ws. ws1 ! i = pairedWithdrawal ?d ?ws i)"
      using Inr p by (intro pairWithdrawals_paired[of ?d ?ws ws1 d1]) simp
    have "Sync2 env lastSavedBlock s =
        storeBlock env ethBlock
          \<lparr>bk_Block = ethBlock,
           bk_Rollup = rollupData\<lparr>rd_Withdrawals := ws1\<rparr>,
           bk_Auction = auctionData,
           bk_WDelayer = wDelayerData\<lparr>DepositsByTxHash := d1\<rparr>\<rparr> s3"
      using run Inr p by simp
    then have "\<exists>withdrawals deposits.
        length withdrawals = length ?ws \<and>
        (\<forall>i<length ?ws. withdrawals ! i = pairedWithdrawal ?d ?ws i) \<and>
        Sync2 env lastSavedBlock s =
          storeBlock env ethBlock
            \<lparr>bk_Block = ethBlock,
             bk_Rollup = rollupData\<lparr>rd_Withdrawals := withdrawals\<rparr>,
             bk_Auction = auctionData,
             bk_WDelayer = wDelayerData\<lparr>DepositsByTxHash := deposits\<rparr>\<rparr> s3"
      using pr by blast
    then show ?thesis
      using un deps by (simp only: if_False simp_thms)
  qed
qed


lemmas wd_defs = chain3_def env_withdrawals_def withdrawEvents_def depositEvents_def wev_def

lemma wd_start:
  "fst (lastSavedAndNext (env_withdrawals ws) None (toy_sync [blk 1 11 10, blk 2 12 11] 2)) =
     Inr (Some (blk 2 12 11), 3)"
  by (simp add: wd_defs sync_defs run_defs toy_defs)

lemma wd_next: "EthBlockByNumber (env_withdrawals ws) 3 = Inr (blk 3 13 12)"
  by (simp add: wd_defs toy_defs)

lemma wd_eth:
  "UpdateEth (env_withdrawals ws) (toy_sync [blk 1 11 10, blk 2 12 11] 2) =
     (Inr (), toy_sync [blk 1 11 10, blk 2 12 11] 2)"
  by (simp add: wd_defs sync_defs run_defs toy_defs)

lemma wd_rollup:
  "rollupSync (env_withdrawals ws) (blk 3 13 12) (toy_sync [blk 1 11 10, blk 2 12 11] 2) =
     (Inr (NewRollupData\<lparr>rd_Withdrawals := map withdrawInfo ws\<rparr>),
      toy_sync [blk 1 11 10, blk 2 12 11] 2)"
  by (simp add: wd_defs sync_defs run_defs toy_defs)

lemma wd_auction:
  "auctionSync (env_withdrawals ws) (blk 3 13 12) (toy_sync [blk 1 11 10, blk 2 12 11] 2) =
     (Inr NewAuctionData, toy_sync [blk 1 11 10, blk 2 12 11] 2)"
  by (simp add: wd_defs sync_defs run_defs toy_defs)

lemma wd_events:
  "WDelayerEventsByBlock (env_withdrawals ws) (Num (blk 3 13 12)) =
     Inr (fst (depositEvents 3), Some 13)"
  by (simp add: wd_defs toy_defs)

lemma wd_wdelayer:
  "wdelayerSync (env_withdrawals ws) (blk 3 13 12) (toy_sync [blk 1 11 10, blk 2 12 11] 2) =
     (Inr (foldl addDeposit NewWDelayerData (ev_Deposit (fst (depositEvents 3)))),
      toy_sync [blk 1 11 10, blk 2 12 11] 2)"
  by (simp add: wd_defs sync_defs run_defs toy_defs)

lemma wd_store:
  "rd_Batches (bk_Rollup bd) = [] \<Longrightarrow>
   fst (storeBlock (env_withdrawals ws) (blk 3 13 12) bd (toy_sync [blk 1 11 10, blk 2 12 11] 2)) =
     Inr (SyncedBlock bd)"
  by (simp add: wd_defs sync_defs run_defs toy_defs)

lemma wd_deposits:
  "map (DepositsByTxHash (foldl addDeposit NewWDelayerData (ev_Deposit (fst (depositEvents 3)))))
     [7, 8] =
   [[\<lparr>wt_Owner = 1, wt_Token = 21, wt_Amount = 5\<rparr>, \<lparr>wt_Owner = 2, wt_Token = 22, wt_Amount = 5\<rparr>],
    [\<lparr>wt_Owner = 3, wt_Token = 23, wt_Amount = 5\<rparr>]]"
  by (simp add: depositEvents_def addDeposit_def NewWDelayerData_def noWDelayerEvents_def)

lemma wd_short:
  "noDepositLeft
     (DepositsByTxHash (foldl addDeposit NewWDelayerData (ev_Deposit (fst (depositEvents 3)))))
     (map withdrawInfo withdrawals_short) 2"
  using wd_deposits
  by (simp add: noDepositLeft_def consumedBefore_def withdrawals_short_def wev_def
      withdrawInfo_def)

lemma wd_covered:
  "map (pairedWithdrawal
     (DepositsByTxHash (foldl addDeposit NewWDelayerData (ev_Deposit (fst (depositEvents 3)))))
     (map withdrawInfo withdrawals_covered)) [0, 1, 2, 3] =
   [withdrawInfo (wev False 7)\<lparr>wi_Owner := 1, wi_Token := 21\<rparr>,
    withdrawInfo (wev True 9),
    withdrawInfo (wev False 7)\<lparr>wi_Owner := 2, wi_Token := 22\<rparr>,
    withdrawInfo (wev False 8)\<lparr>wi_Owner := 3, wi_Token := 23\<rparr>]"
  using wd_deposits
  by (simp add: pairedWithdrawal_def consumedBefore_def withdrawals_covered_def wev_def
      withdrawInfo_def)

lemma wd_covered_all:
  "\<not> (\<exists>i<length (map withdrawInfo withdrawals_covered). noDepositLeft
     (DepositsByTxHash (foldl addDeposit NewWDelayerData (ev_Deposit (fst (depositEvents 3)))))
     (map withdrawInfo withdrawals_covered) i)"
proof -
  have "\<not> isl (pairWithdrawals
     (DepositsByTxHash (foldl addDeposit NewWDelayerData (ev_Deposit (fst (depositEvents 3)))))
     (map withdrawInfo withdrawals_covered))"
    using wd_deposits
    by (simp add: withdrawals_covered_def wev_def withdrawInfo_def)
  then show ?thesis
    unfolding pairWithdrawals_fails_iff .
qed

theorem withdrawals_paired_with_earliest_deposit_witness:
  "EthBlockByNumber (env_withdrawals withdrawals_short) 3 = Inr (blk 3 13 12) \<and>
   noDepositLeft
     (DepositsByTxHash (foldl addDeposit NewWDelayerData (ev_Deposit (fst (depositEvents 3)))))
     (map withdrawInfo withdrawals_short) 2 \<and>
   Sync2 (env_withdrawals withdrawals_short) None (toy_sync [blk 1 11 10, blk 2 12 11] 2) =
     (Inl ErrWDelayerDepositNotFound, toy_sync [blk 1 11 10, blk 2 12 11] 2) \<and>
   (case fst (Sync2 (env_withdrawals withdrawals_covered) None
                (toy_sync [blk 1 11 10, blk 2 12 11] 2)) of
      Inr (SyncedBlock blockData) \<Rightarrow> rd_Withdrawals (bk_Rollup blockData)
    | _ \<Rightarrow> []) =
     [withdrawInfo (wev False 7)\<lparr>wi_Owner := 1, wi_Token := 21\<rparr>,
      withdrawInfo (wev True 9),
      withdrawInfo (wev False 7)\<lparr>wi_Owner := 2, wi_Token := 22\<rparr>,
      withdrawInfo (wev False 8)\<lparr>wi_Owner := 3, wi_Token := 23\<rparr>]"
proof -
  let ?s = "toy_sync [blk 1 11 10, blk 2 12 11] 2"
  let ?b = "blk 3 13 12"
  let ?wd = "foldl addDeposit NewWDelayerData (ev_Deposit (fst (depositEvents 3)))"
  let ?d = "DepositsByTxHash ?wd"
  let ?short = "map withdrawInfo withdrawals_short"
  let ?covered = "map withdrawInfo withdrawals_covered"
  have parent: "\<forall>lb. Some (blk 2 12 11) = Some lb \<longrightarrow> Hash lb = ParentHash ?b"
    by (simp add: blk_def)
  have un: "\<exists>i<length (rd_Withdrawals (NewRollupData\<lparr>rd_Withdrawals := ?short\<rparr>)).
      noDepositLeft ?d (rd_Withdrawals (NewRollupData\<lparr>rd_Withdrawals := ?short\<rparr>)) i"
    using wd_short by (intro exI[of _ 2]) (simp add: withdrawals_short_def)
  have short: "Sync2 (env_withdrawals withdrawals_short) None ?s =
      (Inl ErrWDelayerDepositNotFound, ?s)"
    using withdrawals_paired_with_earliest_deposit[OF wd_start wd_next wd_eth parent
        wd_rollup wd_auction wd_events wd_wdelayer, of withdrawals_short, THEN conjunct2] un
    by (simp only: if_True)
  let ?rd = "NewRollupData\<lparr>rd_Withdrawals := ?covered\<rparr>"
  have sel: "rd_Withdrawals ?rd = ?covered"
    by simp
  have "\<not> (\<exists>i<length (rd_Withdrawals ?rd). noDepositLeft ?d (rd_Withdrawals ?rd) i)"
    unfolding sel by (rule wd_covered_all)
  then have "\<exists>withdrawals deposits.
      length withdrawals = length (rd_Withdrawals ?rd) \<and>
      (\<forall>i<length (rd_Withdrawals ?rd).
         withdrawals ! i = pairedWithdrawal ?d (rd_Withdrawals ?rd) i) \<and>
      Sync2 (env_withdrawals withdrawals_covered) None ?s =
        storeBlock (env_withdrawals withdrawals_covered) ?b
          \<lparr>bk_Block = ?b,
           bk_Rollup = ?rd\<lparr>rd_Withdrawals := withdrawals\<rparr>,
           bk_Auction = NewAuctionData,
           bk_WDelayer = ?wd\<lparr>DepositsByTxHash := deposits\<rparr>\<rparr> ?s"
    using withdrawals_paired_with_earliest_deposit[OF wd_start wd_next wd_eth parent
        wd_rollup wd_auction wd_events wd_wdelayer, of withdrawals_covered, THEN conjunct2]
    by (simp only: if_False)
  then obtain withdrawals deposits where len: "length withdrawals = length ?covered"
    and nth: "\<forall>i<length ?covered. withdrawals ! i = pairedWithdrawal ?d ?covered i"
    and run: "Sync2 (env_withdrawals withdrawals_covered) None ?s =
      storeBlock (env_withdrawals withdrawals_covered) ?b
        \<lparr>bk_Block = ?b,
         bk_Rollup = ?rd\<lparr>rd_Withdrawals := withdrawals\<rparr>,
         bk_Auction = NewAuctionData,
         bk_WDelayer = ?wd\<lparr>DepositsByTxHash := deposits\<rparr>\<rparr> ?s"
    unfolding sel by blast
  have "withdrawals = map ((!) withdrawals) [0..<length withdrawals]"
    by (simp add: map_nth)
  also have "\<dots> = map (pairedWithdrawal ?d ?covered) [0..<length withdrawals]"
    using nth len by (intro map_cong) auto
  also have "[0..<length withdrawals] = [0, 1, 2, 3]"
    using len by (simp add: withdrawals_covered_def upt_rec)
  finally have ws: "withdrawals =
      [withdrawInfo (wev False 7)\<lparr>wi_Owner := 1, wi_Token := 21\<rparr>,
       withdrawInfo (wev True 9),
       withdrawInfo (wev False 7)\<lparr>wi_Owner := 2, wi_Token := 22\<rparr>,
       withdrawInfo (wev False 8)\<lparr>wi_Owner := 3, wi_Token := 23\<rparr>]"
    by (simp only: wd_covered)
  have "fst (Sync2 (env_withdrawals withdrawals_covered) None ?s) =
      Inr (SyncedBlock
        \<lparr>bk_Block = ?b,
         bk_Rollup = ?rd\<lparr>rd_Withdrawals := withdrawals\<rparr>,
         bk_Auction = NewAuctionData,
         bk_WDelayer = ?wd\<lparr>DepositsByTxHash := deposits\<rparr>\<rparr>)"
    unfolding run by (rule wd_store) (simp add: NewRollupData_def)
  then have covered: "(case fst (Sync2 (env_withdrawals withdrawals_covered) None ?s) of
      Inr (SyncedBlock blockData) \<Rightarrow> rd_Withdrawals (bk_Rollup blockData)
    | _ \<Rightarrow> []) = withdrawals"
    by simp
  show ?thesis
    using wd_next wd_short short covered ws by simp
qed

text \<open>
  C5. The claim asks that \<^verbatim>\<open>Sync2\<close>, when a withdrawal finds no deposit left, returns
  an error and persists nothing for the block. The pairing runs after \<^verbatim>\<open>rollupSync\<close>,
  which has processed the batches of the block on the state database and applied the
  events of the block to the variables, and nothing undoes that when the pairing fails.
  Block 3 holds one batch, an event that sets \<^verbatim>\<open>FeeAddToken\<close> to 42, two deposits of
  the transaction 7 and three withdrawals of the transaction 7 that are not instant:
  \<^verbatim>\<open>Sync2\<close> returns the error that the deposit was not found, the history database
  holds the blocks 1 and 2 as before, and the state database has gone from batch 2 to
  batch 3 and \<^verbatim>\<open>FeeAddToken\<close> from 0 to 42.
\<close>

theorem missing_deposit_after_batch_leaves_state_advanced:
  "stateDB (toy_sync [blk 1 11 10, blk 2 12 11] 2) = 2 \<and>
   FeeAddToken (Rollup (vars (toy_sync [blk 1 11 10, blk 2 12 11] 2))) = 0 \<and>
   fst (Sync2 env_batch_missing_deposit None (toy_sync [blk 1 11 10, blk 2 12 11] 2)) =
     Inl ErrWDelayerDepositNotFound \<and>
   historyDB (snd (Sync2 env_batch_missing_deposit None (toy_sync [blk 1 11 10, blk 2 12 11] 2))) =
     [blk 1 11 10, blk 2 12 11] \<and>
   stateDB (snd (Sync2 env_batch_missing_deposit None (toy_sync [blk 1 11 10, blk 2 12 11] 2))) = 3 \<and>
   FeeAddToken (Rollup (vars
     (snd (Sync2 env_batch_missing_deposit None (toy_sync [blk 1 11 10, blk 2 12 11] 2))))) = 42"
  by (simp add: batch_defs sync_defs run_defs toy_defs)

text \<open>
  \<^verbatim>\<open>Sync2\<close> called again fetches the same block and processes its batch once more: the
  state database is at batch 4, two batches ahead of the history database.
\<close>

lemma missing_deposit_retry_processes_batch_again:
  "fst (Sync2 env_batch_missing_deposit None
          (snd (Sync2 env_batch_missing_deposit None (toy_sync [blk 1 11 10, blk 2 12 11] 2)))) =
     Inl ErrWDelayerDepositNotFound \<and>
   stateDB (snd (Sync2 env_batch_missing_deposit None
          (snd (Sync2 env_batch_missing_deposit None (toy_sync [blk 1 11 10, blk 2 12 11] 2))))) = 4 \<and>
   GetLastBatchNum env_batch_missing_deposit
     (historyDB (snd (Sync2 env_batch_missing_deposit None
          (snd (Sync2 env_batch_missing_deposit None (toy_sync [blk 1 11 10, blk 2 12 11] 2)))))) =
     Inr 2"
  by (simp add: batch_defs sync_defs run_defs toy_defs)

section \<open>The block hash of the three streams\<close>

lemma rollupSync_mismatch:
  "RollupEventsByBlock env (Num ethBlock) = Inr (ev, Some bh) \<Longrightarrow> bh \<noteq> Hash ethBlock \<Longrightarrow>
   rollupSync env ethBlock t = (Inl ErrBlockHashMismatchEvent, t)"
  by (simp add: rollupSync_def bnd_def liftE_def throw_def)

lemma auctionSync_mismatch:
  "AuctionEventsByBlock env (Num ethBlock) = Inr (ev, Some bh) \<Longrightarrow> bh \<noteq> Hash ethBlock \<Longrightarrow>
   auctionSync env ethBlock t = (Inl ErrBlockHashMismatchEvent, t)"
  by (simp add: auctionSync_def bnd_def liftE_def throw_def)

lemma wdelayerSync_mismatch:
  "WDelayerEventsByBlock env (Num ethBlock) = Inr (ev, Some bh) \<Longrightarrow> bh \<noteq> Hash ethBlock \<Longrightarrow>
   wdelayerSync env ethBlock t = (Inl ErrBlockHashMismatchEvent, t)"
  by (simp add: wdelayerSync_def bnd_def liftE_def throw_def)

lemma rollupSync_no_events:
  "RollupEventsByBlock env (Num ethBlock) = Inr (ev, None) \<Longrightarrow>
   rollupSync env ethBlock t = (Inr NewRollupData, t)"
  by (simp add: rollupSync_def bnd_def liftE_def ret_def)

lemma auctionSync_no_events:
  "AuctionEventsByBlock env (Num ethBlock) = Inr (ev, None) \<Longrightarrow>
   auctionSync env ethBlock t = (Inr NewAuctionData, t)"
  by (simp add: auctionSync_def bnd_def liftE_def ret_def)

lemma wdelayerSync_no_events:
  "WDelayerEventsByBlock env (Num ethBlock) = Inr (ev, None) \<Longrightarrow>
   wdelayerSync env ethBlock t = (Inr NewWDelayerData, t)"
  by (simp add: wdelayerSync_def bnd_def liftE_def ret_def)

lemma syncBlock_no_events:
  assumes "RollupEventsByBlock env (Num ethBlock) = Inr (rollupEvents, None)"
    and "AuctionEventsByBlock env (Num ethBlock) = Inr (auctionEvents, None)"
    and "WDelayerEventsByBlock env (Num ethBlock) = Inr (wDelayerEvents, None)"
  shows "syncBlock env ethBlock t =
           storeBlock env ethBlock
             \<lparr>bk_Block = ethBlock, bk_Rollup = NewRollupData, bk_Auction = NewAuctionData,
              bk_WDelayer = NewWDelayerData\<rparr> t"
  using syncBlock_streams[OF rollupSync_no_events[OF assms(1)] auctionSync_no_events[OF assms(2)]
      wdelayerSync_no_events[OF assms(3)], of t]
  by (simp add: NewRollupData_def NewWDelayerData_def)

text \<open>
  The check of the block hash of the three streams in \<^verbatim>\<open>Sync2\<close>, which has fetched
  the next block and found no reorganisation. If the rollup
  stream reports a block hash that is not the hash of the block, \<^verbatim>\<open>Sync2\<close> returns the
  error \<^verbatim>\<open>ErrBlockHashMismatchEvent\<close> and leaves the synchronizer as it was after the
  update of the statistics of the chain. If the rollup stream returned its data and the
  auction stream reports such a hash, or both returned their data and the stream of the
  withdrawal delayer reports such a hash, \<^verbatim>\<open>Sync2\<close> returns the same error and the
  history database is as it was before the call. A stream that reports no block hash
  gives the empty data of its kind and leaves the synchronizer as it is; when the three
  streams report no block hash, \<^verbatim>\<open>Sync2\<close> goes on to store the block with the three
  empty data.
\<close>

theorem stream_block_hash_mismatch_aborts:
  assumes start: "fst (lastSavedAndNext env lastSavedBlock s) = Inr (lastSaved, nextBlockNum)"
    and nxt: "EthBlockByNumber env nextBlockNum = Inr ethBlock"
    and eth: "UpdateEth env s = (Inr (), s0)"
    and parent: "\<forall>lb. lastSaved = Some lb \<longrightarrow> Hash lb = ParentHash ethBlock"
  shows "(\<forall>ev bh. RollupEventsByBlock env (Num ethBlock) = Inr (ev, Some bh) \<and>
            bh \<noteq> Hash ethBlock \<longrightarrow>
            Sync2 env lastSavedBlock s = (Inl ErrBlockHashMismatchEvent, s0) \<and>
            historyDB s0 = historyDB s) \<and>
         (\<forall>rollupData s1 ev bh.
            rollupSync env ethBlock s0 = (Inr rollupData, s1) \<and>
            AuctionEventsByBlock env (Num ethBlock) = Inr (ev, Some bh) \<and>
            bh \<noteq> Hash ethBlock \<longrightarrow>
            Sync2 env lastSavedBlock s = (Inl ErrBlockHashMismatchEvent, s1) \<and>
            historyDB s1 = historyDB s) \<and>
         (\<forall>rollupData s1 auctionData s2 ev bh.
            rollupSync env ethBlock s0 = (Inr rollupData, s1) \<and>
            auctionSync env ethBlock s1 = (Inr auctionData, s2) \<and>
            WDelayerEventsByBlock env (Num ethBlock) = Inr (ev, Some bh) \<and>
            bh \<noteq> Hash ethBlock \<longrightarrow>
            Sync2 env lastSavedBlock s = (Inl ErrBlockHashMismatchEvent, s2) \<and>
            historyDB s2 = historyDB s) \<and>
         (\<forall>ev t. RollupEventsByBlock env (Num ethBlock) = Inr (ev, None) \<longrightarrow>
            rollupSync env ethBlock t = (Inr NewRollupData, t)) \<and>
         (\<forall>ev t. AuctionEventsByBlock env (Num ethBlock) = Inr (ev, None) \<longrightarrow>
            auctionSync env ethBlock t = (Inr NewAuctionData, t)) \<and>
         (\<forall>ev t. WDelayerEventsByBlock env (Num ethBlock) = Inr (ev, None) \<longrightarrow>
            wdelayerSync env ethBlock t = (Inr NewWDelayerData, t)) \<and>
         (\<forall>rollupEvents auctionEvents wDelayerEvents.
            RollupEventsByBlock env (Num ethBlock) = Inr (rollupEvents, None) \<and>
            AuctionEventsByBlock env (Num ethBlock) = Inr (auctionEvents, None) \<and>
            WDelayerEventsByBlock env (Num ethBlock) = Inr (wDelayerEvents, None) \<longrightarrow>
            Sync2 env lastSavedBlock s =
              storeBlock env ethBlock
                \<lparr>bk_Block = ethBlock, bk_Rollup = NewRollupData, bk_Auction = NewAuctionData,
                 bk_WDelayer = NewWDelayerData\<rparr> s0)"
proof -
  note run = Sync2_syncBlock[OF start nxt eth parent]
  note h0 = UpdateEth_keeps_historyDB[OF eth]
  have 1: "Sync2 env lastSavedBlock s = (Inl ErrBlockHashMismatchEvent, s0) \<and>
      historyDB s0 = historyDB s"
    if "RollupEventsByBlock env (Num ethBlock) = Inr (ev, Some bh)" "bh \<noteq> Hash ethBlock"
    for ev bh
    using syncBlock_rollup_fails[OF rollupSync_mismatch[OF that, of s0]] run h0 by simp
  have 2: "Sync2 env lastSavedBlock s = (Inl ErrBlockHashMismatchEvent, s1) \<and>
      historyDB s1 = historyDB s"
    if r: "rollupSync env ethBlock s0 = (Inr rollupData, s1)"
      and "AuctionEventsByBlock env (Num ethBlock) = Inr (ev, Some bh)" "bh \<noteq> Hash ethBlock"
    for rollupData s1 ev bh
    using syncBlock_auction_fails[OF r auctionSync_mismatch[OF that(2,3), of s1]] run h0
      rollupSync_keeps_historyDB[OF r]
    by simp
  have 3: "Sync2 env lastSavedBlock s = (Inl ErrBlockHashMismatchEvent, s2) \<and>
      historyDB s2 = historyDB s"
    if r: "rollupSync env ethBlock s0 = (Inr rollupData, s1)"
      and a: "auctionSync env ethBlock s1 = (Inr auctionData, s2)"
      and "WDelayerEventsByBlock env (Num ethBlock) = Inr (ev, Some bh)" "bh \<noteq> Hash ethBlock"
    for rollupData s1 auctionData s2 ev bh
    using syncBlock_wdelayer_fails[OF r a wdelayerSync_mismatch[OF that(3,4), of s2]] run h0
      rollupSync_keeps_historyDB[OF r] auctionSync_keeps_historyDB[OF a]
    by simp
  have 4: "Sync2 env lastSavedBlock s =
      storeBlock env ethBlock
        \<lparr>bk_Block = ethBlock, bk_Rollup = NewRollupData, bk_Auction = NewAuctionData,
         bk_WDelayer = NewWDelayerData\<rparr> s0"
    if "RollupEventsByBlock env (Num ethBlock) = Inr (rollupEvents, None)"
      "AuctionEventsByBlock env (Num ethBlock) = Inr (auctionEvents, None)"
      "WDelayerEventsByBlock env (Num ethBlock) = Inr (wDelayerEvents, None)"
    for rollupEvents auctionEvents wDelayerEvents
    using syncBlock_no_events[OF that, of s0] run by simp
  show ?thesis
  proof (intro conjI allI impI)
    fix ev bh
    assume "RollupEventsByBlock env (Num ethBlock) = Inr (ev, Some bh) \<and> bh \<noteq> Hash ethBlock"
    then show "Sync2 env lastSavedBlock s = (Inl ErrBlockHashMismatchEvent, s0)"
      and "historyDB s0 = historyDB s"
      using 1 by blast+
  next
    fix rollupData s1 ev bh
    assume "rollupSync env ethBlock s0 = (Inr rollupData, s1) \<and>
      AuctionEventsByBlock env (Num ethBlock) = Inr (ev, Some bh) \<and> bh \<noteq> Hash ethBlock"
    then show "Sync2 env lastSavedBlock s = (Inl ErrBlockHashMismatchEvent, s1)"
      and "historyDB s1 = historyDB s"
      using 2 by blast+
  next
    fix rollupData s1 auctionData s2 ev bh
    assume "rollupSync env ethBlock s0 = (Inr rollupData, s1) \<and>
      auctionSync env ethBlock s1 = (Inr auctionData, s2) \<and>
      WDelayerEventsByBlock env (Num ethBlock) = Inr (ev, Some bh) \<and> bh \<noteq> Hash ethBlock"
    then show "Sync2 env lastSavedBlock s = (Inl ErrBlockHashMismatchEvent, s2)"
      and "historyDB s2 = historyDB s"
      using 3 by blast+
  next
    fix ev t
    assume "RollupEventsByBlock env (Num ethBlock) = Inr (ev, None)"
    then show "rollupSync env ethBlock t = (Inr NewRollupData, t)"
      by (rule rollupSync_no_events)
  next
    fix ev t
    assume "AuctionEventsByBlock env (Num ethBlock) = Inr (ev, None)"
    then show "auctionSync env ethBlock t = (Inr NewAuctionData, t)"
      by (rule auctionSync_no_events)
  next
    fix ev t
    assume "WDelayerEventsByBlock env (Num ethBlock) = Inr (ev, None)"
    then show "wdelayerSync env ethBlock t = (Inr NewWDelayerData, t)"
      by (rule wdelayerSync_no_events)
  next
    fix rollupEvents auctionEvents wDelayerEvents
    assume "RollupEventsByBlock env (Num ethBlock) = Inr (rollupEvents, None) \<and>
      AuctionEventsByBlock env (Num ethBlock) = Inr (auctionEvents, None) \<and>
      WDelayerEventsByBlock env (Num ethBlock) = Inr (wDelayerEvents, None)"
    then show "Sync2 env lastSavedBlock s =
      storeBlock env ethBlock
        \<lparr>bk_Block = ethBlock, bk_Rollup = NewRollupData, bk_Auction = NewAuctionData,
         bk_WDelayer = NewWDelayerData\<rparr> s0"
      using 4 by blast
  qed
qed


theorem stream_block_hash_mismatch_aborts_witness:
  "Sync2 env_rollup_mismatch None (toy_sync [blk 1 11 10, blk 2 12 11] 2) =
     (Inl ErrBlockHashMismatchEvent, toy_sync [blk 1 11 10, blk 2 12 11] 2) \<and>
   Sync2 env_auction_mismatch None (toy_sync [blk 1 11 10, blk 2 12 11] 2) =
     (Inl ErrBlockHashMismatchEvent, toy_sync [blk 1 11 10, blk 2 12 11] 2) \<and>
   Sync2 env_wdelayer_mismatch None (toy_sync [blk 1 11 10, blk 2 12 11] 2) =
     (Inl ErrBlockHashMismatchEvent, toy_sync [blk 1 11 10, blk 2 12 11] 2) \<and>
   fst (Sync2 (no_events chain3) None (toy_sync [blk 1 11 10, blk 2 12 11] 2)) =
     Inr (SyncedBlock
       \<lparr>bk_Block = blk 3 13 12, bk_Rollup = NewRollupData, bk_Auction = NewAuctionData,
        bk_WDelayer = NewWDelayerData\<rparr>)"
proof -
  let ?s = "toy_sync [blk 1 11 10, blk 2 12 11] 2"
  let ?b = "blk 3 13 12"
  have r: "RollupEventsByBlock env_rollup_mismatch (Num ?b) = Inr (noRollupEvents, Some 99) \<and>
      99 \<noteq> Hash ?b"
    by (simp add: env_rollup_mismatch_def toy_env_def blk_def)
  have 1: "Sync2 env_rollup_mismatch None ?s = (Inl ErrBlockHashMismatchEvent, ?s)"
    using stream_block_hash_mismatch_aborts[OF
          toy_start[of chain3 "\<lambda>n. (noRollupEvents, Some 99)" "\<lambda>n. (noAuctionEvents, None)"
            "\<lambda>n. (noWDelayerEvents, None)"]
          toy_next[of "\<lambda>n. (noRollupEvents, Some 99)" "\<lambda>n. (noAuctionEvents, None)"
            "\<lambda>n. (noWDelayerEvents, None)"]
          toy_eth[of chain3 "\<lambda>n. (noRollupEvents, Some 99)" "\<lambda>n. (noAuctionEvents, None)"
            "\<lambda>n. (noWDelayerEvents, None)"]
          toy_parent, folded env_rollup_mismatch_def,
        THEN conjunct1, rule_format, OF r]
    by simp
  have ar: "rollupSync env_auction_mismatch ?b ?s = (Inr NewRollupData, ?s)"
    by (rule rollupSync_no_events[of _ _ noRollupEvents])
      (simp add: env_auction_mismatch_def toy_env_def)
  have a: "AuctionEventsByBlock env_auction_mismatch (Num ?b) = Inr (noAuctionEvents, Some 99) \<and>
      99 \<noteq> Hash ?b"
    by (simp add: env_auction_mismatch_def toy_env_def blk_def)
  have 2: "Sync2 env_auction_mismatch None ?s = (Inl ErrBlockHashMismatchEvent, ?s)"
    using stream_block_hash_mismatch_aborts[OF
          toy_start[of chain3 "\<lambda>n. (noRollupEvents, None)" "\<lambda>n. (noAuctionEvents, Some 99)"
            "\<lambda>n. (noWDelayerEvents, None)"]
          toy_next[of "\<lambda>n. (noRollupEvents, None)" "\<lambda>n. (noAuctionEvents, Some 99)"
            "\<lambda>n. (noWDelayerEvents, None)"]
          toy_eth[of chain3 "\<lambda>n. (noRollupEvents, None)" "\<lambda>n. (noAuctionEvents, Some 99)"
            "\<lambda>n. (noWDelayerEvents, None)"]
          toy_parent, folded env_auction_mismatch_def,
        THEN conjunct2, THEN conjunct1, rule_format, OF conjI[OF ar a]]
    by simp
  have wr: "rollupSync env_wdelayer_mismatch ?b ?s = (Inr NewRollupData, ?s)"
    by (rule rollupSync_no_events[of _ _ noRollupEvents])
      (simp add: env_wdelayer_mismatch_def toy_env_def)
  have wa: "auctionSync env_wdelayer_mismatch ?b ?s = (Inr NewAuctionData, ?s)"
    by (rule auctionSync_no_events[of _ _ noAuctionEvents])
      (simp add: env_wdelayer_mismatch_def toy_env_def)
  have w: "WDelayerEventsByBlock env_wdelayer_mismatch (Num ?b) =
      Inr (noWDelayerEvents, Some 99) \<and> 99 \<noteq> Hash ?b"
    by (simp add: env_wdelayer_mismatch_def toy_env_def blk_def)
  have 3: "Sync2 env_wdelayer_mismatch None ?s = (Inl ErrBlockHashMismatchEvent, ?s)"
    using stream_block_hash_mismatch_aborts[OF
          toy_start[of chain3 "\<lambda>n. (noRollupEvents, None)" "\<lambda>n. (noAuctionEvents, None)"
            "\<lambda>n. (noWDelayerEvents, Some 99)"]
          toy_next[of "\<lambda>n. (noRollupEvents, None)" "\<lambda>n. (noAuctionEvents, None)"
            "\<lambda>n. (noWDelayerEvents, Some 99)"]
          toy_eth[of chain3 "\<lambda>n. (noRollupEvents, None)" "\<lambda>n. (noAuctionEvents, None)"
            "\<lambda>n. (noWDelayerEvents, Some 99)"]
          toy_parent, folded env_wdelayer_mismatch_def,
        THEN conjunct2, THEN conjunct2, THEN conjunct1, rule_format,
        OF conjI[OF wr conjI[OF wa w]]]
    by simp
  have n: "RollupEventsByBlock (no_events chain3) (Num ?b) = Inr (noRollupEvents, None) \<and>
      AuctionEventsByBlock (no_events chain3) (Num ?b) = Inr (noAuctionEvents, None) \<and>
      WDelayerEventsByBlock (no_events chain3) (Num ?b) = Inr (noWDelayerEvents, None)"
    by (simp add: no_events_def toy_env_def)
  have "Sync2 (no_events chain3) None ?s =
      storeBlock (no_events chain3) ?b
        \<lparr>bk_Block = ?b, bk_Rollup = NewRollupData, bk_Auction = NewAuctionData,
         bk_WDelayer = NewWDelayerData\<rparr> ?s"
    using stream_block_hash_mismatch_aborts[OF
          toy_start[of chain3 "\<lambda>n. (noRollupEvents, None)" "\<lambda>n. (noAuctionEvents, None)"
            "\<lambda>n. (noWDelayerEvents, None)"]
          toy_next[of "\<lambda>n. (noRollupEvents, None)" "\<lambda>n. (noAuctionEvents, None)"
            "\<lambda>n. (noWDelayerEvents, None)"]
          toy_eth[of chain3 "\<lambda>n. (noRollupEvents, None)" "\<lambda>n. (noAuctionEvents, None)"
            "\<lambda>n. (noWDelayerEvents, None)"]
          toy_parent, folded no_events_def,
        THEN conjunct2, THEN conjunct2, THEN conjunct2, THEN conjunct2, THEN conjunct2,
        THEN conjunct2, rule_format, OF n]
    by simp
  then have 4: "fst (Sync2 (no_events chain3) None ?s) =
      Inr (SyncedBlock
        \<lparr>bk_Block = ?b, bk_Rollup = NewRollupData, bk_Auction = NewAuctionData,
         bk_WDelayer = NewWDelayerData\<rparr>)"
    unfolding no_events_def by (simp add: toy_store NewRollupData_def)
  show ?thesis
    using 1 2 3 4 by simp
qed

text \<open>
  C4. The claim asks that \<^verbatim>\<open>Sync2\<close> persists nothing for the block when a stream
  reports a block hash that is not the hash of the block. The auction stream and the
  stream of the withdrawal delayer are read after \<^verbatim>\<open>rollupSync\<close>, which has processed
  the batches of the block on the state database and applied the events of the block to
  the variables, and nothing undoes that when a later stream is refused. Block 3 holds
  one batch and an event that sets \<^verbatim>\<open>FeeAddToken\<close> to 42, and the auction stream (or
  the stream of the withdrawal delayer) reports the hash 99: \<^verbatim>\<open>Sync2\<close> returns
  \<^verbatim>\<open>ErrBlockHashMismatchEvent\<close>, the history database holds the blocks 1 and 2 as
  before, and the state database has gone from batch 2 to batch 3 and \<^verbatim>\<open>FeeAddToken\<close>
  from 0 to 42.
\<close>

theorem stream_mismatch_after_batch_leaves_state_advanced:
  "stateDB (toy_sync [blk 1 11 10, blk 2 12 11] 2) = 2 \<and>
   FeeAddToken (Rollup (vars (toy_sync [blk 1 11 10, blk 2 12 11] 2))) = 0 \<and>
   fst (Sync2 env_batch_auction_mismatch None (toy_sync [blk 1 11 10, blk 2 12 11] 2)) =
     Inl ErrBlockHashMismatchEvent \<and>
   historyDB (snd (Sync2 env_batch_auction_mismatch None (toy_sync [blk 1 11 10, blk 2 12 11] 2))) =
     [blk 1 11 10, blk 2 12 11] \<and>
   stateDB (snd (Sync2 env_batch_auction_mismatch None (toy_sync [blk 1 11 10, blk 2 12 11] 2))) = 3 \<and>
   FeeAddToken (Rollup (vars
     (snd (Sync2 env_batch_auction_mismatch None (toy_sync [blk 1 11 10, blk 2 12 11] 2))))) = 42 \<and>
   fst (Sync2 env_batch_wdelayer_mismatch None (toy_sync [blk 1 11 10, blk 2 12 11] 2)) =
     Inl ErrBlockHashMismatchEvent \<and>
   historyDB (snd (Sync2 env_batch_wdelayer_mismatch None (toy_sync [blk 1 11 10, blk 2 12 11] 2))) =
     [blk 1 11 10, blk 2 12 11] \<and>
   stateDB (snd (Sync2 env_batch_wdelayer_mismatch None (toy_sync [blk 1 11 10, blk 2 12 11] 2))) = 3 \<and>
   FeeAddToken (Rollup (vars
     (snd (Sync2 env_batch_wdelayer_mismatch None (toy_sync [blk 1 11 10, blk 2 12 11] 2))))) = 42"
  by (simp add: batch_defs sync_defs run_defs toy_defs)

text \<open>
  \<^verbatim>\<open>Sync2\<close> called again fetches the same block and processes its batch once more: the
  state database is at batch 4, two batches ahead of the history database.
\<close>

lemma stream_mismatch_retry_processes_batch_again:
  "fst (Sync2 env_batch_auction_mismatch None
          (snd (Sync2 env_batch_auction_mismatch None (toy_sync [blk 1 11 10, blk 2 12 11] 2)))) =
     Inl ErrBlockHashMismatchEvent \<and>
   stateDB (snd (Sync2 env_batch_auction_mismatch None
          (snd (Sync2 env_batch_auction_mismatch None (toy_sync [blk 1 11 10, blk 2 12 11] 2))))) = 4 \<and>
   GetLastBatchNum env_batch_auction_mismatch
     (historyDB (snd (Sync2 env_batch_auction_mismatch None
          (snd (Sync2 env_batch_auction_mismatch None (toy_sync [blk 1 11 10, blk 2 12 11] 2)))))) =
     Inr 2"
  by (simp add: batch_defs sync_defs run_defs toy_defs)

section \<open>Reorganisations\<close>

text \<open>The statistics are all that the updates of the statistics change.\<close>

lemma updSync_only_stats:
  "pres (\<lambda>s. historyDB s = h \<and> stateDB s = d \<and> vars s = v) (updSync f)"
  unfolding updSync_def by (rule pres_modify) simp

lemma UpdateSync_only_stats:
  "pres (\<lambda>s. historyDB s = h \<and> stateDB s = d \<and> vars s = v) (UpdateSync env b x y z)"
  unfolding UpdateSync_def by (intro pres_intros updSync_only_stats)

lemma updateCurrentSlotIfSync_only_stats:
  "pres (\<lambda>s. historyDB s = h \<and> stateDB s = d \<and> vars s = v)
     (updateCurrentSlotIfSync env reset firstBatchBlockNum)"
  unfolding updateCurrentSlotIfSync_def slotCoordinator_def UpdateCurrentSlot_def
  by (intro pres_intros updSync_only_stats)

lemma UpdateEth_only_stats:
  "UpdateEth env s = (r, s0) \<Longrightarrow> s0 = s\<lparr>stats := stats s0\<rparr>"
  by (auto simp: UpdateEth_def updEth_def bnd_def gets_def ret_def liftE_def modify_def
      split: if_splits sum.splits)

lemma resetVars_known:
  "GetSCVars env (historyDB t) = Inr v \<Longrightarrow> resetVars env t = (Inr (), t\<lparr>vars := v\<rparr>)"
  by (simp add: resetVars_def bnd_def gets_def modify_def)

lemma resetState_result:
  assumes v: "GetSCVars env (historyDB t) = Inr v"
    and run: "resetState env block t = (Inr (), t2)"
  shows "historyDB t2 = historyDB t \<and> vars t2 = v \<and>
         (\<exists>batchNum.
            orNoRows ''historyDB.GetLastBatchNum'' 0 (GetLastBatchNum env (historyDB t)) =
              Inr batchNum \<and>
            StateDBReset env (stateDB t) batchNum = Inr (stateDB t2))"
proof -
  let ?h = "historyDB t"
  obtain batchNum where b: "orNoRows ''historyDB.GetLastBatchNum'' 0 (GetLastBatchNum env ?h) =
      Inr batchNum"
    using run resetVars_known[OF v]
    by (cases "orNoRows ''historyDB.GetLastBatchNum'' 0 (GetLastBatchNum env ?h)")
      (simp_all add: resetState_def thn_def bnd_def gets_def liftE_def)
  obtain l1 where l1: "orNoRows ''historyDB.GetLastL1BatchBlockNum'' 0
      (GetLastL1BatchBlockNum env ?h) = Inr l1"
    using run resetVars_known[OF v] b
    by (cases "orNoRows ''historyDB.GetLastL1BatchBlockNum'' 0 (GetLastL1BatchBlockNum env ?h)")
      (simp_all add: resetState_def thn_def bnd_def gets_def liftE_def)
  obtain n where n: "orNoRows ''historyDB.GetLastL1BatchBlockNum'' None
      (GetLastL1TxsNum env ?h) = Inr n"
    using run resetVars_known[OF v] b l1
    by (cases "orNoRows ''historyDB.GetLastL1BatchBlockNum'' None (GetLastL1TxsNum env ?h)")
      (simp_all add: resetState_def thn_def bnd_def gets_def liftE_def)
  obtain sdb1 where d: "StateDBReset env (stateDB t) batchNum = Inr sdb1"
    using run resetVars_known[OF v] b l1 n
    by (cases "StateDBReset env (stateDB t) batchNum")
      (simp_all add: resetState_def thn_def bnd_def gets_def liftE_def throw_def)
  let ?t1 = "t\<lparr>vars := v, stateDB := sdb1\<rparr>"
  let ?rest = "thn (UpdateSync env block (Some batchNum) (Some l1)
                (Some (case n of None \<Rightarrow> - 1 | Some n \<Rightarrow> n)))
             (updateCurrentSlotIfSync env True None)"
  have "resetState env block t = ?rest ?t1"
    using resetVars_known[OF v] b l1 n d
    by (simp add: resetState_def thn_def bnd_def gets_def liftE_def modify_def)
  then have "?rest ?t1 = (Inr (), t2)"
    using run by (rule subst)
  then have fin: "snd (?rest ?t1) = t2"
    by (simp only: snd_conv)
  have "pres (\<lambda>s. historyDB s = ?h \<and> stateDB s = sdb1 \<and> vars s = v) ?rest"
    by (intro pres_intros UpdateSync_only_stats updateCurrentSlotIfSync_only_stats)
  then have "historyDB t2 = ?h \<and> stateDB t2 = sdb1 \<and> vars t2 = v"
    using fin by (auto simp: pres_def)
  then show ?thesis
    using b d by simp
qed

text \<open>
  The loop of \<^verbatim>\<open>reorg\<close> stops at the greatest height, between the first block to
  synchronize and the height it starts from, where the block held and the block of the
  chain have the same hash, and gives the block held at that height.
\<close>

lemma reorgLoop_common_block:
  assumes "start \<le> H" and "H \<le> blockNum"
    and "\<forall>k. H \<le> k \<and> k \<le> blockNum \<longrightarrow>
           (\<exists>cb sb. EthBlockByNumber env k = Inr cb \<and> GetBlock env h k = Inr sb \<and>
                    (Hash sb = Hash cb) = (k = H))"
    and "GetBlock env h H = Inr sbH"
  shows "reorgLoop env h start blockNum block = Inr (Some sbH)"
  using assms
proof (induction "nat (blockNum - H)" arbitrary: blockNum block)
  case 0
  then have blockNum: "blockNum = H" by simp
  obtain cb where "EthBlockByNumber env H = Inr cb" "Hash sbH = Hash cb"
    using "0.prems"(3,4) blockNum by auto
  then show ?case
    using "0.prems"(1,4) blockNum by (subst reorgLoop.simps) simp
next
  case (Suc n)
  then have lt: "H < blockNum" by simp
  obtain cb sb where cb: "EthBlockByNumber env blockNum = Inr cb"
    and sb: "GetBlock env h blockNum = Inr sb" and ne: "Hash sb \<noteq> Hash cb"
    using Suc.prems(2,3) lt by (metis less_le order_refl)
  have "reorgLoop env h start (blockNum - 1) (Some sb) = Inr (Some sbH)"
  proof (rule Suc.hyps(1))
    show "n = nat (blockNum - 1 - H)" using Suc.hyps(2) by simp
    show "start \<le> H" by (rule Suc.prems(1))
    show "H \<le> blockNum - 1" using lt by simp
    show "\<forall>k. H \<le> k \<and> k \<le> blockNum - 1 \<longrightarrow>
           (\<exists>cb sb. EthBlockByNumber env k = Inr cb \<and> GetBlock env h k = Inr sb \<and>
                    (Hash sb = Hash cb) = (k = H))"
      using Suc.prems(3) by simp
    show "GetBlock env h H = Inr sbH" by (rule Suc.prems(4))
  qed
  then show ?case
    using Suc.prems(1) lt cb sb ne by (subst reorgLoop.simps) simp
qed

lemma reorg_common_block:
  assumes "reorgLoop env (historyDB t) (startBlockNum t) (Num uncleBlock) None = Inr (Some sb)"
    and "Reorg env (historyDB t) (Num sb) = Inr h1"
    and "resetState env sb (t\<lparr>historyDB := h1\<rparr>) = (Inr (), t2)"
  shows "reorg env uncleBlock t = (Inr (Num sb), t2)"
  using assms
  by (simp add: reorg_def bnd_def thn_def gets_def liftE_def modify_def ret_def)

text \<open>
  The reorganisation when a common block exists. \<^verbatim>\<open>Sync2\<close> has fetched the block
  after the last saved block \<open>lb\<close>, and the parent hash of that block is not the hash of
  \<open>lb\<close>. Let \<open>H\<close>, not below the first block to
  synchronize and not above \<open>lb\<close>, be the only height from \<open>H\<close> up to \<open>lb\<close> where the
  block held in the history database and the block of the chain have the same hash, all
  these blocks being read without error. If the history database is truncated at \<open>H\<close>
  without error, holds a snapshot of the variables of the contracts afterwards, and the
  reset of the state succeeds, then \<^verbatim>\<open>Sync2\<close> returns no error and the number of
  discarded blocks, the number of \<open>lb\<close> minus \<open>H\<close>; the history database is the truncated
  one, the variables are those of its snapshot, and the state database has been reset to
  the last batch number of the truncated history database.
\<close>

theorem parent_hash_mismatch_rewinds_to_common_block:
  assumes start: "fst (lastSavedAndNext env lastSavedBlock s) = Inr (Some lb, nextBlockNum)"
    and nxt: "EthBlockByNumber env nextBlockNum = Inr ethBlock"
    and eth: "UpdateEth env s = (Inr (), s0)"
    and mismatch: "Hash lb \<noteq> ParentHash ethBlock"
    and low: "startBlockNum s \<le> H"
    and high: "H \<le> Num lb"
    and common: "\<forall>k. H \<le> k \<and> k \<le> Num lb \<longrightarrow>
           (\<exists>cb sb. EthBlockByNumber env k = Inr cb \<and> GetBlock env (historyDB s) k = Inr sb \<and>
                    (Hash sb = Hash cb) = (k = H))"
    and held: "GetBlock env (historyDB s) H = Inr sbH"
    and num: "Num sbH = H"
    and truncate: "Reorg env (historyDB s) H = Inr h1"
    and snapshot: "GetSCVars env h1 = Inr v"
    and reset: "resetState env sbH (s0\<lparr>historyDB := h1\<rparr>) = (Inr (), s2)"
  shows "Sync2 env lastSavedBlock s = (Inr (Discarded (Num lb - H)), s2) \<and>
         historyDB s2 = h1 \<and> vars s2 = v \<and>
         (\<exists>batchNum.
            orNoRows ''historyDB.GetLastBatchNum'' 0 (GetLastBatchNum env h1) = Inr batchNum \<and>
            StateDBReset env (stateDB s) batchNum = Inr (stateDB s2))"
proof -
  have s0: "s0 = s\<lparr>stats := stats s0\<rparr>"
    using eth by (rule UpdateEth_only_stats)
  have h0: "historyDB s0 = historyDB s" and st0: "startBlockNum s0 = startBlockNum s"
    and d0: "stateDB s0 = stateDB s"
    by (subst s0, simp)+
  have loop: "reorgLoop env (historyDB s0) (startBlockNum s0) (Num lb) None = Inr (Some sbH)"
    unfolding h0 st0 using low high common held by (rule reorgLoop_common_block)
  have "reorg env lb s0 = (Inr (Num sbH), s2)"
    using loop
  proof (rule reorg_common_block)
    show "Reorg env (historyDB s0) (Num sbH) = Inr h1"
      unfolding h0 num by (rule truncate)
    show "resetState env sbH (s0\<lparr>historyDB := h1\<rparr>) = (Inr (), s2)"
      by (rule reset)
  qed
  then have run: "Sync2 env lastSavedBlock s = (Inr (Discarded (Num lb - H)), s2)"
    using Sync2_reorg[OF start nxt eth mismatch] num by (simp add: bnd_def ret_def)
  have v: "GetSCVars env (historyDB (s0\<lparr>historyDB := h1\<rparr>)) = Inr v"
    using snapshot by simp
  show ?thesis
    using run resetState_result[OF v reset] d0 by simp
qed


lemmas reorg_defs = env_reorg_def env_reorg_all_def env_reorg_fails_def no_events_def
  stored123_def

lemma reorg_start:
  "fst (lastSavedAndNext env_reorg None (toy_sync stored123 3)) = Inr (Some (blk 3 13 12), 4)"
  by (simp add: reorg_defs sync_defs run_defs toy_defs)

lemma reorg_next: "EthBlockByNumber env_reorg 4 = Inr (blk 4 34 33)"
  by (simp add: reorg_defs toy_defs)

lemma reorg_eth:
  "UpdateEth env_reorg (toy_sync stored123 3) = (Inr (), toy_sync stored123 3)"
  by (simp add: reorg_defs sync_defs run_defs toy_defs)

lemma reorg_common:
  "\<forall>k. 1 \<le> k \<and> k \<le> Num (blk 3 13 12) \<longrightarrow>
     (\<exists>cb sb. EthBlockByNumber env_reorg k = Inr cb \<and>
              GetBlock env_reorg (historyDB (toy_sync stored123 3)) k = Inr sb \<and>
              (Hash sb = Hash cb) = (k = 1))"
proof (intro allI impI)
  fix k :: int
  assume "1 \<le> k \<and> k \<le> Num (blk 3 13 12)"
  then have "k = 1 \<or> k = 2 \<or> k = 3"
    by (auto simp: blk_def)
  then show "\<exists>cb sb. EthBlockByNumber env_reorg k = Inr cb \<and>
              GetBlock env_reorg (historyDB (toy_sync stored123 3)) k = Inr sb \<and>
              (Hash sb = Hash cb) = (k = 1)"
    by (auto simp: reorg_defs toy_defs)
qed

lemma reorg_held:
  "GetBlock env_reorg (historyDB (toy_sync stored123 3)) 1 = Inr (blk 1 11 10)"
  by (simp add: reorg_defs toy_defs)

lemma reorg_truncate:
  "Reorg env_reorg (historyDB (toy_sync stored123 3)) 1 = Inr [blk 1 11 10]"
  by (simp add: reorg_defs toy_defs)

lemma reorg_reset:
  "fst (resetState env_reorg (blk 1 11 10) ((toy_sync stored123 3)\<lparr>historyDB := [blk 1 11 10]\<rparr>)) =
     Inr ()"
  by (simp add: reorg_defs sync_defs run_defs toy_defs)

theorem parent_hash_mismatch_rewinds_to_common_block_witness:
  "fst (lastSavedAndNext env_reorg None (toy_sync stored123 3)) = Inr (Some (blk 3 13 12), 4) \<and>
   EthBlockByNumber env_reorg 4 = Inr (blk 4 34 33) \<and>
   fst (Sync2 env_reorg None (toy_sync stored123 3)) = Inr (Discarded 2) \<and>
   historyDB (snd (Sync2 env_reorg None (toy_sync stored123 3))) = [blk 1 11 10] \<and>
   stateDB (snd (Sync2 env_reorg None (toy_sync stored123 3))) = 1 \<and>
   vars (snd (Sync2 env_reorg None (toy_sync stored123 3))) = vars0"
proof -
  let ?s = "toy_sync stored123 3"
  let ?t = "?s\<lparr>historyDB := [blk 1 11 10]\<rparr>"
  let ?s2 = "snd (resetState env_reorg (blk 1 11 10) ?t)"
  have mismatch: "Hash (blk 3 13 12) \<noteq> ParentHash (blk 4 34 33)"
    by (simp add: blk_def)
  have low: "startBlockNum ?s \<le> 1"
    by (simp add: toy_sync_def)
  have high: "1 \<le> Num (blk 3 13 12)"
    by (simp add: blk_def)
  have num: "Num (blk 1 11 10) = 1"
    by (simp add: blk_def)
  have snapshot: "GetSCVars env_reorg [blk 1 11 10] = Inr vars0"
    by (simp add: reorg_defs toy_env_def)
  have reset: "resetState env_reorg (blk 1 11 10) ?t = (Inr (), ?s2)"
    using reorg_reset by (simp add: prod_eq_iff)
  note T = parent_hash_mismatch_rewinds_to_common_block[OF reorg_start reorg_next reorg_eth
      mismatch low high reorg_common reorg_held num reorg_truncate snapshot reset]
  have run: "Sync2 env_reorg None ?s = (Inr (Discarded 2), ?s2)"
    using T by (simp add: blk_def)
  have h: "historyDB ?s2 = [blk 1 11 10]" and v: "vars ?s2 = vars0"
    using T by simp_all
  obtain batchNum where "orNoRows ''historyDB.GetLastBatchNum'' 0
      (GetLastBatchNum env_reorg [blk 1 11 10]) = Inr batchNum"
    and "StateDBReset env_reorg (stateDB ?s) batchNum = Inr (stateDB ?s2)"
    using T by blast
  then have d: "stateDB ?s2 = 1"
    by (simp add: reorg_defs toy_env_def orNoRows_def)
  show ?thesis
    using reorg_start reorg_next run h v d by simp
qed

text \<open>
  C3. The claim asks that the synchronizer walks back to the greatest height where the
  block held and the block of the chain have the same hash, and truncates there. The
  loop of \<^verbatim>\<open>reorg\<close> ends either at such a height or below the first block to
  synchronize, and the code after the loop does not ask which: it takes the block read
  last as the valid one. The synchronizer holds the blocks 1, 2 and 3 (hashes 11, 12,
  13), the chain has the blocks 1 to 4 with the hashes 31 to 34, and the first block to
  synchronize is 1: no height has equal hashes, the loop ends below block 1 with the
  block held at height 1, and \<^verbatim>\<open>Sync2\<close> keeps that block, whose hash is not the hash of
  block 1 of the chain, and reports two blocks discarded with no error.
\<close>

theorem reorg_without_common_block_keeps_first_block:
  "GetBlock env_reorg_all (historyDB (toy_sync stored123 3)) 1 = Inr (blk 1 11 10) \<and>
   GetBlock env_reorg_all (historyDB (toy_sync stored123 3)) 2 = Inr (blk 2 12 11) \<and>
   GetBlock env_reorg_all (historyDB (toy_sync stored123 3)) 3 = Inr (blk 3 13 12) \<and>
   EthBlockByNumber env_reorg_all 1 = Inr (blk 1 31 30) \<and>
   EthBlockByNumber env_reorg_all 2 = Inr (blk 2 32 31) \<and>
   EthBlockByNumber env_reorg_all 3 = Inr (blk 3 33 32) \<and>
   EthBlockByNumber env_reorg_all 4 = Inr (blk 4 34 33) \<and>
   startBlockNum (toy_sync stored123 3) = 1 \<and>
   fst (Sync2 env_reorg_all None (toy_sync stored123 3)) = Inr (Discarded 2) \<and>
   historyDB (snd (Sync2 env_reorg_all None (toy_sync stored123 3))) = [blk 1 11 10]"
  by (simp add: reorg_defs sync_defs run_defs toy_defs)

text \<open>
  \<^verbatim>\<open>Sync2\<close> called again finds the parent hash of block 2 of the chain different from
  the hash of the block it kept, and reports no block discarded, each time.
\<close>

lemma reorg_without_common_block_stalls:
  "fst (Sync2 env_reorg_all None (snd (Sync2 env_reorg_all None (toy_sync stored123 3)))) =
     Inr (Discarded 0) \<and>
   historyDB (snd (Sync2 env_reorg_all None
     (snd (Sync2 env_reorg_all None (toy_sync stored123 3))))) = [blk 1 11 10]"
  by (simp add: reorg_defs sync_defs run_defs toy_defs)

lemma reorg_read_error_is_returned:
  "fst (Sync2 env_reorg_fails None (toy_sync stored123 3)) =
     Inl (Errorf ''historyDB.GetBlock'' (ErrCollaborator 7))"
  by (simp add: reorg_defs sync_defs run_defs toy_defs)

section \<open>The transaction processor of the specification\<close>

lemmas tp_defs = ProcessTxs_sdb_def addL1_def processL1Tx_def processL2Tx_def l2Recipient_def
  l1Transfer_def createAccount_sdb_def updateAccount_def getIdxByEthAddrBJJ_def
  getIdxByEthAddr_def feeAmount_def emptyStateDB_def createAccountDeposit_def
  createAccountDepositTransfer_def selfTransfer_def ptc1_def

text \<open>
  C1. On the model of the transaction processor that follows the specification: from
  the empty state, a batch with the two \<^verbatim>\<open>CreateAccountDeposit\<close> of 16000000 of
  \<^verbatim>\<open>TestZKInputs1\<close> (two different users), the transfer of 1000 from the account 256
  to itself with the fee selector 126 and the nonce 0, signed for the account 256, and
  the coordinator index 257, where the entry 126 of the table of fees is 101
  thousandths. The fee is 101. After the L2 transaction the account 257 still holds
  16000000 and 101 are collected for the token 1. \<^verbatim>\<open>ProcessTxs\<close> succeeds; the account
  256 ends with the balance 15999899 and the nonce 1, the account 257 with the balance
  16000101.
\<close>

theorem self_transfer_fee_goes_to_coordinator:
  assumes fee: "feeTable env 126 = 101 / 1000"
    and sig: "verifySignature env (selfTransfer sg) bjj0"
    and users: "addr0 \<noteq> addr1 \<or> bjj0 \<noteq> bjj1"
  shows "feeAmount env 1000 126 = 101 \<and>
         (\<exists>run2.
            processL2Txs env
              (foldl addL1
                 (emptyStateDB\<lparr>currentBatch := Suc n\<rparr>,
                  \<lparr>out_ExitInfos = [], out_CreatedAccounts = [], out_CollectedFees = (\<lambda>tok. 0)\<rparr>)
                 [createAccountDeposit addr0 bjj0, createAccountDeposit addr1 bjj1])
              [selfTransfer sg] = Inr run2 \<and>
            sdb_accounts (fst run2) 257 =
              Some \<lparr>ac_TokenID = 1, ac_Nonce = 0, ac_Balance = 16000000, ac_BJJ = bjj1,
                    ac_EthAddr = addr1\<rparr> \<and>
            out_CollectedFees (snd run2) 1 = 101) \<and>
         (\<exists>out sdb.
            ProcessTxs_sdb env ptc1 [257]
              [createAccountDeposit addr0 bjj0, createAccountDeposit addr1 bjj1] []
              [selfTransfer sg] (emptyStateDB\<lparr>currentBatch := n\<rparr>) = Inr (out, sdb) \<and>
            sdb_accounts sdb 256 =
              Some \<lparr>ac_TokenID = 1, ac_Nonce = 1, ac_Balance = 15999899, ac_BJJ = bjj0,
                    ac_EthAddr = addr0\<rparr> \<and>
            sdb_accounts sdb 257 =
              Some \<lparr>ac_TokenID = 1, ac_Nonce = 0, ac_Balance = 16000101, ac_BJJ = bjj1,
                    ac_EthAddr = addr1\<rparr> \<and>
            out_CollectedFees out 1 = 101)"
proof -
  let ?out0 = "\<lparr>out_ExitInfos = [], out_CreatedAccounts = [], out_CollectedFees = (\<lambda>tok. 0)\<rparr>"
  let ?acc0 = "\<lparr>ac_TokenID = 1, ac_Nonce = 0, ac_Balance = 16000000, ac_BJJ = bjj0,
      ac_EthAddr = addr0\<rparr>"
  let ?acc1 = "\<lparr>ac_TokenID = 1, ac_Nonce = 0, ac_Balance = 16000000, ac_BJJ = bjj1,
      ac_EthAddr = addr1\<rparr>"
  let ?sdb1 = "\<lparr>sdb_accounts = ((\<lambda>i. None)(256 := Some ?acc0))(257 := Some ?acc1), lastIdx = 257,
      currentBatch = Suc n\<rparr>"
  let ?run1 = "(?sdb1, ?out0\<lparr>out_CreatedAccounts := [256, 257]\<rparr>)"
  have f: "feeAmount env 1000 126 = 101"
    unfolding feeAmount_def fee by simp
  have l1: "foldl addL1 (emptyStateDB\<lparr>currentBatch := Suc n\<rparr>, ?out0)
      [createAccountDeposit addr0 bjj0, createAccountDeposit addr1 bjj1] = ?run1"
    using users
    by (auto simp: addL1_def processL1Tx_def createAccount_sdb_def getIdxByEthAddrBJJ_def
        emptyStateDB_def createAccountDeposit_def upt_rec)
  let ?sdb2 = "?sdb1\<lparr>sdb_accounts :=
      (sdb_accounts ?sdb1)(256 := Some (?acc0\<lparr>ac_Nonce := 1, ac_Balance := 15999899\<rparr>))\<rparr>"
  let ?out2 = "?out0\<lparr>out_CreatedAccounts := [256, 257],
      out_CollectedFees := (\<lambda>tok. 0)(1 := 101)\<rparr>"
  have l2: "processL2Txs env ?run1 [selfTransfer sg] = Inr (?sdb2, ?out2)"
    using sig f
    by (simp add: processL2Tx_def l2Recipient_def updateAccount_def selfTransfer_def)
  have fees: "distributeFees ?sdb2 (out_CollectedFees ?out2) [257] =
      Inr (?sdb2\<lparr>sdb_accounts :=
        (sdb_accounts ?sdb2)(257 := Some (?acc1\<lparr>ac_Balance := 16000101\<rparr>))\<rparr>)"
    by (simp add: updateAccount_def)
  have run: "ProcessTxs_sdb env ptc1 [257]
      [createAccountDeposit addr0 bjj0, createAccountDeposit addr1 bjj1] []
      [selfTransfer sg] (emptyStateDB\<lparr>currentBatch := n\<rparr>) =
      Inr (?out2, ?sdb2\<lparr>sdb_accounts :=
        (sdb_accounts ?sdb2)(257 := Some (?acc1\<lparr>ac_Balance := 16000101\<rparr>))\<rparr>)"
    unfolding ProcessTxs_sdb_def
    using l1 l2 fees by (simp add: ptc1_def emptyStateDB_def)
  have a: "\<exists>run2.
      processL2Txs env
        (foldl addL1 (emptyStateDB\<lparr>currentBatch := Suc n\<rparr>, ?out0)
           [createAccountDeposit addr0 bjj0, createAccountDeposit addr1 bjj1])
        [selfTransfer sg] = Inr run2 \<and>
      sdb_accounts (fst run2) 257 = Some ?acc1 \<and> out_CollectedFees (snd run2) 1 = 101"
    unfolding l1 l2 by simp
  have b: "\<exists>out sdb.
      ProcessTxs_sdb env ptc1 [257]
        [createAccountDeposit addr0 bjj0, createAccountDeposit addr1 bjj1] []
        [selfTransfer sg] (emptyStateDB\<lparr>currentBatch := n\<rparr>) = Inr (out, sdb) \<and>
      sdb_accounts sdb 256 =
        Some \<lparr>ac_TokenID = 1, ac_Nonce = 1, ac_Balance = 15999899, ac_BJJ = bjj0,
              ac_EthAddr = addr0\<rparr> \<and>
      sdb_accounts sdb 257 =
        Some \<lparr>ac_TokenID = 1, ac_Nonce = 0, ac_Balance = 16000101, ac_BJJ = bjj1,
              ac_EthAddr = addr1\<rparr> \<and>
      out_CollectedFees out 1 = 101"
    unfolding run by simp
  show ?thesis
    using f a b by (intro conjI)
qed

theorem self_transfer_fee_goes_to_coordinator_witness:
  "feeTable env1 126 = 101 / 1000 \<and> verifySignature env1 (selfTransfer 20) 20 \<and>
   feeAmount env1 1000 126 = 101 \<and>
   (case ProcessTxs_sdb env1 ptc1 [257]
           [createAccountDeposit 10 20, createAccountDeposit 11 21] []
           [selfTransfer 20] (emptyStateDB\<lparr>currentBatch := 1\<rparr>) of
      Inl err \<Rightarrow> []
    | Inr (out, sdb) \<Rightarrow> [sdb_accounts sdb 256, sdb_accounts sdb 257]) =
     [Some \<lparr>ac_TokenID = 1, ac_Nonce = 1, ac_Balance = 15999899, ac_BJJ = 20, ac_EthAddr = 10\<rparr>,
      Some \<lparr>ac_TokenID = 1, ac_Nonce = 0, ac_Balance = 16000101, ac_BJJ = 21, ac_EthAddr = 11\<rparr>]"
proof -
  have fee: "feeTable env1 126 = 101 / 1000"
    by (simp add: env1_def)
  have sig: "verifySignature env1 (selfTransfer 20) 20"
    by (simp add: env1_def selfTransfer_def)
  have users: "(10 :: address) \<noteq> 11 \<or> (20 :: hash) \<noteq> 21"
    by simp
  note T = self_transfer_fee_goes_to_coordinator[OF fee sig users, of 1]
  obtain out sdb where "ProcessTxs_sdb env1 ptc1 [257]
        [createAccountDeposit 10 20, createAccountDeposit 11 21] []
        [selfTransfer 20] (emptyStateDB\<lparr>currentBatch := 1\<rparr>) = Inr (out, sdb)"
    and "sdb_accounts sdb 256 =
      Some \<lparr>ac_TokenID = 1, ac_Nonce = 1, ac_Balance = 15999899, ac_BJJ = 20, ac_EthAddr = 10\<rparr>"
    and "sdb_accounts sdb 257 =
      Some \<lparr>ac_TokenID = 1, ac_Nonce = 0, ac_Balance = 16000101, ac_BJJ = 21, ac_EthAddr = 11\<rparr>"
    using T by blast
  then show ?thesis
    using fee sig T by simp
qed





end
